theory Spec2Isabelle
  imports Complex_Main "HOL-Library.Log_Nat"
begin

section \<open>Python values used by the correlation engine\<close>

text \<open>
  A Python float is an IEEE 754 binary64 number. It is modelled by the real number it
  denotes, and every arithmetic operation that the interpreter rounds is rounded here by
  \<open>double\<close>, defined below. Timestamps are seconds on the real line.

  The two timestamp arguments of \<open>calculate_temporal_score\<close> may be \<open>datetime\<close> objects,
  strings (which the function passes to \<open>datetime.fromisoformat\<close>) or \<open>None\<close> (a NULL
  column). A string is represented by what \<open>fromisoformat\<close> does with it: \<open>IsoString t\<close>
  parses to the instant \<open>t\<close>, \<open>BadString\<close> makes it raise \<open>ValueError\<close>.
\<close>

datatype py_exception = TypeError | ValueError | DatabaseError

datatype timestamp = NoneTS | Datetime real | IsoString real | BadString

fun fromisoformat_if_str :: "timestamp \<Rightarrow> py_exception + timestamp" where
  "fromisoformat_if_str (IsoString t) = Inr (Datetime t)"
| "fromisoformat_if_str BadString = Inl ValueError"
| "fromisoformat_if_str v = Inr v"

text \<open>\<open>(a - b).total_seconds()\<close>: subtraction is defined on two datetimes only.\<close>

fun total_seconds_between :: "timestamp \<Rightarrow> timestamp \<Rightarrow> py_exception + real" where
  "total_seconds_between (Datetime a) (Datetime b) = Inr (a - b)"
| "total_seconds_between _ _ = Inl TypeError"

text \<open>
  Rounding to \<open>ndigits\<close> decimal places: the nearest multiple of \<open>10 ^ -ndigits\<close>, a
  tie going to the even neighbour. This is the decimal number that Python's
  \<open>round(x, ndigits)\<close> computes from the exact value of the float \<open>x\<close>; what
  \<open>round\<close> returns is the float nearest to it, \<open>float_round\<close> below.
\<close>

definition py_round :: "real \<Rightarrow> nat \<Rightarrow> real" where
  "py_round x ndigits =
     (let y = x * 10 ^ ndigits;
          f = \<lfloor>y\<rfloor>;
          d = y - of_int f
      in of_int (if d < 1 / 2 then f
                 else if 1 / 2 < d then f + 1
                 else if even f then f else f + 1) / 10 ^ ndigits)"

section \<open>Binary64 arithmetic\<close>

text \<open>
  Rounding to the nearest integer, ties to even, and the exponent \<open>e\<close> of a non-zero real
  \<open>x\<close>, the integer with \<open>2 ^ e \<le> \<bar>x\<bar> < 2 ^ (e + 1)\<close>.
\<close>

definition round_half_even :: "real \<Rightarrow> int" where
  "round_half_even y =
     (let f = \<lfloor>y\<rfloor>; d = y - of_int f
      in if d < 1 / 2 then f
         else if 1 / 2 < d then f + 1
         else if even f then f else f + 1)"

definition binary_exponent :: "real \<Rightarrow> int" where
  "binary_exponent x =
     (if 1 \<le> \<bar>x\<bar> then int (floorlog 2 (nat \<lfloor>\<bar>x\<bar>\<rfloor>)) - 1
      else - int (floorlog 2 (nat \<lceil>1 / \<bar>x\<bar>\<rceil> - 1)))"

text \<open>
  \<open>double x\<close> is the binary64 number nearest to \<open>x\<close>, ties to the even significand: 53
  significant bits, exponents from -1022 (below that the spacing stays \<open>2 ^ -1074\<close>).
  Overflow to infinity is left out: the byte counts and bandwidths are 64-bit integers and
  the time differences span at most the range of \<open>datetime\<close>, far below \<open>2 ^ 1024\<close>.
  It models each rounded operation: \<open>a + b\<close> on floats is \<open>double (a + b)\<close>, the true
  division of two integers is \<open>double (a / b)\<close>, a literal \<open>0.1\<close> is \<open>double 0.1\<close>.
\<close>

definition double :: "real \<Rightarrow> real" where
  "double x =
     (if x = 0 then 0
      else (let e = max (binary_exponent x) (- 1022);
                ulp = 2 powi (e - 52)
            in of_int (round_half_even (x / ulp)) * ulp))"

text \<open>\<open>round(x, ndigits)\<close> on a float \<open>x\<close>.\<close>

definition float_round :: "real \<Rightarrow> nat \<Rightarrow> real" where
  "float_round x ndigits = double (py_round x ndigits)"

section \<open>The three component scores\<close>

text \<open>
  \<open>calculate_temporal_score\<close> is the decay profile in exact arithmetic, as a function of
  the time difference; \<open>calculate_temporal_score_double\<close> is the same code as the
  interpreter evaluates it, every operation rounded to binary64. \<open>total_seconds()\<close> is
  a correctly rounded division of two integers.
\<close>

definition calculate_temporal_score :: "timestamp \<Rightarrow> timestamp \<Rightarrow> real" where
  "calculate_temporal_score flow_timestamp node_last_seen =
     (case fromisoformat_if_str flow_timestamp of
        Inl e \<Rightarrow> 0
      | Inr flow_ts \<Rightarrow>
          (case fromisoformat_if_str node_last_seen of
             Inl e \<Rightarrow> 0
           | Inr node_ts \<Rightarrow>
               (case total_seconds_between flow_ts node_ts of
                  Inl e \<Rightarrow> 0
                | Inr delta \<Rightarrow>
                    (let time_diff = \<bar>delta\<bar>
                     in if time_diff \<le> 300 then 1
                        else if time_diff \<le> 3600 then 1 - (time_diff - 300) / 3300
                        else max 0.1 (1 - time_diff / 86400)))))"

definition calculate_temporal_score_double :: "timestamp \<Rightarrow> timestamp \<Rightarrow> real" where
  "calculate_temporal_score_double flow_timestamp node_last_seen =
     (case fromisoformat_if_str flow_timestamp of
        Inl e \<Rightarrow> 0
      | Inr flow_ts \<Rightarrow>
          (case fromisoformat_if_str node_last_seen of
             Inl e \<Rightarrow> 0
           | Inr node_ts \<Rightarrow>
               (case total_seconds_between flow_ts node_ts of
                  Inl e \<Rightarrow> 0
                | Inr delta \<Rightarrow>
                    (let time_diff = \<bar>double delta\<bar>
                     in if time_diff \<le> 300 then 1
                        else if time_diff \<le> 3600
                        then double (1 - double (double (time_diff - 300) / 3300))
                        else max (double 0.1) (double (1 - double (time_diff / 86400)))))))"

text \<open>
  \<open>flow_byte_count\<close> and \<open>node_bandwidth_kb\<close> are BIGINT columns: an integer or NULL.
  \<open>None * 1024\<close> and \<open>None / n\<close> raise \<open>TypeError\<close>, which the function turns into 0.
  The product \<open>node_bandwidth_kb * 1024\<close> is an exact integer; the utilization is the
  correctly rounded quotient of two integers, and every later operation is a float one.
\<close>

definition calculate_bandwidth_score :: "int option \<Rightarrow> int option \<Rightarrow> real" where
  "calculate_bandwidth_score flow_byte_count node_bandwidth_kb =
     (case node_bandwidth_kb of
        None \<Rightarrow> 0
      | Some kb \<Rightarrow>
          (let node_bandwidth_bytes = kb * 1024
           in if node_bandwidth_bytes = 0 then 0.5
              else (case flow_byte_count of
                      None \<Rightarrow> 0
                    | Some bytes \<Rightarrow>
                        (let utilization =
                               double (real_of_int bytes / real_of_int node_bandwidth_bytes)
                         in if double 0.1 \<le> utilization \<and> utilization \<le> double 0.8 then 1
                            else if utilization < double 0.1
                            then double (utilization / double 0.1)
                            else max (double 0.2)
                                   (double (1 - double (double (utilization - double 0.8)
                                                        / double 0.2)))))))"

text \<open>
  \<open>not flow_fingerprint\<close> holds for \<open>None\<close> and for the empty string,
  \<open>not historical_fingerprints\<close> for the empty list. The score is written in exact
  arithmetic; the engine only calls it with the empty history, where it returns the
  literal 0.5 before any arithmetic.
\<close>

definition calculate_pattern_score :: "string option \<Rightarrow> string list \<Rightarrow> real" where
  "calculate_pattern_score flow_fingerprint historical_fingerprints =
     (if flow_fingerprint = None \<or> flow_fingerprint = Some [] \<or> historical_fingerprints = []
      then 0.5
      else (let matches = length (filter (\<lambda>fp. Some fp = flow_fingerprint) historical_fingerprints)
            in if matches > 0 then min 1 (0.5 + real matches * 0.1)
               else 0.3))"

section \<open>Configuration and the datastore\<close>

text \<open>The correlation settings of \<open>config.py\<close>; the threshold is the float literal \<open>0.3\<close>.\<close>

record config =
  TIME_WINDOW_SECONDS :: int
  MIN_CONFIDENCE_THRESHOLD :: real
  MAX_CANDIDATE_NODES :: nat

definition Config :: config where
  "Config =
     \<lparr>TIME_WINDOW_SECONDS = 300, MIN_CONFIDENCE_THRESHOLD = double 0.3, MAX_CANDIDATE_NODES = 10\<rparr>"

text \<open>
  The columns of the three tables that the correlation engine reads or writes. A nullable
  column the engine computes with is an \<open>option\<close>. The \<open>evidence\<close> column is the object
  handed to \<open>json.dumps\<close>. A table is the list of its rows in storage order, which is the
  order an unordered \<open>SELECT\<close> is taken to return them in.
\<close>

record tor_node =
  fingerprint :: string
  nickname :: "string option"
  ip_address :: string
  bandwidth_kb :: "int option"
  country_code :: "string option"
  last_seen :: "real option"
  is_guard :: bool
  is_exit :: bool
  is_running :: bool

record network_flow =
  flow_id :: int
  timestamp :: "real option"
  dst_ip :: string
  byte_count :: "int option"
  flow_fingerprint :: "string option"

record evidence =
  node_nickname :: "string option"
  node_ip :: string
  node_country :: "string option"
  exit_node_used :: string
  time_window_seconds :: int

record correlation =
  cr_flow_id :: int
  candidate_node_fingerprint :: string
  confidence_score :: real
  temporal_score :: real
  bandwidth_score :: real
  pattern_score :: real
  evidence :: evidence

text \<open>
  \<open>faults\<close> schedules datastore failures: every use of \<open>Database.get_connection\<close> takes
  the head of the list, and \<open>True\<close> makes that connection's statement fail. An exhausted
  schedule means no further failure.
\<close>

record database =
  tor_nodes :: "tor_node list"
  network_flows :: "network_flow list"
  correlation_results :: "correlation list"
  faults :: "bool list"

text \<open>
  \<open>Database.get_connection\<close>: run the statement and commit, or roll back and re-raise.
  A failed statement leaves the tables as they were.
\<close>

definition get_connection ::
  "(database \<Rightarrow> 'a \<times> database) \<Rightarrow> database \<Rightarrow> (py_exception + 'a) \<times> database" where
  "get_connection stmt db =
     (case faults db of
        [] \<Rightarrow> (let (r, db') = stmt db in (Inr r, db'))
      | failed # rest \<Rightarrow>
          (if failed then (Inl DatabaseError, db\<lparr>faults := rest\<rparr>)
           else (let (r, db') = stmt (db\<lparr>faults := rest\<rparr>) in (Inr r, db'))))"

definition insert_correlation :: "correlation \<Rightarrow> database \<Rightarrow> (py_exception + unit) \<times> database" where
  "insert_correlation correlation_data db =
     get_connection
       (\<lambda>d. ((), d\<lparr>correlation_results := correlation_results d @ [correlation_data]\<rparr>)) db"

text \<open>\<open>if limit:\<close> is false for \<open>None\<close> and for 0.\<close>

definition get_guard_nodes :: "nat option \<Rightarrow> database \<Rightarrow> (py_exception + tor_node list) \<times> database" where
  "get_guard_nodes limit db =
     get_connection
       (\<lambda>d. (let rows = filter (\<lambda>n. is_guard n \<and> is_running n) (tor_nodes d)
             in (case limit of
                   None \<Rightarrow> rows
                 | Some l \<Rightarrow> if l = 0 then rows else take l rows), d)) db"

section \<open>Correlating one flow\<close>

definition column_timestamp :: "real option \<Rightarrow> timestamp" where
  "column_timestamp c = (case c of None \<Rightarrow> NoneTS | Some t \<Rightarrow> Datetime t)"

text \<open>
  The body of the loop over the guard nodes; \<open>correlations\<close> is the list built so far.
  The weighted sum is evaluated left to right, each product and each sum rounded.
\<close>

fun score_candidates ::
  "config \<Rightarrow> int \<Rightarrow> real \<Rightarrow> network_flow \<Rightarrow> tor_node list \<Rightarrow> correlation list \<Rightarrow> database
     \<Rightarrow> (py_exception + correlation list) \<times> database" where
  "score_candidates cfg fid flow_timestamp flow [] correlations db = (Inr correlations, db)"
| "score_candidates cfg fid flow_timestamp flow (node # guard_nodes) correlations db =
     (let temporal = calculate_temporal_score_double (Datetime flow_timestamp)
                       (column_timestamp (last_seen node));
          bandwidth = calculate_bandwidth_score (byte_count flow) (bandwidth_kb node);
          pattern = calculate_pattern_score (flow_fingerprint flow) [];
          confidence = double (double (double (temporal * 0.5) + double (bandwidth * double 0.3))
                               + double (pattern * double 0.2))
      in if confidence \<ge> MIN_CONFIDENCE_THRESHOLD cfg
         then (let correlation_data =
                     \<lparr>cr_flow_id = fid,
                      candidate_node_fingerprint = fingerprint node,
                      confidence_score = float_round confidence 4,
                      temporal_score = float_round temporal 4,
                      bandwidth_score = float_round bandwidth 4,
                      pattern_score = float_round pattern 4,
                      evidence = \<lparr>node_nickname = nickname node,
                                  node_ip = ip_address node,
                                  node_country = country_code node,
                                  exit_node_used = dst_ip flow,
                                  time_window_seconds = TIME_WINDOW_SECONDS cfg\<rparr>\<rparr>
               in (case insert_correlation correlation_data db of
                     (Inl e, db') \<Rightarrow> (Inl e, db')
                   | (Inr u, db') \<Rightarrow>
                       score_candidates cfg fid flow_timestamp flow guard_nodes
                         (correlations @ [correlation_data]) db'))
         else score_candidates cfg fid flow_timestamp flow guard_nodes correlations db)"

text \<open>
  The \<open>try\<close> block of \<open>correlate_flow_to_guards\<close>. Computing the time window subtracts a
  \<open>timedelta\<close> from the flow's timestamp, which raises \<open>TypeError\<close> on a NULL timestamp;
  the window itself is not used afterwards. \<open>list.sort(reverse=True)\<close> is stable, as is
  \<open>sort_key\<close> on the negated key.
\<close>

definition correlate_flow_to_guards_try ::
  "config \<Rightarrow> int \<Rightarrow> database \<Rightarrow> (py_exception + correlation list) \<times> database" where
  "correlate_flow_to_guards_try cfg fid db =
     (case get_connection (\<lambda>d. (find (\<lambda>f. flow_id f = fid) (network_flows d), d)) db of
        (Inl e, db1) \<Rightarrow> (Inl e, db1)
      | (Inr None, db1) \<Rightarrow> (Inr [], db1)
      | (Inr (Some flow), db1) \<Rightarrow>
          (case get_connection
                  (\<lambda>d. (find (\<lambda>n. ip_address n = dst_ip flow \<and> is_exit n) (tor_nodes d), d)) db1 of
             (Inl e, db2) \<Rightarrow> (Inl e, db2)
           | (Inr None, db2) \<Rightarrow> (Inr [], db2)
           | (Inr (Some exit_node), db2) \<Rightarrow>
               (case timestamp flow of
                  None \<Rightarrow> (Inl TypeError, db2)
                | Some flow_timestamp \<Rightarrow>
                    (case get_guard_nodes (Some 100) db2 of
                       (Inl e, db3) \<Rightarrow> (Inl e, db3)
                     | (Inr guard_nodes, db3) \<Rightarrow>
                         (case score_candidates cfg fid flow_timestamp flow guard_nodes [] db3 of
                            (Inl e, db4) \<Rightarrow> (Inl e, db4)
                          | (Inr correlations, db4) \<Rightarrow>
                              (Inr (take (MAX_CANDIDATE_NODES cfg)
                                      (sort_key (\<lambda>c. - confidence_score c) correlations)),
                               db4))))))"

text \<open>\<open>except Exception\<close>: the error is logged and the empty list returned.\<close>

definition correlate_flow_to_guards :: "config \<Rightarrow> int \<Rightarrow> database \<Rightarrow> correlation list \<times> database" where
  "correlate_flow_to_guards cfg fid db =
     (case correlate_flow_to_guards_try cfg fid db of
        (Inl e, db') \<Rightarrow> ([], db')
      | (Inr correlations, db') \<Rightarrow> (correlations, db'))"

section \<open>The batch\<close>

datatype batch_result =
  Batch (flows_processed: nat) (total_correlations: nat)
| BatchError

fun correlate_each :: "config \<Rightarrow> int list \<Rightarrow> nat \<Rightarrow> database \<Rightarrow> nat \<times> database" where
  "correlate_each cfg [] total_found db = (total_found, db)"
| "correlate_each cfg (fid # flow_ids) total_found db =
     (let (correlations, db') = correlate_flow_to_guards cfg fid db
      in correlate_each cfg flow_ids (total_found + length correlations) db')"

definition uncorrelated_flow_ids :: "database \<Rightarrow> int list" where
  "uncorrelated_flow_ids d =
     map flow_id
       (filter (\<lambda>f. flow_id f \<notin> set (map cr_flow_id (correlation_results d))) (network_flows d))"

definition correlate_all_flows :: "config \<Rightarrow> database \<Rightarrow> batch_result \<times> database" where
  "correlate_all_flows cfg db =
     (case get_connection (\<lambda>d. (uncorrelated_flow_ids d, d)) db of
        (Inl e, db1) \<Rightarrow> (BatchError, db1)
      | (Inr flow_ids, db1) \<Rightarrow>
          (let (total_found, db2) = correlate_each cfg flow_ids 0 db1
           in (Batch (length flow_ids) total_found, db2)))"

section \<open>Flow fingerprints\<close>

text \<open>
  A captured packet: its wire length \<open>len(pkt)\<close> and its capture time in seconds, a
  decimal number. The difference of two capture times is exact; \<open>float\<close> rounds it to
  binary64 and the product with 1000 is rounded again. \<open>int(x)\<close> on a float truncates
  toward zero; \<open>str\<close> of an integer is its decimal form.
\<close>

record packet =
  pkt_len :: nat
  pkt_time :: real

definition py_int :: "real \<Rightarrow> int" where
  "py_int x = (if 0 \<le> x then \<lfloor>x\<rfloor> else \<lceil>x\<rceil>)"

fun str_nat :: "nat \<Rightarrow> string" where
  "str_nat n = (if n < 10 then [''0123456789'' ! n]
                else str_nat (n div 10) @ [''0123456789'' ! (n mod 10)])"

definition str_int :: "int \<Rightarrow> string" where
  "str_int i = (if i < 0 then CHR ''-'' # str_nat (nat (- i)) else str_nat (nat i))"

fun join :: "string \<Rightarrow> string list \<Rightarrow> string" where
  "join sep [] = []"
| "join sep [x] = x"
| "join sep (x # y # ys) = x @ sep @ join sep (y # ys)"

text \<open>
  \<open>sha256_hexdigest\<close> stands for \<open>hashlib.sha256(s.encode()).hexdigest()\<close>, the 64
  hexadecimal digits of the digest.
\<close>

definition calculate_flow_fingerprint :: "(string \<Rightarrow> string) \<Rightarrow> packet list \<Rightarrow> string" where
  "calculate_flow_fingerprint sha256_hexdigest packets =
     (if packets = [] then []
      else (let sizes = map (\<lambda>pkt. int (pkt_len pkt)) (take 20 packets);
                times = (if length packets > 1
                         then map (\<lambda>i. py_int (double (double (pkt_time (packets ! i)
                                                                 - pkt_time (packets ! (i - 1)))
                                                         * 1000)))
                                [1..<min (length packets) 20]
                         else []);
                fingerprint_str = ''sizes:'' @ join '','' (map str_int sizes)
                                  @ '';times:'' @ join '','' (map str_int times)
            in take 32 (sha256_hexdigest fingerprint_str)))"

section \<open>The specification's view of one correlation pass\<close>

text \<open>
  Steps 3 to 5 of the specification, written as it words them: the weighted confidence of
  a candidate, in exact arithmetic (\<open>weighted_confidence\<close>) and in binary64
  (\<open>weighted_confidence_double\<close>), the record built for a candidate (every score rounded
  to four decimal places), and the candidates that survive the threshold, as records in
  candidate order.
\<close>

definition weighted_confidence :: "real \<Rightarrow> real \<Rightarrow> real \<Rightarrow> real" where
  "weighted_confidence temporal bandwidth pattern =
     0.5 * temporal + 0.3 * bandwidth + 0.2 * pattern"

definition weighted_confidence_double :: "real \<Rightarrow> real \<Rightarrow> real \<Rightarrow> real" where
  "weighted_confidence_double temporal bandwidth pattern =
     double (double (double (temporal * 0.5) + double (bandwidth * double 0.3))
             + double (pattern * double 0.2))"

definition candidate_temporal :: "real \<Rightarrow> tor_node \<Rightarrow> real" where
  "candidate_temporal ts node =
     calculate_temporal_score_double (Datetime ts) (column_timestamp (last_seen node))"

definition candidate_bandwidth :: "network_flow \<Rightarrow> tor_node \<Rightarrow> real" where
  "candidate_bandwidth flow node =
     calculate_bandwidth_score (byte_count flow) (bandwidth_kb node)"

definition candidate_confidence :: "real \<Rightarrow> network_flow \<Rightarrow> tor_node \<Rightarrow> real" where
  "candidate_confidence ts flow node =
     weighted_confidence_double (candidate_temporal ts node) (candidate_bandwidth flow node)
       (calculate_pattern_score (flow_fingerprint flow) [])"

definition correlation_record :: "config \<Rightarrow> int \<Rightarrow> real \<Rightarrow> network_flow \<Rightarrow> tor_node \<Rightarrow> correlation" where
  "correlation_record cfg fid ts flow node =
     \<lparr>cr_flow_id = fid,
      candidate_node_fingerprint = fingerprint node,
      confidence_score = float_round (candidate_confidence ts flow node) 4,
      temporal_score = float_round (candidate_temporal ts node) 4,
      bandwidth_score = float_round (candidate_bandwidth flow node) 4,
      pattern_score = float_round (calculate_pattern_score (flow_fingerprint flow) []) 4,
      evidence = \<lparr>node_nickname = nickname node,
                  node_ip = ip_address node,
                  node_country = country_code node,
                  exit_node_used = dst_ip flow,
                  time_window_seconds = TIME_WINDOW_SECONDS cfg\<rparr>\<rparr>"

definition surviving_results ::
  "config \<Rightarrow> int \<Rightarrow> real \<Rightarrow> network_flow \<Rightarrow> tor_node list \<Rightarrow> correlation list" where
  "surviving_results cfg fid ts flow nodes =
     map (correlation_record cfg fid ts flow)
       (filter (\<lambda>n. MIN_CONFIDENCE_THRESHOLD cfg \<le> candidate_confidence ts flow n) nodes)"

text \<open>The candidate set of step 2: running guard nodes, at most the first 100.\<close>

definition candidate_nodes :: "database \<Rightarrow> tor_node list" where
  "candidate_nodes db = take 100 (filter (\<lambda>n. is_guard n \<and> is_running n) (tor_nodes db))"

text \<open>
  The records a pass over flow \<open>fid\<close> has to write: none when the flow is unknown, its
  destination is no exit node or its timestamp is NULL, the surviving results otherwise.
\<close>

definition flow_results :: "config \<Rightarrow> int \<Rightarrow> database \<Rightarrow> correlation list" where
  "flow_results cfg fid db =
     (case find (\<lambda>f. flow_id f = fid) (network_flows db) of
        None \<Rightarrow> []
      | Some flow \<Rightarrow>
          (case find (\<lambda>n. ip_address n = dst_ip flow \<and> is_exit n) (tor_nodes db) of
             None \<Rightarrow> []
           | Some exit_node \<Rightarrow>
               (case timestamp flow of
                  None \<Rightarrow> []
                | Some ts \<Rightarrow> surviving_results cfg fid ts flow (candidate_nodes db))))"

text \<open>
  The fingerprint input as the specification words it: the inter-arrival times of
  successive packets in milliseconds, truncated toward zero; \<open>inter_arrival_ms\<close> takes
  the exact product, \<open>inter_arrival_ms_double\<close> the float product.
\<close>

definition truncate_toward_zero :: "real \<Rightarrow> int" where
  "truncate_toward_zero x = (if x < 0 then - \<lfloor>\<bar>x\<bar>\<rfloor> else \<lfloor>\<bar>x\<bar>\<rfloor>)"

fun inter_arrival_ms :: "packet list \<Rightarrow> int list" where
  "inter_arrival_ms (p # q # ps) =
     truncate_toward_zero ((pkt_time q - pkt_time p) * 1000) # inter_arrival_ms (q # ps)"
| "inter_arrival_ms ps = []"

fun inter_arrival_ms_double :: "packet list \<Rightarrow> int list" where
  "inter_arrival_ms_double (p # q # ps) =
     truncate_toward_zero (double (double (pkt_time q - pkt_time p) * 1000))
       # inter_arrival_ms_double (q # ps)"
| "inter_arrival_ms_double ps = []"

section \<open>A small datastore for concrete runs\<close>

text \<open>
  One flow towards one exit node, \<open>n\<close> running guard nodes after it, and a failure
  schedule. For every guard the time difference is 0 and the utilization 0.5.
\<close>

definition example_exit :: tor_node where
  "example_exit =
     \<lparr>fingerprint = ''E0'', nickname = Some ''exit'', ip_address = ''185.220.101.1'',
      bandwidth_kb = Some 1000, country_code = None, last_seen = Some 1000,
      is_guard = False, is_exit = True, is_running = True\<rparr>"

definition example_guard :: "nat \<Rightarrow> tor_node" where
  "example_guard i =
     \<lparr>fingerprint = CHR ''G'' # str_nat i, nickname = Some ''guard'', ip_address = ''199.249.230.1'',
      bandwidth_kb = Some 1000, country_code = None, last_seen = Some 1000,
      is_guard = True, is_exit = False, is_running = True\<rparr>"

definition example_flow :: network_flow where
  "example_flow =
     \<lparr>flow_id = 1, timestamp = Some 1000, dst_ip = ''185.220.101.1'',
      byte_count = Some 512000, flow_fingerprint = Some ''0f''\<rparr>"

definition example_db :: "nat \<Rightarrow> bool list \<Rightarrow> database" where
  "example_db n schedule =
     \<lparr>tor_nodes = example_exit # map example_guard [0..<n],
      network_flows = [example_flow],
      correlation_results = [],
      faults = schedule\<rparr>"

section \<open>Properties of binary64 rounding\<close>

lemma rhe_nearest: "\<bar>y - of_int m\<bar> < 1 / 2 \<Longrightarrow> round_half_even y = m"
proof -
  assume a: "\<bar>y - of_int m\<bar> < 1 / 2"
  show ?thesis
  proof (cases "of_int m \<le> y")
    case True
    with a have "\<lfloor>y\<rfloor> = m" by (intro floor_unique) (auto simp: abs_if split: if_splits)
    with a True show ?thesis by (auto simp: round_half_even_def Let_def abs_if split: if_splits)
  next
    case False
    with a have "\<lfloor>y\<rfloor> = m - 1" by (intro floor_unique) (auto simp: abs_if split: if_splits)
    with a False show ?thesis by (auto simp: round_half_even_def Let_def abs_if split: if_splits)
  qed
qed

lemma rhe_tie_up: "y = of_int m - 1 / 2 \<Longrightarrow> even m \<Longrightarrow> round_half_even y = m"
proof -
  assume a: "y = of_int m - 1 / 2" and e: "even m"
  then have "\<lfloor>y\<rfloor> = m - 1" by (intro floor_unique) auto
  with a e show ?thesis by (auto simp: round_half_even_def Let_def)
qed

lemma rhe_tie_down: "y = of_int m + 1 / 2 \<Longrightarrow> even m \<Longrightarrow> round_half_even y = m"
proof -
  assume a: "y = of_int m + 1 / 2" and e: "even m"
  then have "\<lfloor>y\<rfloor> = m" by (intro floor_unique) auto
  with a e show ?thesis by (auto simp: round_half_even_def Let_def)
qed

lemma rhe_within: "\<bar>of_int (round_half_even y) - y\<bar> \<le> 1 / 2"
  unfolding round_half_even_def Let_def
  by (auto simp: abs_if) linarith+

lemma rhe_of_int [simp]: "round_half_even (of_int m) = m"
  by (rule rhe_nearest) simp

lemma rhe_le: "y \<le> of_int m \<Longrightarrow> round_half_even y \<le> m"
proof -
  assume a: "y \<le> of_int m"
  then have f: "\<lfloor>y\<rfloor> \<le> m" by (simp add: floor_le_iff)
  show ?thesis
  proof (cases "\<lfloor>y\<rfloor> + 1 \<le> m")
    case True
    with f show ?thesis by (auto simp: round_half_even_def Let_def)
  next
    case False
    with f have "\<lfloor>y\<rfloor> = m" by simp
    moreover from this a have "y = of_int m" by (metis of_int_floor_le order_antisym)
    ultimately show ?thesis by simp
  qed
qed

lemma rhe_ge: "of_int m \<le> y \<Longrightarrow> m \<le> round_half_even y"
proof -
  assume "of_int m \<le> y"
  then have "m \<le> \<lfloor>y\<rfloor>" by (simp add: le_floor_iff)
  then show ?thesis by (auto simp: round_half_even_def Let_def)
qed

lemma rhe_mono: "y \<le> z \<Longrightarrow> round_half_even y \<le> round_half_even z"
proof -
  assume a: "y \<le> z"
  then have f: "\<lfloor>y\<rfloor> \<le> \<lfloor>z\<rfloor>" by (rule floor_mono)
  show ?thesis
  proof (cases "\<lfloor>y\<rfloor> = \<lfloor>z\<rfloor>")
    case True
    with a show ?thesis by (auto simp: round_half_even_def Let_def)
  next
    case False
    with f have "\<lfloor>y\<rfloor> + 1 \<le> \<lfloor>z\<rfloor>" by simp
    moreover have "round_half_even y \<le> \<lfloor>y\<rfloor> + 1" by (auto simp: round_half_even_def Let_def)
    moreover have "\<lfloor>z\<rfloor> \<le> round_half_even z" by (auto simp: round_half_even_def Let_def)
    ultimately show ?thesis by linarith
  qed
qed

lemma rhe_minus: "round_half_even (- y) = - round_half_even y"
proof (cases "y = of_int \<lfloor>y\<rfloor>")
  case True
  then obtain m where "y = of_int m" by blast
  then show ?thesis by (simp flip: of_int_minus)
next
  case False
  then have c: "\<lceil>y\<rceil> = \<lfloor>y\<rfloor> + 1" by (simp add: ceiling_altdef)
  have fl: "\<lfloor>- y\<rfloor> = - \<lfloor>y\<rfloor> - 1" using c by (simp add: ceiling_def)
  have lt: "of_int \<lfloor>y\<rfloor> < y" using False by (metis of_int_floor_le order_less_le)
  show ?thesis
    using lt unfolding round_half_even_def Let_def fl
    by (auto simp: algebra_simps)
qed

lemma binary_exponent_bounds:
  assumes "x \<noteq> 0"
  shows "2 powi binary_exponent x \<le> \<bar>x\<bar> \<and> \<bar>x\<bar> < 2 powi (binary_exponent x + 1)"
proof (cases "1 \<le> \<bar>x\<bar>")
  case True
  let ?n = "nat \<lfloor>\<bar>x\<bar>\<rfloor>"
  let ?k = "floorlog 2 ?n"
  from True have n: "0 < ?n" by simp
  from floorlog_bounds [OF n, of 2] have b: "2 ^ (?k - 1) \<le> ?n" "?n < 2 ^ ?k" by simp_all
  have k: "0 < ?k" using n by (simp add: floorlog_def)
  have E: "binary_exponent x = int ?k - 1" using True by (simp add: binary_exponent_def)
  have "0 \<le> \<lfloor>\<bar>x\<bar>\<rfloor>" using True by simp
  then have fl: "real ?n = of_int \<lfloor>\<bar>x\<bar>\<rfloor>" by simp
  have nx: "real ?n \<le> \<bar>x\<bar>" "\<bar>x\<bar> < real ?n + 1"
    unfolding fl using floor_correct [of "\<bar>x\<bar>"] by simp_all
  have p1: "(2::real) powi (int ?k - 1) = 2 ^ (?k - 1)"
    using k by (simp add: power_int_def nat_diff_distrib)
  have p2: "(2::real) powi (int ?k - 1 + 1) = 2 ^ ?k"
    by (simp add: power_int_def)
  from b(1) have "real (2 ^ (?k - 1)) \<le> real ?n" by (simp only: of_nat_le_iff)
  then have "(2::real) ^ (?k - 1) \<le> real ?n" by simp
  moreover from b(2) have "Suc ?n \<le> 2 ^ ?k" by (rule Suc_leI)
  then have "real (Suc ?n) \<le> real (2 ^ ?k)" by (simp only: of_nat_le_iff)
  then have "real ?n + 1 \<le> 2 ^ ?k" by simp
  ultimately show ?thesis unfolding E p1 p2 using nx by linarith
next
  case False
  let ?a = "\<bar>x\<bar>"
  from assms False have a: "0 < ?a" "?a < 1" by simp_all
  let ?m = "nat \<lceil>1 / ?a\<rceil>"
  let ?n = "?m - 1"
  let ?j = "floorlog 2 ?n"
  from a have y: "1 < 1 / ?a" by simp
  then have m2: "2 \<le> \<lceil>1 / ?a\<rceil>" by linarith
  then have n: "0 < ?n" by simp
  from floorlog_bounds [OF n, of 2] have b: "2 ^ (?j - 1) \<le> ?n" "?n < 2 ^ ?j" by simp_all
  have j: "0 < ?j" using n by (simp add: floorlog_def)
  have E: "binary_exponent x = - int ?j" using False by (simp add: binary_exponent_def)
  have "0 \<le> \<lceil>1 / ?a\<rceil>" using m2 by simp
  then have cl: "real ?m = of_int \<lceil>1 / ?a\<rceil>" by simp
  have my: "1 / ?a \<le> real ?m" "real ?m - 1 < 1 / ?a"
    unfolding cl using ceiling_correct [of "1 / ?a"] by simp_all
  from b(2) have "Suc ?n \<le> 2 ^ ?j" by (rule Suc_leI)
  moreover from n have sm: "Suc ?n = ?m" by arith
  ultimately have "?m \<le> 2 ^ ?j" by (simp only:)
  then have "real ?m \<le> real (2 ^ ?j)" by (simp only: of_nat_le_iff)
  then have "real ?m \<le> 2 ^ ?j" by simp
  with my(1) have "1 / ?a \<le> 2 ^ ?j" by linarith
  with a have lo: "1 / 2 ^ ?j \<le> ?a"
    by (simp add: field_simps)
  from b(1) have "real (2 ^ (?j - 1)) \<le> real ?n" by (simp only: of_nat_le_iff)
  then have "(2::real) ^ (?j - 1) \<le> real ?n" by simp
  moreover have "real k = real l - 1" if "Suc k = l" for k l :: nat
    using that by auto
  from this [OF sm] have "real ?n = real ?m - 1" .
  ultimately have "2 ^ (?j - 1) < 1 / ?a" using my(2) by linarith
  with a have hi: "?a < 1 / 2 ^ (?j - 1)"
    by (simp add: field_simps)
  have p1: "(2::real) powi (- int ?j) = 1 / 2 ^ ?j"
    by (simp add: power_int_def field_simps)
  have p2: "(2::real) powi (- int ?j + 1) = 1 / 2 ^ (?j - 1)"
    using j by (cases ?j) (simp_all add: power_int_def field_simps nat_diff_distrib)
  show ?thesis unfolding E p1 p2 using lo hi by simp
qed

lemma powi_exponent_less:
  assumes "2 powi e \<le> (a::real)" "a < 2 powi (e' + 1)"
  shows "e \<le> e'"
proof (rule ccontr)
  assume "\<not> e \<le> e'"
  then have "e' + 1 \<le> e" by simp
  then have "(2::real) powi (e' + 1) \<le> 2 powi e" by (intro power_int_increasing) simp_all
  with assms show False by linarith
qed

lemma powi_exponent_unique:
  assumes "2 powi e \<le> (a::real)" "a < 2 powi (e + 1)" "2 powi e' \<le> a" "a < 2 powi (e' + 1)"
  shows "e = e'"
  using powi_exponent_less [OF assms(1) assms(4)] powi_exponent_less [OF assms(3) assms(2)]
  by simp

lemma binary_exponent_eq:
  assumes "2 powi e \<le> \<bar>x\<bar>" "\<bar>x\<bar> < 2 powi (e + 1)"
  shows "binary_exponent x = e"
proof -
  have "0 < (2::real) powi e" by simp
  with assms(1) have "0 < \<bar>x\<bar>" by linarith
  then have "x \<noteq> 0" by simp
  from binary_exponent_bounds [OF this] assms show ?thesis
    by (intro powi_exponent_unique [of "binary_exponent x" "\<bar>x\<bar>" e]) auto
qed

lemma binary_exponent_mono:
  assumes "x \<noteq> 0" "\<bar>x\<bar> \<le> \<bar>y\<bar>"
  shows "binary_exponent x \<le> binary_exponent y"
proof -
  from assms have "y \<noteq> 0" by auto
  from binary_exponent_bounds [OF assms(1)] binary_exponent_bounds [OF this] assms(2)
  show ?thesis by (intro powi_exponent_less [of _ "\<bar>x\<bar>"]) auto
qed

lemma binary_exponent_minus [simp]: "binary_exponent (- x) = binary_exponent x"
  by (simp add: binary_exponent_def)

lemma double_minus: "double (- x) = - double x"
  by (simp add: double_def Let_def rhe_minus)

lemma double_zero [simp]: "double 0 = 0"
  by (simp add: double_def)

lemma double_nonneg: "0 \<le> x \<Longrightarrow> 0 \<le> double x"
proof -
  assume "0 \<le> x"
  then have "0 \<le> x / 2 powi (max (binary_exponent x) (- 1022) - 52)" by simp
  then have "0 \<le> round_half_even (x / 2 powi (max (binary_exponent x) (- 1022) - 52))"
    using rhe_ge [of 0] by simp
  then show ?thesis by (simp add: double_def Let_def)
qed

lemma double_nearest:
  assumes "2 powi e \<le> \<bar>x\<bar>" "\<bar>x\<bar> < 2 powi (e + 1)" "- 1022 \<le> e"
    and "\<bar>x * 2 powi (52 - e) - of_int m\<bar> < 1 / 2"
  shows "double x = of_int m * 2 powi (e - 52)"
proof -
  have E: "binary_exponent x = e" using assms(1,2) by (rule binary_exponent_eq)
  have "0 < (2::real) powi e" by simp
  with assms(1) have "0 < \<bar>x\<bar>" by linarith
  then have nz: "x \<noteq> 0" by simp
  have "(2::real) powi (52 - e) = inverse (2 powi (e - 52))"
    using power_int_minus [of "2::real" "e - 52"] by simp
  then have inv: "x / 2 powi (e - 52) = x * 2 powi (52 - e)"
    by (simp add: divide_inverse)
  from assms(4) have "round_half_even (x * 2 powi (52 - e)) = m" by (rule rhe_nearest)
  with nz assms(3) show ?thesis
    by (simp add: double_def Let_def E max_def inv)
qed

lemma double_tie:
  assumes "2 powi e \<le> \<bar>x\<bar>" "\<bar>x\<bar> < 2 powi (e + 1)" "- 1022 \<le> e"
    and "x * 2 powi (52 - e) = of_int m + 1 / 2 \<or> x * 2 powi (52 - e) = of_int m - 1 / 2"
    and "even m"
  shows "double x = of_int m * 2 powi (e - 52)"
proof -
  have E: "binary_exponent x = e" using assms(1,2) by (rule binary_exponent_eq)
  have "0 < (2::real) powi e" by simp
  with assms(1) have "0 < \<bar>x\<bar>" by linarith
  then have nz: "x \<noteq> 0" by simp
  have "(2::real) powi (52 - e) = inverse (2 powi (e - 52))"
    using power_int_minus [of "2::real" "e - 52"] by simp
  then have inv: "x / 2 powi (e - 52) = x * 2 powi (52 - e)"
    by (simp add: divide_inverse)
  from assms(4,5) have "round_half_even (x * 2 powi (52 - e)) = m"
    using rhe_tie_up rhe_tie_down by blast
  with nz assms(3) show ?thesis
    by (simp add: double_def Let_def E max_def inv)
qed

lemma double_binade:
  assumes "x \<noteq> 0"
  shows "2 powi max (binary_exponent x) (- 1022) \<le> \<bar>x\<bar> \<longrightarrow>
           2 powi max (binary_exponent x) (- 1022) \<le> \<bar>double x\<bar>"
    and "\<bar>double x\<bar> \<le> 2 powi (max (binary_exponent x) (- 1022) + 1)"
proof -
  let ?e = "max (binary_exponent x) (- 1022)"
  let ?u = "(2::real) powi (?e - 52)"
  have u: "0 < ?u" by simp
  have dx: "\<bar>double x\<bar> = of_int (round_half_even (\<bar>x\<bar> / ?u)) * ?u"
  proof (cases "0 \<le> x")
    case True
    with double_nonneg [OF True] assms show ?thesis by (simp add: double_def Let_def)
  next
    case False
    then have "0 \<le> - x" by simp
    from double_nonneg [OF this] have "\<bar>double x\<bar> = double (- x)" by (simp add: double_minus)
    with False assms show ?thesis by (simp add: double_def Let_def)
  qed
  have hi: "\<bar>x\<bar> < 2 powi (?e + 1)"
  proof -
    have "\<bar>x\<bar> < 2 powi (binary_exponent x + 1)" using binary_exponent_bounds [OF assms] by simp
    also have "\<dots> \<le> 2 powi (?e + 1)" by (intro power_int_increasing) simp_all
    finally show ?thesis .
  qed
  have s53: "(2::real) powi (?e + 1) = of_int (2 ^ 53) * ?u"
  proof -
    have "(2::real) powi ((?e - 52) + 53) = 2 powi (?e - 52) * 2 powi 53"
      by (rule power_int_add) simp
    moreover have "(?e - 52) + 53 = ?e + 1" by simp
    moreover have "(2::real) powi 53 = of_int (2 ^ 53)" by simp
    ultimately show ?thesis by (simp only: mult.commute)
  qed
  have s52: "(2::real) powi ?e = of_int (2 ^ 52) * ?u"
  proof -
    have "(2::real) powi ((?e - 52) + 52) = 2 powi (?e - 52) * 2 powi 52"
      by (rule power_int_add) simp
    moreover have "(?e - 52) + 52 = ?e" by simp
    moreover have "(2::real) powi 52 = of_int (2 ^ 52)" by simp
    ultimately show ?thesis by (simp only: mult.commute)
  qed
  from hi have "\<bar>x\<bar> < of_int (2 ^ 53) * ?u" unfolding s53 .
  with u have "\<bar>x\<bar> / ?u \<le> of_int (2 ^ 53)" by (simp add: pos_divide_le_eq)
  then have "round_half_even (\<bar>x\<bar> / ?u) \<le> 2 ^ 53" by (rule rhe_le)
  then have "real_of_int (round_half_even (\<bar>x\<bar> / ?u)) \<le> of_int (2 ^ 53)" by (simp only: of_int_le_iff)
  then have "real_of_int (round_half_even (\<bar>x\<bar> / ?u)) * ?u \<le> of_int (2 ^ 53) * ?u"
    using u by (rule mult_right_mono [OF _ less_imp_le])
  then show "\<bar>double x\<bar> \<le> 2 powi (?e + 1)" unfolding dx s53 .
  show "2 powi ?e \<le> \<bar>x\<bar> \<longrightarrow> 2 powi ?e \<le> \<bar>double x\<bar>"
  proof
    assume "2 powi ?e \<le> \<bar>x\<bar>"
    then have "of_int (2 ^ 52) * ?u \<le> \<bar>x\<bar>" unfolding s52 .
    with u have "of_int (2 ^ 52) \<le> \<bar>x\<bar> / ?u" by (simp add: pos_le_divide_eq)
    then have "2 ^ 52 \<le> round_half_even (\<bar>x\<bar> / ?u)" by (rule rhe_ge)
    then have "of_int (2 ^ 52) \<le> real_of_int (round_half_even (\<bar>x\<bar> / ?u))" by (simp only: of_int_le_iff)
    then have "of_int (2 ^ 52) * ?u \<le> real_of_int (round_half_even (\<bar>x\<bar> / ?u)) * ?u"
      using u by (rule mult_right_mono [OF _ less_imp_le])
    then show "2 powi ?e \<le> \<bar>double x\<bar>" unfolding dx s52 .
  qed
qed

lemma double_nonpos: "x \<le> 0 \<Longrightarrow> double x \<le> 0"
  using double_nonneg [of "- x"] by (simp add: double_minus)

lemma double_mono_pos:
  assumes "0 < x" "x \<le> y"
  shows "double x \<le> double y"
proof -
  let ?ex = "max (binary_exponent x) (- 1022)"
  let ?ey = "max (binary_exponent y) (- 1022)"
  from assms have nz: "x \<noteq> 0" "y \<noteq> 0" and ypos: "0 < y" by auto
  have ax: "\<bar>x\<bar> = x" "\<bar>y\<bar> = y" using assms by auto
  have "binary_exponent x \<le> binary_exponent y"
    using nz(1) assms by (intro binary_exponent_mono) auto
  then have le: "?ex \<le> ?ey" by auto
  have dx: "0 \<le> double x" "0 \<le> double y"
    using assms by (auto intro: double_nonneg)
  show ?thesis
  proof (cases "?ex = ?ey")
    case True
    have u: "0 < (2::real) powi (?ey - 52)" by simp
    from assms(2) u have "x / 2 powi (?ey - 52) \<le> y / 2 powi (?ey - 52)"
      by (simp add: divide_right_mono)
    then have "round_half_even (x / 2 powi (?ey - 52)) \<le> round_half_even (y / 2 powi (?ey - 52))"
      by (rule rhe_mono)
    then have "real_of_int (round_half_even (x / 2 powi (?ey - 52)))
                 \<le> real_of_int (round_half_even (y / 2 powi (?ey - 52)))"
      by (simp only: of_int_le_iff)
    then have "real_of_int (round_half_even (x / 2 powi (?ey - 52))) * 2 powi (?ey - 52)
                 \<le> real_of_int (round_half_even (y / 2 powi (?ey - 52))) * 2 powi (?ey - 52)"
      using u by (rule mult_right_mono [OF _ less_imp_le])
    moreover have "double x = real_of_int (round_half_even (x / 2 powi (?ey - 52))) * 2 powi (?ey - 52)"
      using nz(1) True by (simp add: double_def Let_def)
    moreover have "double y = real_of_int (round_half_even (y / 2 powi (?ey - 52))) * 2 powi (?ey - 52)"
      using nz(2) by (simp add: double_def Let_def)
    ultimately show ?thesis by (simp only:)
  next
    case False
    with le have lt: "?ex + 1 \<le> ?ey" by simp
    then have ey: "?ey = binary_exponent y" by (auto simp: max_def split: if_splits)
    have "double x \<le> 2 powi (?ex + 1)"
      using double_binade(2) [OF nz(1)] dx(1) by simp
    also have "\<dots> \<le> 2 powi ?ey" using lt by (intro power_int_increasing) simp_all
    also have "\<dots> \<le> double y"
    proof -
      have "2 powi ?ey \<le> \<bar>y\<bar>"
        unfolding ey using binary_exponent_bounds [OF nz(2)] by simp
      with double_binade(1) [OF nz(2)] have "2 powi ?ey \<le> \<bar>double y\<bar>" by blast
      with dx(2) show ?thesis by simp
    qed
    finally show ?thesis .
  qed
qed

lemma double_mono: "x \<le> y \<Longrightarrow> double x \<le> double y"
proof -
  assume le: "x \<le> y"
  consider "0 < x" | "x \<le> 0" "0 \<le> y" | "y < 0" by linarith
  then show ?thesis
  proof cases
    case 1
    from this le show ?thesis by (rule double_mono_pos)
  next
    case 2
    with double_nonpos [of x] double_nonneg [of y] show ?thesis by linarith
  next
    case 3
    with le have "0 < - y" "- y \<le> - x" by simp_all
    from double_mono_pos [OF this] show ?thesis by (simp add: double_minus)
  qed
qed

lemma double_one [simp]: "double 1 = 1"
  using double_nearest [of 0 1 "2 ^ 52"] by simp


lemma py_round_rhe: "py_round x n = of_int (round_half_even (x * 10 ^ n)) / 10 ^ n"
  by (simp add: py_round_def round_half_even_def Let_def)

lemma float_round_spec:
  "\<exists>k::int. float_round x n = double (of_int k / 10 ^ n)
     \<and> \<bar>of_int k / 10 ^ n - x\<bar> \<le> 1 / (2 * 10 ^ n)"
proof -
  let ?k = "round_half_even (x * 10 ^ n)"
  have "\<bar>of_int ?k - x * 10 ^ n\<bar> \<le> 1 / 2" by (rule rhe_within)
  then have "\<bar>of_int ?k - x * 10 ^ n\<bar> / 10 ^ n \<le> (1 / 2) / 10 ^ n"
    by (rule divide_right_mono) simp
  moreover have "of_int ?k / 10 ^ n - x = (of_int ?k - x * 10 ^ n) / 10 ^ n"
    by (simp add: field_simps)
  then have "\<bar>of_int ?k - x * 10 ^ n\<bar> / 10 ^ n = \<bar>of_int ?k / 10 ^ n - x\<bar>"
    by (simp only: abs_divide) simp
  ultimately have "\<bar>of_int ?k / 10 ^ n - x\<bar> \<le> 1 / (2 * 10 ^ n)" by simp
  then show ?thesis
    by (intro exI [of _ ?k]) (simp add: float_round_def py_round_rhe)
qed

lemma py_round_below: "x * 10 ^ n < of_int m + 1 / 2 \<Longrightarrow> py_round x n \<le> of_int m / 10 ^ n"
proof -
  assume a: "x * 10 ^ n < of_int m + 1 / 2"
  have "round_half_even (x * 10 ^ n) \<le> m"
  proof (rule ccontr)
    assume "\<not> round_half_even (x * 10 ^ n) \<le> m"
    then have "m + 1 \<le> round_half_even (x * 10 ^ n)" by simp
    then have "of_int (m + 1) \<le> real_of_int (round_half_even (x * 10 ^ n))"
      by (simp only: of_int_le_iff)
    with rhe_within [of "x * 10 ^ n"] a show False by (simp add: abs_if split: if_splits)
  qed
  then have "real_of_int (round_half_even (x * 10 ^ n)) \<le> of_int m" by (simp only: of_int_le_iff)
  then show ?thesis unfolding py_round_rhe by (simp add: divide_right_mono)
qed


section \<open>Binary64 values used in concrete runs\<close>

lemma double_0_1: "double (1 / 10) = 3602879701896397 / 36028797018963968"
  using double_nearest [of "- 4" "1 / 10" "7205759403792794"] by simp

lemma double_0_2: "double (1 / 5) = 3602879701896397 / 18014398509481984"
  using double_nearest [of "- 3" "1 / 5" "7205759403792794"] by simp

lemma double_0_3: "double (3 / 10) = 5404319552844595 / 18014398509481984"
  using double_nearest [of "- 2" "3 / 10" "5404319552844595"] by simp

lemma double_0_8: "double (4 / 5) = 3602879701896397 / 4503599627370496"
  using double_nearest [of "- 1" "4 / 5" "7205759403792794"] by simp

lemma double_0_9: "double (9 / 10) = 8106479329266893 / 9007199254740992"
  using double_nearest [of "- 1" "9 / 10" "8106479329266893"] by simp

lemma double_half: "double (1 / 2) = 1 / 2"
  using double_nearest [of "- 1" "1 / 2" "4503599627370496"] by simp

lemma double_ex_bb: "double (5404319552844595 / 18014398509481984) = 5404319552844595 / 18014398509481984"
  using double_nearest [of "- 2" "5404319552844595 / 18014398509481984" "5404319552844595"] by simp

lemma double_ex_s: "double (14411518807585587 / 18014398509481984) = 3602879701896397 / 4503599627370496"
  using double_tie [of "- 1" "14411518807585587 / 18014398509481984" "7205759403792794"] by simp

lemma double_ex_pc: "double (3602879701896397 / 36028797018963968) = 3602879701896397 / 36028797018963968"
  using double_nearest [of "- 4" "3602879701896397 / 36028797018963968" "7205759403792794"] by simp

lemma double_ex_c: "double (32425917317067573 / 36028797018963968) = 8106479329266893 / 9007199254740992"
  using double_nearest [of "- 1" "32425917317067573 / 36028797018963968" "8106479329266893"] by simp

lemma double_s1_dt: "double (4536) = 4536"
  using double_nearest [of "12" "4536" "4987384743591936"] by simp

lemma double_s1_q: "double (21 / 400) = 7566047373982433 / 144115188075855872"
  using double_nearest [of "- 5" "21 / 400" "7566047373982433"] by simp

lemma double_s1_t: "double (136549140701873439 / 144115188075855872) = 4267160646933545 / 4503599627370496"
  using double_nearest [of "- 1" "136549140701873439 / 144115188075855872" "8534321293867090"] by simp

lemma double_s1_ta: "double (4267160646933545 / 9007199254740992) = 4267160646933545 / 9007199254740992"
  using double_nearest [of "- 2" "4267160646933545 / 9007199254740992" "8534321293867090"] by simp

lemma double_s1_s: "double (13938640846711685 / 18014398509481984) = 3484660211677921 / 4503599627370496"
  using double_tie [of "- 1" "13938640846711685 / 18014398509481984" "6969320423355842"] by simp

lemma double_s1_c: "double (31480161395319765 / 36028797018963968) = 7870040348829941 / 9007199254740992"
  using double_nearest [of "- 1" "31480161395319765 / 36028797018963968" "7870040348829941"] by simp

lemma double_r_0_8737: "double (8737 / 10000) = 7869589988867205 / 9007199254740992"
  using double_nearest [of "- 1" "8737 / 10000" "7869589988867205"] by simp

lemma double_r_0_8738: "double (4369 / 5000) = 7870490708792679 / 9007199254740992"
  using double_nearest [of "- 1" "4369 / 5000" "7870490708792679"] by simp

lemma double_r_s1_t: "double (379 / 400) = 4267160646933545 / 4503599627370496"
  using double_nearest [of "- 1" "379 / 400" "8534321293867090"] by simp

lemma double_s2_dt: "double (12312) = 12312"
  using double_nearest [of "13" "12312" "6768593580589056"] by simp

lemma double_s2_q: "double (57 / 400) = 5134103575202365 / 36028797018963968"
  using double_nearest [of "- 3" "57 / 400" "5134103575202365"] by simp

lemma double_s2_t: "double (30894693443761603 / 36028797018963968) = 7723673360940401 / 9007199254740992"
  using double_nearest [of "- 1" "30894693443761603 / 36028797018963968" "7723673360940401"] by simp

lemma double_s2_ta: "double (7723673360940401 / 18014398509481984) = 7723673360940401 / 18014398509481984"
  using double_nearest [of "- 2" "7723673360940401 / 18014398509481984" "7723673360940401"] by simp

lemma double_s2_s: "double (3281998228446249 / 4503599627370496) = 3281998228446249 / 4503599627370496"
  using double_nearest [of "- 1" "3281998228446249 / 4503599627370496" "6563996456892498"] by simp

lemma double_s2_c: "double (29858865529466389 / 36028797018963968) = 7464716382366597 / 9007199254740992"
  using double_nearest [of "- 1" "29858865529466389 / 36028797018963968" "7464716382366597"] by simp

lemma double_r_0_8287: "double (8287 / 10000) = 1866066505600965 / 2251799813685248"
  using double_nearest [of "- 1" "8287 / 10000" "7464266022403860"] by simp

lemma double_r_0_8288: "double (518 / 625) = 3732583371164667 / 4503599627370496"
  using double_nearest [of "- 1" "518 / 625" "7465166742329334"] by simp

lemma double_bl_u: "double (1 / 20) = 3602879701896397 / 72057594037927936"
  using double_nearest [of "- 5" "1 / 20" "7205759403792794"] by simp

lemma double_bh_a: "double (900719925474099 / 9007199254740992) = 900719925474099 / 9007199254740992"
  using double_nearest [of "- 4" "900719925474099 / 9007199254740992" "7205759403792792"] by simp

lemma double_bh_q: "double (1801439850948198 / 3602879701896397) = 4503599627370495 / 9007199254740992"
  using double_nearest [of "- 2" "1801439850948198 / 3602879701896397" "9007199254740990"] by simp

lemma double_bh_b: "double (4503599627370497 / 9007199254740992) = 4503599627370497 / 9007199254740992"
  using double_nearest [of "- 1" "4503599627370497 / 9007199254740992" "4503599627370497"] by simp

lemma double_s4_dt: "double (2405) = 2405"
  using double_nearest [of "11" "2405" "5288650929602560"] by simp

lemma double_s4_a: "double (2105) = 2105"
  using double_nearest [of "11" "2105" "4628943952936960"] by simp

lemma double_s4_q: "double (421 / 660) = 2872750671398453 / 4503599627370496"
  using double_nearest [of "- 1" "421 / 660" "5745501342796906"] by simp

lemma double_s4_t: "double (1630848955972043 / 4503599627370496) = 1630848955972043 / 4503599627370496"
  using double_nearest [of "- 2" "1630848955972043 / 4503599627370496" "6523395823888172"] by simp

lemma double_s4_u: "double (5 / 792) = 7278544852315953 / 1152921504606846976"
  using double_nearest [of "- 8" "5 / 792" "7278544852315953"] by simp

lemma double_s4_low: "double (7278544852315953 / 115292150460684704) = 2274545266348735 / 36028797018963968"
  using double_nearest [of "- 4" "7278544852315953 / 115292150460684704" "4549090532697470"] by simp

lemma double_s4_ta: "double (1630848955972043 / 9007199254740992) = 1630848955972043 / 9007199254740992"
  using double_nearest [of "- 3" "1630848955972043 / 9007199254740992" "6523395823888172"] by simp

lemma double_s4_bb: "double (12292369456758585770198529837325 / 649037107316853453566312041152512) = 1364727159809241 / 72057594037927936"
  using double_nearest [of "- 6" "12292369456758585770198529837325 / 649037107316853453566312041152512" "5458908639236964"] by simp

lemma double_s4_s: "double (14411518807585585 / 72057594037927936) = 900719925474099 / 4503599627370496"
  using double_tie [of "- 3" "14411518807585585 / 72057594037927936" "7205759403792792"] by simp

lemma double_s4_c: "double (10808639105689189 / 36028797018963968) = 2702159776422297 / 9007199254740992"
  using double_tie [of "- 2" "10808639105689189 / 36028797018963968" "5404319552844594"] by simp

lemma double_g1001_g: "double (1001 / 1000) = 2254051613498933 / 2251799813685248"
  using double_nearest [of "0" "1001 / 1000" "4508103226997866"] by simp

lemma double_g1001_ms: "double (281756451687366625 / 281474976710656) = 8804889115230207 / 8796093022208"
  using double_nearest [of "9" "281756451687366625 / 281474976710656" "8804889115230207"] by simp

lemma double_g10015_g: "double (2003 / 2000) = 140948594587861 / 140737488355328"
  using double_nearest [of "0" "2003 / 2000" "4510355026811552"] by simp

lemma double_g10015_ms: "double (17618574323482625 / 17592186044416) = 2003 / 2"
  using double_tie [of "9" "17618574323482625 / 17592186044416" "8809287161741312"] by simp

lemma double_g125_g: "double (1 / 80) = 3602879701896397 / 288230376151711744"
  using double_nearest [of "- 7" "1 / 80" "7205759403792794"] by simp

lemma double_g125_ms: "double (450359962737049625 / 36028797018963968) = 25 / 2"
  using double_nearest [of "3" "450359962737049625 / 36028797018963968" "7036874417766400"] by simp

lemma double_g3_g: "double (3 / 1000) = 3458764513820541 / 1152921504606846976"
  using double_nearest [of "- 9" "3 / 1000" "6917529027641082"] by simp

lemma double_g3_ms: "double (432345564227567625 / 144115188075855872) = 3"
  using double_nearest [of "1" "432345564227567625 / 144115188075855872" "6755399441055744"] by simp

lemmas double_values =
  double_0_1 double_0_2 double_0_3 double_0_8 double_0_9 double_half double_ex_bb double_ex_s
  double_ex_pc double_ex_c double_s1_dt double_s1_q double_s1_t double_s1_ta double_s1_s
  double_s1_c double_r_0_8737 double_r_0_8738 double_r_s1_t double_s2_dt double_s2_q
  double_s2_t double_s2_ta double_s2_s double_s2_c double_r_0_8287 double_r_0_8288 double_bl_u
  double_bh_a double_bh_q double_bh_b double_s4_dt double_s4_a double_s4_q double_s4_t
  double_s4_u double_s4_low double_s4_ta double_s4_bb double_s4_s double_s4_c double_g1001_g
  double_g1001_ms double_g10015_g double_g10015_ms double_g125_g double_g125_ms double_g3_g
  double_g3_ms

section \<open>Properties of the component scores\<close>

lemma temporal_dd:
  "calculate_temporal_score (Datetime a) (Datetime b) =
     (if \<bar>a - b\<bar> \<le> 300 then 1
      else if \<bar>a - b\<bar> \<le> 3600 then 1 - (\<bar>a - b\<bar> - 300) / 3300
      else max 0.1 (1 - \<bar>a - b\<bar> / 86400))"
  by (simp add: calculate_temporal_score_def Let_def)

lemma temporal_range: "0 \<le> calculate_temporal_score x y \<and> calculate_temporal_score x y \<le> 1"
  by (cases x; cases y) (auto simp: calculate_temporal_score_def Let_def max_def field_simps)

lemma temporal_cont_300:
  "isCont (\<lambda>d. calculate_temporal_score (Datetime (b + d)) (Datetime b)) 300"
  unfolding isCont_def
proof (rule LIM_I)
  fix r :: real
  assume r: "0 < r"
  let ?f = "\<lambda>d. calculate_temporal_score (Datetime (b + d)) (Datetime b)"
  have bound: "norm (?f x - ?f 300) < r" if "norm (x - 300) < min 300 (3300 * r)" for x
  proof -
    from that have x: "0 < x" "x < 600" "\<bar>x - 300\<bar> < 3300 * r" by (auto simp: abs_if split: if_splits)
    with r show ?thesis
      by (auto simp: temporal_dd abs_if field_simps)
  qed
  show "\<exists>s>0. \<forall>x. x \<noteq> 300 \<and> norm (x - 300) < s \<longrightarrow> norm (?f x - ?f 300) < r"
    using r bound by (intro exI[of _ "min 300 (3300 * r)"]) auto
qed

lemma round_1800: "py_round (6 / 11) 4 = 0.5455"
  by (simp add: py_round_def Let_def)

text \<open>
  Claim C3, as the code has it. The temporal score is 1 at a time difference of 0 and of
  300 seconds; at 1800 seconds it is \<open>6/11\<close>, which rounds to 0.5455 at four decimal places;
  it is continuous at the 300 second boundary; it lies in \<open>[0, 1]\<close> for every time
  difference, and is at least 0.1 whenever the difference exceeds 3600 seconds (the floor
  belongs to the third branch only).
\<close>

theorem temporal_score_profile:
  "calculate_temporal_score (Datetime a) (Datetime a) = 1
   \<and> (\<bar>a - b\<bar> = 300 \<longrightarrow> calculate_temporal_score (Datetime a) (Datetime b) = 1)
   \<and> (\<bar>a - b\<bar> = 1800 \<longrightarrow>
        calculate_temporal_score (Datetime a) (Datetime b) = 6 / 11
        \<and> py_round (calculate_temporal_score (Datetime a) (Datetime b)) 4 = 0.5455)
   \<and> isCont (\<lambda>d. calculate_temporal_score (Datetime (b + d)) (Datetime b)) 300
   \<and> 0 \<le> calculate_temporal_score (Datetime a) (Datetime b)
   \<and> calculate_temporal_score (Datetime a) (Datetime b) \<le> 1
   \<and> (3600 < \<bar>a - b\<bar> \<longrightarrow> 0.1 \<le> calculate_temporal_score (Datetime a) (Datetime b))"
proof -
  have p1: "calculate_temporal_score (Datetime a) (Datetime a) = 1"
    by (simp add: temporal_dd)
  have p2: "\<bar>a - b\<bar> = 300 \<longrightarrow> calculate_temporal_score (Datetime a) (Datetime b) = 1"
    by (simp add: temporal_dd)
  have p3: "\<bar>a - b\<bar> = 1800 \<longrightarrow>
        calculate_temporal_score (Datetime a) (Datetime b) = 6 / 11
        \<and> py_round (calculate_temporal_score (Datetime a) (Datetime b)) 4 = 0.5455"
    by (simp add: temporal_dd round_1800)
  have p5: "3600 < \<bar>a - b\<bar> \<longrightarrow> 0.1 \<le> calculate_temporal_score (Datetime a) (Datetime b)"
    by (simp add: temporal_dd)
  from p1 p2 p3 p5 temporal_cont_300 temporal_range show ?thesis by blast
qed

theorem temporal_score_profile_witness:
  "\<bar>(2100::real) - 300\<bar> = 1800
   \<and> py_round (calculate_temporal_score (Datetime 2100) (Datetime 300)) 4 = 0.5455
   \<and> \<bar>(1300::real) - 1000\<bar> = 300
   \<and> calculate_temporal_score (Datetime 1300) (Datetime 1000) = 1
   \<and> (3600::real) < \<bar>0 - 43200\<bar>
   \<and> 0.1 \<le> calculate_temporal_score (Datetime 0) (Datetime 43200)"
  using temporal_score_profile [of 2100 300] temporal_score_profile [of 1300 1000]
    temporal_score_profile [of 0 43200]
  by simp

text \<open>
  Claim C3 as stated fails: at a time difference of exactly 3600 seconds the linear branch
  gives 0, below the claimed floor of 0.1, and the value at 1800 seconds rounds to 0.5455,
  not 0.5454.
\<close>

theorem temporal_score_counterexample:
  "calculate_temporal_score (Datetime 3600) (Datetime 0) = 0
   \<and> calculate_temporal_score (Datetime 3600) (Datetime 0) < 0.1
   \<and> py_round (calculate_temporal_score (Datetime 1800) (Datetime 0)) 4 = 0.5455
   \<and> py_round (calculate_temporal_score (Datetime 1800) (Datetime 0)) 4 \<noteq> 0.5454"
  by (simp add: temporal_dd round_1800)

text \<open>
  The linear branch ends at 0 and the third branch starts near \<open>23/24\<close>: the score jumps
  at 3600 seconds.
\<close>

lemma temporal_jump_3600:
  "\<not> isCont (\<lambda>d. calculate_temporal_score (Datetime (b + d)) (Datetime b)) 3600"
proof
  let ?f = "\<lambda>d. calculate_temporal_score (Datetime (b + d)) (Datetime b)"
  assume "isCont ?f 3600"
  then have "?f \<midarrow>3600\<rightarrow> ?f 3600" by (simp add: isCont_def)
  from LIM_D [OF this, of "0.1"] obtain s where s: "0 < s"
    and b: "\<And>x. x \<noteq> 3600 \<and> norm (x - 3600) < s \<Longrightarrow> norm (?f x - ?f 3600) < 0.1"
    by auto
  have "norm (?f (3600 + s / 2) - ?f 3600) < 0.1"
    using s by (intro b) auto
  moreover have "?f 3600 = 0" by (simp add: temporal_dd)
  moreover have "0.1 \<le> ?f (3600 + s / 2)" using s by (simp add: temporal_dd)
  ultimately show False by simp
qed

text \<open>
  Claim C6. The pattern score is 0.5 when the flow fingerprint is empty (or \<open>None\<close>) or the
  history is empty; \<open>min 1 (0.5 + matches * 0.1)\<close> when the history holds at least one exact
  match, so 0.6 for exactly one; and 0.3 when both are non-empty and nothing matches.
\<close>

theorem pattern_score_cases:
  "((fp = None \<or> fp = Some [] \<or> history = []) \<longrightarrow> calculate_pattern_score fp history = 0.5)
   \<and> (f \<noteq> [] \<and> 1 \<le> count_list history f \<longrightarrow>
        calculate_pattern_score (Some f) history = min 1 (0.5 + real (count_list history f) * 0.1))
   \<and> (f \<noteq> [] \<and> count_list history f = 1 \<longrightarrow> calculate_pattern_score (Some f) history = 0.6)
   \<and> (f \<noteq> [] \<and> history \<noteq> [] \<and> f \<notin> set history \<longrightarrow>
        calculate_pattern_score (Some f) history = 0.3)"
proof -
  have cnt: "length (filter (\<lambda>h. h = f) history) = count_list history f"
    by (induction history) auto
  have ne: "history \<noteq> []" if "1 \<le> count_list history f"
    using that by auto
  have absent: "count_list history f = 0" if "f \<notin> set history"
    using that by (simp add: count_list_0_iff)
  have neutral: "(fp = None \<or> fp = Some [] \<or> history = []) \<longrightarrow>
      calculate_pattern_score fp history = 0.5"
    by (auto simp: calculate_pattern_score_def)
  have matched: "calculate_pattern_score (Some f) history =
      min 1 (0.5 + real (count_list history f) * 0.1)"
    if "f \<noteq> []" "1 \<le> count_list history f"
    using that ne by (simp add: calculate_pattern_score_def cnt)
  have once: "calculate_pattern_score (Some f) history = 0.6"
    if "f \<noteq> []" "count_list history f = 1"
    using matched [OF that(1)] that(2) by simp
  have unmatched: "calculate_pattern_score (Some f) history = 0.3"
    if "f \<noteq> []" "history \<noteq> []" "f \<notin> set history"
    using that absent by (simp add: calculate_pattern_score_def cnt)
  from neutral matched once unmatched show ?thesis by blast
qed

theorem pattern_score_cases_witness:
  "calculate_pattern_score (Some ''ab'') [] = 0.5
   \<and> ''ab'' \<noteq> [] \<and> count_list [''cd'', ''ab''] ''ab'' = 1
   \<and> calculate_pattern_score (Some ''ab'') [''cd'', ''ab''] = 0.6
   \<and> [''cd''] \<noteq> [] \<and> ''ab'' \<notin> set [''cd'']
   \<and> calculate_pattern_score (Some ''ab'') [''cd''] = 0.3"
  using pattern_score_cases [of "Some ''ab''" "[]" "''ab''"]
    pattern_score_cases [of None "[''cd'', ''ab'']" "''ab''"]
    pattern_score_cases [of None "[''cd'']" "''ab''"]
  by simp



section \<open>The component scores in binary64\<close>

lemma temporal_double_dd:
  "calculate_temporal_score_double (Datetime a) (Datetime b) =
     (if \<bar>double (a - b)\<bar> \<le> 300 then 1
      else if \<bar>double (a - b)\<bar> \<le> 3600
      then double (1 - double (double (\<bar>double (a - b)\<bar> - 300) / 3300))
      else max (double 0.1) (double (1 - double (\<bar>double (a - b)\<bar> / 86400))))"
  by (simp add: calculate_temporal_score_double_def Let_def)

lemma double_le_one: "x \<le> 1 \<Longrightarrow> double x \<le> 1"
  using double_mono [of x 1] by simp

lemma temporal_double_le_one: "calculate_temporal_score_double x y \<le> 1"
proof -
  have mid: "double (1 - double (double (t - 300) / 3300)) \<le> 1" if "300 < t" for t :: real
  proof -
    from that have "0 \<le> double (t - 300)" by (intro double_nonneg) simp
    then have "0 \<le> double (double (t - 300) / 3300)" by (intro double_nonneg) simp
    then show ?thesis by (intro double_le_one) simp
  qed
  have far: "max (double 0.1) (double (1 - double (t / 86400))) \<le> 1" if "0 \<le> t" for t :: real
  proof -
    from that have "0 \<le> double (t / 86400)" by (intro double_nonneg) simp
    then have "double (1 - double (t / 86400)) \<le> 1" by (intro double_le_one) simp
    then show ?thesis by (simp add: double_values)
  qed
  have g: "(if \<bar>double d\<bar> \<le> 300 then 1
            else if \<bar>double d\<bar> \<le> 3600
            then double (1 - double (double (\<bar>double d\<bar> - 300) / 3300))
            else max (double 0.1) (double (1 - double (\<bar>double d\<bar> / 86400)))) \<le> 1" for d
    using mid [of "\<bar>double d\<bar>"] far [of "\<bar>double d\<bar>"] by auto
  show ?thesis
    unfolding calculate_temporal_score_double_def Let_def
    by (simp add: g split: sum.splits split del: if_split)
qed

lemma bandwidth_double_some:
  "kb \<noteq> 0 \<Longrightarrow>
     calculate_bandwidth_score (Some bytes) (Some kb) =
       (if double 0.1 \<le> double (real_of_int bytes / (real_of_int kb * 1024))
           \<and> double (real_of_int bytes / (real_of_int kb * 1024)) \<le> double 0.8 then 1
        else if double (real_of_int bytes / (real_of_int kb * 1024)) < double 0.1
        then double (double (real_of_int bytes / (real_of_int kb * 1024)) / double 0.1)
        else max (double 0.2)
               (double (1 - double (double (double (real_of_int bytes / (real_of_int kb * 1024))
                                            - double 0.8) / double 0.2))))"
  by (simp add: calculate_bandwidth_score_def Let_def)

lemma bandwidth_range: "calculate_bandwidth_score x y \<le> 1"
proof -
  have low: "double (u / double 0.1) \<le> 1" if "u < double 0.1" for u :: real
  proof -
    have "0 < double 0.1" by (simp add: double_values)
    with that have "u / double 0.1 \<le> 1" by (simp add: field_simps)
    then show ?thesis by (rule double_le_one)
  qed
  have high: "max (double 0.2) (double (1 - double (double (u - double 0.8) / double 0.2))) \<le> 1"
    if "double 0.8 < u" for u :: real
  proof -
    from that have "0 \<le> double (u - double 0.8)" by (intro double_nonneg) simp
    moreover have "0 < double 0.2" by (simp add: double_values)
    ultimately have "0 \<le> double (double (u - double 0.8) / double 0.2)"
      by (intro double_nonneg) simp
    then have "double (1 - double (double (u - double 0.8) / double 0.2)) \<le> 1"
      by (intro double_le_one) simp
    then show ?thesis by (simp add: double_values)
  qed
  have some: "calculate_bandwidth_score (Some b) (Some k) \<le> 1" for b k
  proof (cases "k = 0")
    case True
    then show ?thesis by (simp add: calculate_bandwidth_score_def)
  next
    case False
    show ?thesis
      unfolding bandwidth_double_some [OF False]
      using low [of "double (real_of_int b / (real_of_int k * 1024))"]
        high [of "double (real_of_int b / (real_of_int k * 1024))"]
      by auto
  qed
  show ?thesis
    by (cases x; cases y) (simp_all add: some, simp_all add: calculate_bandwidth_score_def Let_def)
qed

lemma bandwidth_low: "calculate_bandwidth_score (Some 51200) (Some 1000) = 1 / 2"
  by (simp add: calculate_bandwidth_score_def Let_def double_values)

lemma bandwidth_mid: "calculate_bandwidth_score (Some 512000) (Some 1000) = 1"
  by (simp add: calculate_bandwidth_score_def Let_def double_values)

lemma bandwidth_high:
  "calculate_bandwidth_score (Some 921600) (Some 1000) = 4503599627370497 / 9007199254740992"
  by (simp add: calculate_bandwidth_score_def Let_def double_values)


text \<open>
  Claim C5, as the code has it. With \<open>node_bandwidth_kb = 0\<close> the bandwidth score is 0.5
  whatever the byte count. Otherwise, with the utilization \<open>u\<close> the float quotient of
  \<open>byte_count\<close> by \<open>bandwidth_kb * 1024\<close>, the score is 1 for \<open>0.1 \<le> u \<le> 0.8\<close>, the float
  quotient \<open>u / 0.1\<close> for \<open>u < 0.1\<close>, and \<open>max (0.2, 1.0 - (u - 0.8) / 0.2)\<close> in float
  arithmetic for \<open>u > 0.8\<close>. A quotient of 0.05 gives 0.5 and a quotient of 0.5 gives 1; a
  quotient of 0.9 gives \<open>0.5 + 2 ^ -53\<close>, the float printed as 0.5000000000000001.
\<close>

theorem bandwidth_score_piecewise:
  "calculate_bandwidth_score flow_byte_count (Some 0) = 0.5
   \<and> (kb \<noteq> 0 \<longrightarrow>
        (let u = double (real_of_int bytes / (real_of_int kb * 1024))
         in calculate_bandwidth_score (Some bytes) (Some kb) =
              (if double 0.1 \<le> u \<and> u \<le> double 0.8 then 1
               else if u < double 0.1 then double (u / double 0.1)
               else max (double 0.2) (double (1 - double (double (u - double 0.8) / double 0.2)))))
        \<and> (real_of_int bytes / (real_of_int kb * 1024) = 0.05 \<longrightarrow>
              calculate_bandwidth_score (Some bytes) (Some kb) = 0.5)
        \<and> (real_of_int bytes / (real_of_int kb * 1024) = 0.5 \<longrightarrow>
              calculate_bandwidth_score (Some bytes) (Some kb) = 1)
        \<and> (real_of_int bytes / (real_of_int kb * 1024) = 0.9 \<longrightarrow>
              calculate_bandwidth_score (Some bytes) (Some kb) = 0.5 + 1 / 2 ^ 53))"
proof -
  have zero: "calculate_bandwidth_score flow_byte_count (Some 0) = 0.5"
    by (simp add: calculate_bandwidth_score_def)
  have general: "(let u = double (real_of_int bytes / (real_of_int kb * 1024))
         in calculate_bandwidth_score (Some bytes) (Some kb) =
              (if double 0.1 \<le> u \<and> u \<le> double 0.8 then 1
               else if u < double 0.1 then double (u / double 0.1)
               else max (double 0.2) (double (1 - double (double (u - double 0.8) / double 0.2)))))"
    if "kb \<noteq> 0"
    unfolding Let_def by (rule bandwidth_double_some [OF that])
  have low: "calculate_bandwidth_score (Some bytes) (Some kb) = 0.5"
    if "kb \<noteq> 0" "real_of_int bytes / (real_of_int kb * 1024) = 0.05"
    unfolding bandwidth_double_some [OF that(1)] that(2) by (simp add: double_values)
  have mid: "calculate_bandwidth_score (Some bytes) (Some kb) = 1"
    if "kb \<noteq> 0" "real_of_int bytes / (real_of_int kb * 1024) = 0.5"
    unfolding bandwidth_double_some [OF that(1)] that(2) by (simp add: double_values)
  have high: "calculate_bandwidth_score (Some bytes) (Some kb) = 0.5 + 1 / 2 ^ 53"
    if "kb \<noteq> 0" "real_of_int bytes / (real_of_int kb * 1024) = 0.9"
    unfolding bandwidth_double_some [OF that(1)] that(2) by (simp add: double_values)
  from zero general low mid high show ?thesis by blast
qed

theorem bandwidth_score_piecewise_witness:
  "(1000::int) \<noteq> 0
   \<and> real_of_int 51200 / (real_of_int 1000 * 1024) = 0.05
   \<and> calculate_bandwidth_score (Some 51200) (Some 1000) = 0.5
   \<and> real_of_int 512000 / (real_of_int 1000 * 1024) = 0.5
   \<and> calculate_bandwidth_score (Some 512000) (Some 1000) = 1
   \<and> real_of_int 921600 / (real_of_int 1000 * 1024) = 0.9
   \<and> calculate_bandwidth_score (Some 921600) (Some 1000) = 0.5 + 1 / 2 ^ 53"
  using bandwidth_score_piecewise [of None 1000 51200]
    bandwidth_score_piecewise [of None 1000 512000]
    bandwidth_score_piecewise [of None 1000 921600]
  by (simp add: Let_def)

text \<open>
  Claim C5 as stated fails: for 921600 bytes on a node of 1000 KB the utilization is 0.9
  and the score is not 0.5 but the next float above it.
\<close>

theorem bandwidth_score_counterexample:
  "real_of_int 921600 / (real_of_int 1000 * 1024) = 0.9
   \<and> calculate_bandwidth_score (Some 921600) (Some 1000) = 4503599627370497 / 9007199254740992
   \<and> calculate_bandwidth_score (Some 921600) (Some 1000) \<noteq> 0.5"
  by (simp add: bandwidth_high)


section \<open>The datastore operations and the correlation loop\<close>

lemma get_connection_read:
  assumes "get_connection (\<lambda>d. (q d, d)) db = (res, db')"
  shows "tor_nodes db' = tor_nodes db \<and> network_flows db' = network_flows db
         \<and> correlation_results db' = correlation_results db
         \<and> faults db' = tl (faults db)
         \<and> (res = Inl DatabaseError \<or> res = Inr (q db'))"
  using assms by (auto simp: get_connection_def split: list.splits if_splits)

lemma get_connection_no_fault:
  "faults db = [] \<Longrightarrow> get_connection stmt db = (Inr (fst (stmt db)), snd (stmt db))"
  by (simp add: get_connection_def split: prod.splits)

lemma insert_correlation_cases:
  assumes "insert_correlation c db = (res, db')"
  shows "tor_nodes db' = tor_nodes db \<and> network_flows db' = network_flows db
         \<and> faults db' = tl (faults db)
         \<and> ((res = Inl DatabaseError \<and> correlation_results db' = correlation_results db)
            \<or> (res = Inr () \<and> correlation_results db' = correlation_results db @ [c]))"
  using assms by (auto simp: insert_correlation_def get_connection_def split: list.splits if_splits)

lemma loop_conf:
  "double (double (double (calculate_temporal_score_double (Datetime ts)
                             (column_timestamp (last_seen node)) * 0.5)
                   + double (calculate_bandwidth_score (byte_count flow) (bandwidth_kb node)
                             * double 0.3))
           + double (calculate_pattern_score (flow_fingerprint flow) [] * double 0.2))
     = candidate_confidence ts flow node"
  by (simp add: candidate_confidence_def weighted_confidence_double_def
      candidate_temporal_def candidate_bandwidth_def)

lemma loop_record:
  "\<lparr>cr_flow_id = fid,
      candidate_node_fingerprint = fingerprint node,
      confidence_score = float_round (candidate_confidence ts flow node) 4,
      temporal_score = float_round (calculate_temporal_score_double (Datetime ts)
                       (column_timestamp (last_seen node))) 4,
      bandwidth_score = float_round (calculate_bandwidth_score (byte_count flow) (bandwidth_kb node)) 4,
      pattern_score = float_round (calculate_pattern_score (flow_fingerprint flow) []) 4,
      evidence = \<lparr>node_nickname = nickname node,
                  node_ip = ip_address node,
                  node_country = country_code node,
                  exit_node_used = dst_ip flow,
                  time_window_seconds = TIME_WINDOW_SECONDS cfg\<rparr>\<rparr> = correlation_record cfg fid ts flow node"
  by (simp add: correlation_record_def candidate_temporal_def candidate_bandwidth_def)

lemma score_candidates_step:
  "score_candidates cfg fid ts flow (node # nodes) acc db =
     (if MIN_CONFIDENCE_THRESHOLD cfg \<le> candidate_confidence ts flow node
      then (case insert_correlation (correlation_record cfg fid ts flow node) db of
              (Inl e, db') \<Rightarrow> (Inl e, db')
            | (Inr u, db') \<Rightarrow>
                score_candidates cfg fid ts flow nodes (acc @ [correlation_record cfg fid ts flow node]) db')
      else score_candidates cfg fid ts flow nodes acc db)"
  unfolding score_candidates.simps Let_def loop_conf loop_record by simp

declare score_candidates.simps(2) [simp del]

lemma surviving_Cons:
  "surviving_results cfg fid ts flow (node # nodes) =
     (if MIN_CONFIDENCE_THRESHOLD cfg \<le> candidate_confidence ts flow node
      then correlation_record cfg fid ts flow node # surviving_results cfg fid ts flow nodes
      else surviving_results cfg fid ts flow nodes)"
  by (simp add: surviving_results_def)

lemma surviving_Nil: "surviving_results cfg fid ts flow [] = []"
  by (simp add: surviving_results_def)

lemma score_candidates_char:
  assumes "score_candidates cfg fid ts flow nodes acc db = (res, db')"
  shows "tor_nodes db' = tor_nodes db \<and> network_flows db' = network_flows db
         \<and> (\<exists>k \<le> length (surviving_results cfg fid ts flow nodes).
               correlation_results db' =
                 correlation_results db @ take k (surviving_results cfg fid ts flow nodes)
               \<and> ((res = Inr (acc @ surviving_results cfg fid ts flow nodes)
                     \<and> k = length (surviving_results cfg fid ts flow nodes))
                   \<or> (res = Inl DatabaseError
                       \<and> k < length (surviving_results cfg fid ts flow nodes))))"
  using assms
proof (induction nodes arbitrary: acc db)
  case Nil
  then show ?case by (simp add: surviving_Nil)
next
  case (Cons node nodes)
  let ?S = "surviving_results cfg fid ts flow nodes"
  let ?c = "correlation_record cfg fid ts flow node"
  show ?case
  proof (cases "MIN_CONFIDENCE_THRESHOLD cfg \<le> candidate_confidence ts flow node")
    case False
    with Cons.prems have "score_candidates cfg fid ts flow nodes acc db = (res, db')"
      by (simp add: score_candidates_step)
    from Cons.IH [OF this] False show ?thesis
      by (simp add: surviving_Cons)
  next
    case True
    obtain r1 db1 where ins: "insert_correlation ?c db = (r1, db1)"
      by (cases "insert_correlation ?c db")
    note ic = insert_correlation_cases [OF ins]
    from ic consider
      (fail) "r1 = Inl DatabaseError" "correlation_results db1 = correlation_results db"
      | (ok) "r1 = Inr ()" "correlation_results db1 = correlation_results db @ [?c]"
      by blast
    then show ?thesis
    proof cases
      case fail
      with Cons.prems True ins have "res = Inl DatabaseError" "db' = db1"
        by (auto simp: score_candidates_step)
      with fail ic True show ?thesis
        by (auto simp: surviving_Cons intro!: exI[of _ 0])
    next
      case ok
      with Cons.prems True ins
      have "score_candidates cfg fid ts flow nodes (acc @ [?c]) db1 = (res, db')"
        by (auto simp: score_candidates_step)
      from Cons.IH [OF this] obtain k where k: "k \<le> length ?S"
        "correlation_results db' = correlation_results db1 @ take k ?S"
        "(res = Inr ((acc @ [?c]) @ ?S) \<and> k = length ?S) \<or> (res = Inl DatabaseError \<and> k < length ?S)"
        and tabs: "tor_nodes db' = tor_nodes db1" "network_flows db' = network_flows db1"
        by blast
      from k ok True ic tabs show ?thesis
        by (auto simp: surviving_Cons intro!: exI[of _ "Suc k"])
    qed
  qed
qed

lemma score_candidates_no_fault:
  assumes "faults db = []"
  shows "score_candidates cfg fid ts flow nodes acc db =
           (Inr (acc @ surviving_results cfg fid ts flow nodes),
            db\<lparr>correlation_results := correlation_results db @ surviving_results cfg fid ts flow nodes\<rparr>)"
  using assms
proof (induction nodes arbitrary: acc db)
  case Nil
  then show ?case by (simp add: surviving_Nil)
next
  case (Cons node nodes)
  have ins: "insert_correlation c db = (Inr (), db\<lparr>correlation_results := correlation_results db @ [c]\<rparr>)" for c
    using Cons.prems by (simp add: insert_correlation_def get_connection_no_fault)
  show ?case
    using Cons.prems
    by (simp add: score_candidates_step surviving_Cons ins Cons.IH)
qed

lemma get_guard_nodes_read:
  assumes "get_guard_nodes (Some 100) db = (res, db')"
  shows "tor_nodes db' = tor_nodes db \<and> network_flows db' = network_flows db
         \<and> correlation_results db' = correlation_results db
         \<and> faults db' = tl (faults db)
         \<and> (res = Inl DatabaseError \<or> res = Inr (candidate_nodes db))"
proof -
  let ?q = "\<lambda>d. (let rows = filter (\<lambda>n. is_guard n \<and> is_running n) (tor_nodes d)
             in (case Some (100::nat) of None \<Rightarrow> rows
                 | Some l \<Rightarrow> if l = 0 then rows else take l rows))"
  from assms have "get_connection (\<lambda>d. (?q d, d)) db = (res, db')"
    by (simp add: get_guard_nodes_def)
  from get_connection_read [OF this] show ?thesis
    by (auto simp: candidate_nodes_def)
qed

lemma correlate_try_char:
  assumes "correlate_flow_to_guards_try cfg fid db = (res, db')"
  shows "tor_nodes db' = tor_nodes db \<and> network_flows db' = network_flows db
         \<and> (\<exists>k \<le> length (flow_results cfg fid db).
               correlation_results db' = correlation_results db @ take k (flow_results cfg fid db)
               \<and> ((res = Inr (take (MAX_CANDIDATE_NODES cfg)
                                (sort_key (\<lambda>c. - confidence_score c) (flow_results cfg fid db)))
                     \<and> k = length (flow_results cfg fid db))
                   \<or> (\<exists>e. res = Inl e)))"
proof -
  let ?qf = "\<lambda>d. find (\<lambda>f. flow_id f = fid) (network_flows d)"
  obtain r1 db1 where g1: "get_connection (\<lambda>d. (?qf d, d)) db = (r1, db1)"
    by (cases "get_connection (\<lambda>d. (?qf d, d)) db")
  note c1 = get_connection_read [OF g1]
  have zero: "\<exists>k \<le> length (flow_results cfg fid db).
      correlation_results db = correlation_results db @ take k (flow_results cfg fid db)
      \<and> ((Inl e = Inr (take (MAX_CANDIDATE_NODES cfg)
                                (sort_key (\<lambda>c. - confidence_score c) (flow_results cfg fid db)))
                     \<and> k = length (flow_results cfg fid db))
                   \<or> (\<exists>e'. (Inl e :: py_exception + correlation list) = Inl e'))" for e
    by (intro exI[of _ 0]) simp
  show ?thesis
  proof (cases r1)
    case (Inl e)
    with assms g1 have "res = Inl e" "db' = db1"
      by (auto simp: correlate_flow_to_guards_try_def)
    with c1 zero [of e] show ?thesis by simp
  next
    case (Inr fo)
    with c1 have fo: "fo = ?qf db" by auto
    show ?thesis
    proof (cases fo)
      case None
      with assms g1 Inr have "res = Inr []" "db' = db1"
        by (auto simp: correlate_flow_to_guards_try_def)
      moreover from None fo have "flow_results cfg fid db = []"
        by (simp add: flow_results_def)
      ultimately show ?thesis using c1 by simp
    next
      case (Some flow)
      with fo have ff: "?qf db = Some flow" by simp
      let ?qe = "\<lambda>d. find (\<lambda>n. ip_address n = dst_ip flow \<and> is_exit n) (tor_nodes d)"
      obtain r2 db2 where g2: "get_connection (\<lambda>d. (?qe d, d)) db1 = (r2, db2)"
        by (cases "get_connection (\<lambda>d. (?qe d, d)) db1")
      note c2 = get_connection_read [OF g2]
      show ?thesis
      proof (cases r2)
        case (Inl e)
        with assms g1 g2 Inr Some have "res = Inl e" "db' = db2"
          by (auto simp: correlate_flow_to_guards_try_def)
        with c1 c2 zero [of e] show ?thesis by simp
      next
        case r2: (Inr eo)
        with c1 c2 have eo: "eo = ?qe db" by auto
        show ?thesis
        proof (cases eo)
          case None
          with assms g1 g2 Inr Some r2 have "res = Inr []" "db' = db2"
            by (auto simp: correlate_flow_to_guards_try_def)
          moreover from None eo ff have "flow_results cfg fid db = []"
            by (simp add: flow_results_def)
          ultimately show ?thesis using c1 c2 by simp
        next
          case ex: (Some exit_node)
          with eo have fe: "?qe db = Some exit_node" by simp
          show ?thesis
          proof (cases "timestamp flow")
            case None
            with assms g1 g2 Inr Some r2 ex have "res = Inl TypeError" "db' = db2"
              by (auto simp: correlate_flow_to_guards_try_def)
            with c1 c2 zero [of TypeError] show ?thesis by simp
          next
            case ts: (Some ts)
            obtain r3 db3 where g3: "get_guard_nodes (Some 100) db2 = (r3, db3)"
              by (cases "get_guard_nodes (Some 100) db2")
            note c3 = get_guard_nodes_read [OF g3]
            show ?thesis
            proof (cases r3)
              case (Inl e)
              with assms g1 g2 g3 Inr Some r2 ex ts have "res = Inl e" "db' = db3"
                by (auto simp: correlate_flow_to_guards_try_def)
              with c1 c2 c3 zero [of e] show ?thesis by simp
            next
              case r3: (Inr guard_nodes)
              with c1 c2 c3 have gn: "guard_nodes = candidate_nodes db"
                by (auto simp: candidate_nodes_def)
              have R: "flow_results cfg fid db = surviving_results cfg fid ts flow guard_nodes"
                using ff fe ts gn by (simp add: flow_results_def)
              obtain r4 db4 where
                g4: "score_candidates cfg fid ts flow guard_nodes [] db3 = (r4, db4)"
                by (cases "score_candidates cfg fid ts flow guard_nodes [] db3")
              note c4 = score_candidates_char [OF g4]
              from assms g1 g2 g3 g4 Inr Some r2 ex ts r3
              have out: "db' = db4"
                "res = (case r4 of Inl e \<Rightarrow> Inl e
                        | Inr cs \<Rightarrow> Inr (take (MAX_CANDIDATE_NODES cfg)
                                          (sort_key (\<lambda>c. - confidence_score c) cs)))"
                by (auto simp: correlate_flow_to_guards_try_def split: sum.splits)
              from c4 obtain k where k: "k \<le> length (flow_results cfg fid db)"
                "correlation_results db4 = correlation_results db3 @ take k (flow_results cfg fid db)"
                "(r4 = Inr (flow_results cfg fid db) \<and> k = length (flow_results cfg fid db))
                   \<or> r4 = Inl DatabaseError"
                unfolding R by auto
              from k out c1 c2 c3 c4 show ?thesis
                by (intro conjI exI[of _ k]) auto
            qed
          qed
        qed
      qed
    qed
  qed
qed

lemma correlate_try_no_fault:
  assumes "faults db = []"
  shows "correlate_flow_to_guards_try cfg fid db = (res, db') \<Longrightarrow>
           faults db' = []
           \<and> correlation_results db' = correlation_results db @ flow_results cfg fid db
           \<and> (res = Inr (take (MAX_CANDIDATE_NODES cfg)
                                (sort_key (\<lambda>c. - confidence_score c) (flow_results cfg fid db)))
               \<or> (res = Inl TypeError \<and> flow_results cfg fid db = []))"
  using assms
  by (auto simp: correlate_flow_to_guards_try_def get_connection_no_fault get_guard_nodes_def
      score_candidates_no_fault flow_results_def candidate_nodes_def
      split: option.splits)


section \<open>One correlation pass\<close>

lemma find_by_key:
  "distinct (map key xs) \<Longrightarrow> x \<in> set xs \<Longrightarrow> find (\<lambda>y. key y = key x) xs = Some x"
proof (induction xs)
  case Nil
  then show ?case by simp
next
  case (Cons a xs)
  then show ?case by (auto simp: image_iff)
qed

lemma correlate_char:
  assumes "correlate_flow_to_guards cfg fid db = (returned, db')"
  shows "tor_nodes db' = tor_nodes db \<and> network_flows db' = network_flows db
         \<and> (\<exists>k \<le> length (flow_results cfg fid db).
               correlation_results db' = correlation_results db @ take k (flow_results cfg fid db)
               \<and> ((returned = take (MAX_CANDIDATE_NODES cfg)
                                (sort_key (\<lambda>c. - confidence_score c) (flow_results cfg fid db))
                     \<and> k = length (flow_results cfg fid db))
                   \<or> returned = []))"
proof -
  obtain res where t: "correlate_flow_to_guards_try cfg fid db = (res, db')"
    and r: "returned = (case res of Inl e \<Rightarrow> [] | Inr cs \<Rightarrow> cs)"
    using assms
    by (cases "correlate_flow_to_guards_try cfg fid db")
      (auto simp: correlate_flow_to_guards_def split: sum.splits)
  from correlate_try_char [OF t] r show ?thesis
    by (auto split: sum.splits)
qed

lemma correlate_no_fault:
  assumes "faults db = []"
  shows "correlate_flow_to_guards cfg fid db =
           (take (MAX_CANDIDATE_NODES cfg)
              (sort_key (\<lambda>c. - confidence_score c) (flow_results cfg fid db)),
            db\<lparr>correlation_results := correlation_results db @ flow_results cfg fid db\<rparr>)"
  using assms
  by (auto simp: correlate_flow_to_guards_def correlate_flow_to_guards_try_def
      get_connection_no_fault get_guard_nodes_def
      score_candidates_no_fault flow_results_def candidate_nodes_def
      split: option.splits)

lemma flow_results_elem:
  assumes "r \<in> set (flow_results cfg fid db)"
  shows "\<exists>flow ts node. flow \<in> set (network_flows db) \<and> flow_id flow = fid
           \<and> timestamp flow = Some ts
           \<and> node \<in> set (tor_nodes db) \<and> is_guard node \<and> is_running node
           \<and> MIN_CONFIDENCE_THRESHOLD cfg \<le> candidate_confidence ts flow node
           \<and> r = correlation_record cfg fid ts flow node"
proof -
  from assms obtain flow ts where
    f': "Some flow = find (\<lambda>f. flow_id f = fid) (network_flows db)"
    and ts': "Some ts = timestamp flow"
    and r: "r \<in> set (surviving_results cfg fid ts flow (candidate_nodes db))"
    by (auto simp: flow_results_def split: option.splits)
  note f = f' [symmetric] and ts = ts' [symmetric]
  from f have "flow \<in> set (network_flows db)" "flow_id flow = fid"
    by (auto simp: find_Some_iff)
  moreover from r obtain node where "node \<in> set (candidate_nodes db)"
    "MIN_CONFIDENCE_THRESHOLD cfg \<le> candidate_confidence ts flow node"
    "r = correlation_record cfg fid ts flow node"
    by (auto simp: surviving_results_def)
  moreover from this(1) have "node \<in> set (tor_nodes db) \<and> is_guard node \<and> is_running node"
    by (auto simp: candidate_nodes_def dest: in_set_takeD)
  ultimately show ?thesis using ts by blast
qed

lemma flow_results_blocked:
  assumes "flow \<in> set (network_flows db)" "flow_id flow = fid"
    and "distinct (map flow_id (network_flows db))"
    and "\<forall>n \<in> set (tor_nodes db). ip_address n = dst_ip flow \<longrightarrow> \<not> is_exit n"
  shows "flow_results cfg fid db = []"
proof -
  from find_by_key [OF assms(3) assms(1)] assms(2)
  have "find (\<lambda>f. flow_id f = fid) (network_flows db) = Some flow" by simp
  moreover from assms(4)
  have "find (\<lambda>n. ip_address n = dst_ip flow \<and> is_exit n) (tor_nodes db) = None"
    by (auto simp: find_None_iff)
  ultimately show ?thesis by (simp add: flow_results_def)
qed

lemma exit_gate_try:
  assumes f: "find (\<lambda>f. flow_id f = fid) (network_flows db) = Some flow"
    and e: "find (\<lambda>n. ip_address n = dst_ip flow \<and> is_exit n) (tor_nodes db) = None"
  shows "fst (correlate_flow_to_guards cfg fid db) = []
         \<and> (faults (snd (correlate_flow_to_guards cfg fid db)) = tl (faults db)
            \<or> faults (snd (correlate_flow_to_guards cfg fid db)) = tl (tl (faults db)))"
proof -
  let ?qf = "\<lambda>d. find (\<lambda>f. flow_id f = fid) (network_flows d)"
  let ?qe = "\<lambda>d. find (\<lambda>n. ip_address n = dst_ip flow \<and> is_exit n) (tor_nodes d)"
  obtain r1 db1 where g1: "get_connection (\<lambda>d. (?qf d, d)) db = (r1, db1)"
    by (cases "get_connection (\<lambda>d. (?qf d, d)) db")
  obtain r2 db2 where g2: "get_connection (\<lambda>d. (?qe d, d)) db1 = (r2, db2)"
    by (cases "get_connection (\<lambda>d. (?qe d, d)) db1")
  note c1 = get_connection_read [OF g1]
  note c2 = get_connection_read [OF g2]
  from c1 f have r1: "r1 = Inl DatabaseError \<or> r1 = Inr (Some flow)" by auto
  from c1 c2 e have r2: "r2 = Inl DatabaseError \<or> r2 = Inr None" by auto
  from r1 show ?thesis
  proof
    assume "r1 = Inl DatabaseError"
    with g1 have "correlate_flow_to_guards cfg fid db = ([], db1)"
      by (simp add: correlate_flow_to_guards_def correlate_flow_to_guards_try_def)
    with c1 show ?thesis by simp
  next
    assume a1: "r1 = Inr (Some flow)"
    from r2 have "correlate_flow_to_guards cfg fid db = ([], db2)"
    proof
      assume "r2 = Inl DatabaseError"
      with g1 g2 a1 show ?thesis
        by (simp add: correlate_flow_to_guards_def correlate_flow_to_guards_try_def)
    next
      assume "r2 = Inr None"
      with g1 g2 a1 show ?thesis
        by (simp add: correlate_flow_to_guards_def correlate_flow_to_guards_try_def)
    qed
    with c1 c2 show ?thesis by simp
  qed
qed

text \<open>
  Claim C7. When the destination address of the flow belongs to no node with
  \<open>is_exit\<close> set, \<open>correlate_flow_to_guards\<close> returns the empty list and writes no
  correlation record, whatever the guard nodes would score and whatever the failure
  schedule; it opens at most the two connections of the flow and exit lookups, so the
  guard nodes are never fetched.
\<close>

theorem exit_gate_blocks:
  assumes "flow \<in> set (network_flows db)" and "flow_id flow = fid"
    and "distinct (map flow_id (network_flows db))"
    and "\<forall>n \<in> set (tor_nodes db). ip_address n = dst_ip flow \<longrightarrow> \<not> is_exit n"
  shows "fst (correlate_flow_to_guards cfg fid db) = []
         \<and> correlation_results (snd (correlate_flow_to_guards cfg fid db)) = correlation_results db
         \<and> tor_nodes (snd (correlate_flow_to_guards cfg fid db)) = tor_nodes db
         \<and> network_flows (snd (correlate_flow_to_guards cfg fid db)) = network_flows db
         \<and> (faults (snd (correlate_flow_to_guards cfg fid db)) = tl (faults db)
            \<or> faults (snd (correlate_flow_to_guards cfg fid db)) = tl (tl (faults db)))"
proof -
  from find_by_key [OF assms(3) assms(1)] assms(2)
  have f: "find (\<lambda>f. flow_id f = fid) (network_flows db) = Some flow" by simp
  from assms(4)
  have e: "find (\<lambda>n. ip_address n = dst_ip flow \<and> is_exit n) (tor_nodes db) = None"
    by (auto simp: find_None_iff)
  have R: "flow_results cfg fid db = []"
    using assms by (rule flow_results_blocked)
  obtain returned db' where c: "correlate_flow_to_guards cfg fid db = (returned, db')"
    by (cases "correlate_flow_to_guards cfg fid db")
  from correlate_char [OF c] R exit_gate_try [OF f e, of cfg] c show ?thesis
    by auto
qed

theorem exit_gate_blocks_witness:
  "example_flow \<in> set (network_flows ((example_db 3 [])\<lparr>tor_nodes := map example_guard [0..<3]\<rparr>))
   \<and> flow_id example_flow = 1
   \<and> distinct (map flow_id (network_flows ((example_db 3 [])\<lparr>tor_nodes := map example_guard [0..<3]\<rparr>)))
   \<and> filter is_exit (tor_nodes ((example_db 3 [])\<lparr>tor_nodes := map example_guard [0..<3]\<rparr>)) = []
   \<and> fst (correlate_flow_to_guards Config 1
             ((example_db 3 [])\<lparr>tor_nodes := map example_guard [0..<3]\<rparr>)) = []
   \<and> correlation_results (snd (correlate_flow_to_guards Config 1
             ((example_db 3 [])\<lparr>tor_nodes := map example_guard [0..<3]\<rparr>))) = []"
proof -
  let ?D = "(example_db 3 [])\<lparr>tor_nodes := map example_guard [0..<3]\<rparr>"
  have h1: "example_flow \<in> set (network_flows ?D)" by (simp add: example_db_def)
  have h2: "flow_id example_flow = 1" by (simp add: example_flow_def)
  have h3: "distinct (map flow_id (network_flows ?D))" by (simp add: example_db_def)
  have h4: "\<forall>n \<in> set (tor_nodes ?D). ip_address n = dst_ip example_flow \<longrightarrow> \<not> is_exit n"
    by (simp add: example_db_def example_guard_def)
  have h5: "correlation_results ?D = []" by (simp add: example_db_def)
  have h6: "filter is_exit (tor_nodes ?D) = []"
    by (simp add: example_db_def example_guard_def)
  from exit_gate_blocks [OF h1 h2 h3 h4, of Config] h1 h2 h3 h5 h6 show ?thesis
    by simp
qed

lemma correlate_outputs:
  "\<exists>persisted. correlation_results (snd (correlate_flow_to_guards cfg fid db))
                  = correlation_results db @ persisted
     \<and> set persisted \<subseteq> set (flow_results cfg fid db)
     \<and> set (fst (correlate_flow_to_guards cfg fid db)) \<subseteq> set (flow_results cfg fid db)"
proof -
  obtain returned db' where c: "correlate_flow_to_guards cfg fid db = (returned, db')"
    by (cases "correlate_flow_to_guards cfg fid db")
  from correlate_char [OF c] obtain k where
    k: "correlation_results db' = correlation_results db @ take k (flow_results cfg fid db)"
    and r: "returned = take (MAX_CANDIDATE_NODES cfg)
                        (sort_key (\<lambda>c. - confidence_score c) (flow_results cfg fid db))
            \<or> returned = []"
    by blast
  from r have "set returned \<subseteq> set (flow_results cfg fid db)"
    by (auto dest: in_set_takeD)
  moreover have "set (take k (flow_results cfg fid db)) \<subseteq> set (flow_results cfg fid db)"
    by (rule set_take_subset)
  ultimately show ?thesis using k c by auto
qed


lemma pattern_empty_history: "calculate_pattern_score fp [] = 0.5"
  by (simp add: calculate_pattern_score_def)

lemma py_round_half: "py_round 0.5 4 = 0.5"
  by (simp add: py_round_def Let_def)

lemma float_round_half: "float_round 0.5 4 = 0.5"
  by (simp add: float_round_def py_round_def Let_def double_values)

lemma float_round_mono_bound:
  assumes "x \<le> c" "c * 10 ^ n < of_int m + 1 / 2"
  shows "float_round x n \<le> double (of_int m / 10 ^ n)"
proof -
  from assms(1) have "x * 10 ^ n \<le> c * 10 ^ n" by (simp add: mult_right_mono)
  with assms(2) have "x * 10 ^ n < of_int m + 1 / 2" by linarith
  then have "py_round x n \<le> of_int m / 10 ^ n" by (rule py_round_below)
  then show ?thesis unfolding float_round_def by (rule double_mono)
qed

lemma weighted_confidence_double_le:
  assumes "t \<le> 1" "b \<le> 1"
  shows "weighted_confidence_double t b (1 / 2) \<le> double (9 / 10)"
proof -
  have "t * 0.5 \<le> 1 / 2" using assms(1) by simp
  then have a: "double (t * 0.5) \<le> 1 / 2"
    using double_mono [of "t * 0.5" "1 / 2"] by (simp add: double_values)
  have "0 \<le> double 0.3" by (simp add: double_values)
  from mult_right_mono [OF assms(2) this] have "b * double 0.3 \<le> double 0.3" by simp
  then have "double (b * double 0.3) \<le> double (double 0.3)" by (rule double_mono)
  then have b: "double (b * double 0.3) \<le> 5404319552844595 / 18014398509481984"
    by (simp add: double_values)
  from a b have "double (t * 0.5) + double (b * double 0.3)
                   \<le> 1 / 2 + 5404319552844595 / 18014398509481984" by linarith
  then have "double (double (t * 0.5) + double (b * double 0.3))
               \<le> double (1 / 2 + 5404319552844595 / 18014398509481984)" by (rule double_mono)
  then have s: "double (double (t * 0.5) + double (b * double 0.3))
               \<le> 3602879701896397 / 4503599627370496"
    by (simp add: double_values)
  have c: "double ((1 / 2) * double 0.2) = 3602879701896397 / 36028797018963968"
    by (simp add: double_values)
  from s have "double (double (t * 0.5) + double (b * double 0.3)) + double ((1 / 2) * double 0.2)
                 \<le> 3602879701896397 / 4503599627370496 + 3602879701896397 / 36028797018963968"
    unfolding c by linarith
  then have "double (double (double (t * 0.5) + double (b * double 0.3))
                     + double ((1 / 2) * double 0.2))
               \<le> double (3602879701896397 / 4503599627370496
                          + 3602879701896397 / 36028797018963968)" by (rule double_mono)
  then show ?thesis
    unfolding weighted_confidence_double_def by (simp add: double_values)
qed

lemma candidate_confidence_le: "candidate_confidence ts flow node \<le> double (9 / 10)"
  unfolding candidate_confidence_def pattern_empty_history
  using weighted_confidence_double_le [OF temporal_double_le_one bandwidth_range]
  by (simp add: candidate_temporal_def candidate_bandwidth_def)

lemma record_confidence_le:
  "confidence_score (correlation_record cfg fid ts flow node) \<le> double (9 / 10)"
proof -
  have "double (9 / 10) * 10 ^ 4 < of_int 9000 + 1 / 2" by (simp add: double_values)
  from float_round_mono_bound [OF candidate_confidence_le this]
  show ?thesis by (simp add: correlation_record_def)
qed

lemma weighted_example: "weighted_confidence_double 1 1 (1 / 2) = double (9 / 10)"
  by (simp add: weighted_confidence_double_def double_values)

lemma float_round_example: "float_round (weighted_confidence_double 1 1 0.5) 4 = double 0.9"
  by (simp add: float_round_def py_round_def Let_def weighted_confidence_double_def double_values)


lemma record_fields:
  "cr_flow_id (correlation_record cfg fid ts flow node) = fid"
  "candidate_node_fingerprint (correlation_record cfg fid ts flow node) = fingerprint node"
  "confidence_score (correlation_record cfg fid ts flow node)
     = float_round (candidate_confidence ts flow node) 4"
  "temporal_score (correlation_record cfg fid ts flow node)
     = float_round (candidate_temporal ts node) 4"
  "bandwidth_score (correlation_record cfg fid ts flow node)
     = float_round (candidate_bandwidth flow node) 4"
  "pattern_score (correlation_record cfg fid ts flow node)
     = float_round (calculate_pattern_score (flow_fingerprint flow) []) 4"
  by (simp_all add: correlation_record_def)

text \<open>
  Claim C2, as the code has it. Every record that \<open>correlate_flow_to_guards\<close> returns or
  writes belongs to the flow and to a node of the directory. Its confidence is
  \<open>round(c, 4)\<close>, where \<open>c\<close> is \<open>temporal * 0.5 + bandwidth * 0.3 + pattern * 0.2\<close>
  evaluated in binary64 from left to right on the unrounded component scores, each product
  and each sum rounded; its three component scores are the components rounded by
  \<open>round(_, 4)\<close>. Each stored score is the float nearest to a multiple of \<open>10 ^ -4\<close> that
  lies within \<open>10 ^ -4 / 2\<close> of the unrounded float. For temporal 1, bandwidth 1 and
  pattern 0.5 the confidence is the float 0.9.
\<close>

theorem confidence_is_weighted_sum:
  "(\<exists>persisted.
      correlation_results (snd (correlate_flow_to_guards cfg fid db))
        = correlation_results db @ persisted
      \<and> (\<forall>r \<in> set (fst (correlate_flow_to_guards cfg fid db)) \<union> set persisted.
            \<exists>flow ts node.
              flow \<in> set (network_flows db) \<and> flow_id flow = fid \<and> timestamp flow = Some ts
              \<and> node \<in> set (tor_nodes db) \<and> candidate_node_fingerprint r = fingerprint node
              \<and> (let temporal = calculate_temporal_score_double (Datetime ts)
                                   (column_timestamp (last_seen node));
                      bandwidth = calculate_bandwidth_score (byte_count flow) (bandwidth_kb node);
                      pattern = calculate_pattern_score (flow_fingerprint flow) [];
                      confidence = double (double (double (temporal * 0.5)
                                                   + double (bandwidth * double 0.3))
                                           + double (pattern * double 0.2))
                  in confidence_score r = float_round confidence 4
                     \<and> temporal_score r = float_round temporal 4
                     \<and> bandwidth_score r = float_round bandwidth 4
                     \<and> pattern_score r = float_round pattern 4
                     \<and> (\<exists>k::int. confidence_score r = double (of_int k / 10 ^ 4)
                                  \<and> \<bar>of_int k / 10 ^ 4 - confidence\<bar> \<le> 1 / 20000)
                     \<and> (\<exists>k::int. temporal_score r = double (of_int k / 10 ^ 4)
                                  \<and> \<bar>of_int k / 10 ^ 4 - temporal\<bar> \<le> 1 / 20000)
                     \<and> (\<exists>k::int. bandwidth_score r = double (of_int k / 10 ^ 4)
                                  \<and> \<bar>of_int k / 10 ^ 4 - bandwidth\<bar> \<le> 1 / 20000)
                     \<and> (\<exists>k::int. pattern_score r = double (of_int k / 10 ^ 4)
                                  \<and> \<bar>of_int k / 10 ^ 4 - pattern\<bar> \<le> 1 / 20000))))
   \<and> float_round (double (double (double (1 * 0.5) + double (1 * double 0.3))
                           + double (0.5 * double 0.2))) 4 = double 0.9"
proof -
  have spec4: "\<exists>k::int. float_round x 4 = double (of_int k / 10 ^ 4)
                        \<and> \<bar>of_int k / 10 ^ 4 - x\<bar> \<le> 1 / 20000" for x
    using float_round_spec [of x 4] by simp
  have elem: "\<exists>flow ts node.
              flow \<in> set (network_flows db) \<and> flow_id flow = fid \<and> timestamp flow = Some ts
              \<and> node \<in> set (tor_nodes db) \<and> candidate_node_fingerprint r = fingerprint node
              \<and> (let temporal = calculate_temporal_score_double (Datetime ts)
                                   (column_timestamp (last_seen node));
                      bandwidth = calculate_bandwidth_score (byte_count flow) (bandwidth_kb node);
                      pattern = calculate_pattern_score (flow_fingerprint flow) [];
                      confidence = double (double (double (temporal * 0.5)
                                                   + double (bandwidth * double 0.3))
                                           + double (pattern * double 0.2))
                  in confidence_score r = float_round confidence 4
                     \<and> temporal_score r = float_round temporal 4
                     \<and> bandwidth_score r = float_round bandwidth 4
                     \<and> pattern_score r = float_round pattern 4
                     \<and> (\<exists>k::int. confidence_score r = double (of_int k / 10 ^ 4)
                                  \<and> \<bar>of_int k / 10 ^ 4 - confidence\<bar> \<le> 1 / 20000)
                     \<and> (\<exists>k::int. temporal_score r = double (of_int k / 10 ^ 4)
                                  \<and> \<bar>of_int k / 10 ^ 4 - temporal\<bar> \<le> 1 / 20000)
                     \<and> (\<exists>k::int. bandwidth_score r = double (of_int k / 10 ^ 4)
                                  \<and> \<bar>of_int k / 10 ^ 4 - bandwidth\<bar> \<le> 1 / 20000)
                     \<and> (\<exists>k::int. pattern_score r = double (of_int k / 10 ^ 4)
                                  \<and> \<bar>of_int k / 10 ^ 4 - pattern\<bar> \<le> 1 / 20000))"
    if "r \<in> set (flow_results cfg fid db)" for r
  proof -
    from flow_results_elem [OF that] obtain flow ts node where
      h: "flow \<in> set (network_flows db)" "flow_id flow = fid" "timestamp flow = Some ts"
         "node \<in> set (tor_nodes db)" "r = correlation_record cfg fid ts flow node"
      by blast
    let ?t = "calculate_temporal_score_double (Datetime ts) (column_timestamp (last_seen node))"
    let ?b = "calculate_bandwidth_score (byte_count flow) (bandwidth_kb node)"
    let ?p = "calculate_pattern_score (flow_fingerprint flow) []"
    let ?c = "double (double (double (?t * 0.5) + double (?b * double 0.3)) + double (?p * double 0.2))"
    have c: "candidate_confidence ts flow node = ?c"
      by (simp add: candidate_confidence_def weighted_confidence_double_def
          candidate_temporal_def candidate_bandwidth_def)
    have f: "candidate_node_fingerprint r = fingerprint node"
      "confidence_score r = float_round ?c 4" "temporal_score r = float_round ?t 4"
      "bandwidth_score r = float_round ?b 4" "pattern_score r = float_round ?p 4"
      unfolding h(5) record_fields c [symmetric]
      by (simp_all add: candidate_temporal_def candidate_bandwidth_def)
    have "candidate_node_fingerprint r = fingerprint node
          \<and> confidence_score r = float_round ?c 4 \<and> temporal_score r = float_round ?t 4
          \<and> bandwidth_score r = float_round ?b 4 \<and> pattern_score r = float_round ?p 4
          \<and> (\<exists>k::int. confidence_score r = double (of_int k / 10 ^ 4)
                                  \<and> \<bar>of_int k / 10 ^ 4 - ?c\<bar> \<le> 1 / 20000)
          \<and> (\<exists>k::int. temporal_score r = double (of_int k / 10 ^ 4)
                                  \<and> \<bar>of_int k / 10 ^ 4 - ?t\<bar> \<le> 1 / 20000)
          \<and> (\<exists>k::int. bandwidth_score r = double (of_int k / 10 ^ 4)
                                  \<and> \<bar>of_int k / 10 ^ 4 - ?b\<bar> \<le> 1 / 20000)
          \<and> (\<exists>k::int. pattern_score r = double (of_int k / 10 ^ 4)
                                  \<and> \<bar>of_int k / 10 ^ 4 - ?p\<bar> \<le> 1 / 20000)"
      unfolding f using spec4 by blast
    with h(1-4) show ?thesis unfolding Let_def by blast
  qed
  from correlate_outputs [of cfg fid db] obtain persisted where
    p: "correlation_results (snd (correlate_flow_to_guards cfg fid db))
          = correlation_results db @ persisted"
       "set persisted \<subseteq> set (flow_results cfg fid db)"
       "set (fst (correlate_flow_to_guards cfg fid db)) \<subseteq> set (flow_results cfg fid db)"
    by blast
  have ex: "float_round (double (double (double (1 * 0.5) + double (1 * double 0.3))
                           + double (0.5 * double 0.2))) 4 = double 0.9"
    using float_round_example by (simp add: weighted_confidence_double_def)
  from p(2,3) have "\<forall>r \<in> set (fst (correlate_flow_to_guards cfg fid db)) \<union> set persisted.
      r \<in> set (flow_results cfg fid db)" by blast
  with elem p(1) ex show ?thesis by blast
qed


section \<open>Concrete runs\<close>

lemma example_confidence:
  "candidate_confidence 1000 example_flow (example_guard i) = 8106479329266893 / 9007199254740992"
  by (simp add: candidate_confidence_def weighted_confidence_double_def candidate_temporal_def
      candidate_bandwidth_def example_flow_def example_guard_def column_timestamp_def
      temporal_double_dd calculate_bandwidth_score_def calculate_pattern_score_def Let_def
      double_values)

lemma example_candidates:
  "n \<le> 100 \<Longrightarrow> candidate_nodes (example_db n schedule) = map example_guard [0..<n]"
proof -
  assume n: "n \<le> 100"
  have "filter (\<lambda>n. is_guard n \<and> is_running n) (map example_guard [0..<n]) = map example_guard [0..<n]"
    by (simp add: filter_map o_def example_guard_def)
  with n show ?thesis
    by (simp add: candidate_nodes_def example_db_def example_exit_def)
qed

lemma example_results:
  assumes "n \<le> 100" and "MIN_CONFIDENCE_THRESHOLD cfg \<le> 8106479329266893 / 9007199254740992"
  shows "flow_results cfg 1 (example_db n schedule) =
           map (correlation_record cfg 1 1000 example_flow) (map example_guard [0..<n])"
proof -
  have f: "find (\<lambda>f. flow_id f = 1) (network_flows (example_db n schedule)) = Some example_flow"
    by (simp add: example_db_def example_flow_def)
  have e: "find (\<lambda>n. ip_address n = dst_ip example_flow \<and> is_exit n)
             (tor_nodes (example_db n schedule)) = Some example_exit"
    by (simp add: example_db_def example_flow_def example_exit_def)
  have t: "timestamp example_flow = Some 1000" by (simp add: example_flow_def)
  have s: "filter (\<lambda>n. MIN_CONFIDENCE_THRESHOLD cfg \<le> candidate_confidence 1000 example_flow n)
             (map example_guard [0..<n]) = map example_guard [0..<n]"
    using assms(2) by (simp add: filter_map o_def example_confidence)
  show ?thesis
    by (simp only: flow_results_def f e t example_candidates [OF assms(1)]
        surviving_results_def s option.case)
qed

lemma float_round_0_9: "float_round (8106479329266893 / 9007199254740992) 4 = 8106479329266893 / 9007199254740992"
  by (simp add: float_round_def py_round_def Let_def double_values)

lemma example_record_confidence:
  "confidence_score (correlation_record cfg fid 1000 example_flow (example_guard i)) = 8106479329266893 / 9007199254740992"
  by (simp add: correlation_record_def example_confidence float_round_0_9)

lemma Config_simps:
  "MIN_CONFIDENCE_THRESHOLD Config = 5404319552844595 / 18014398509481984"
  "MAX_CANDIDATE_NODES Config = 10"
  "TIME_WINDOW_SECONDS Config = 300"
  by (simp_all add: Config_def double_values)

lemma example_run:
  assumes "n \<le> 100"
  shows "correlate_flow_to_guards Config 1 (example_db n []) =
           (take 10 (sort_key (\<lambda>c. - confidence_score c)
                       (map (correlation_record Config 1 1000 example_flow) (map example_guard [0..<n]))),
            (example_db n [])\<lparr>correlation_results :=
               map (correlation_record Config 1 1000 example_flow) (map example_guard [0..<n])\<rparr>)"
proof -
  have nf: "faults (example_db n []) = []" by (simp add: example_db_def)
  have c0: "correlation_results (example_db n []) = []" by (simp add: example_db_def)
  have m: "MIN_CONFIDENCE_THRESHOLD Config \<le> 8106479329266893 / 9007199254740992"
    by (simp add: Config_simps)
  show ?thesis
    unfolding correlate_no_fault [OF nf] example_results [OF assms m] c0
    by (simp add: Config_simps)
qed

lemma single_guard_results:
  assumes "is_guard g" "is_running g"
    and "MIN_CONFIDENCE_THRESHOLD cfg \<le> candidate_confidence 1000 example_flow g"
  shows "flow_results cfg 1 ((example_db n schedule)\<lparr>tor_nodes := [example_exit, g]\<rparr>) =
           [correlation_record cfg 1 1000 example_flow g]"
proof -
  let ?D = "(example_db n schedule)\<lparr>tor_nodes := [example_exit, g]\<rparr>"
  have f: "find (\<lambda>f. flow_id f = 1) (network_flows ?D) = Some example_flow"
    by (simp add: example_db_def example_flow_def)
  have e: "find (\<lambda>n. ip_address n = dst_ip example_flow \<and> is_exit n) (tor_nodes ?D)
             = Some example_exit"
    by (simp add: example_flow_def example_exit_def)
  have t: "timestamp example_flow = Some 1000" by (simp add: example_flow_def)
  have c: "candidate_nodes ?D = [g]"
    using assms(1,2) by (simp add: candidate_nodes_def example_exit_def)
  show ?thesis
    using assms(3)
    by (simp only: flow_results_def f e t c option.case surviving_results_def) simp
qed

lemma single_guard_run:
  assumes "is_guard g" "is_running g"
    and "MIN_CONFIDENCE_THRESHOLD Config \<le> candidate_confidence 1000 example_flow g"
  shows "fst (correlate_flow_to_guards Config 1 ((example_db n [])\<lparr>tor_nodes := [example_exit, g]\<rparr>))
           = [correlation_record Config 1 1000 example_flow g]"
    and "correlation_results
           (snd (correlate_flow_to_guards Config 1 ((example_db n [])\<lparr>tor_nodes := [example_exit, g]\<rparr>)))
           = [correlation_record Config 1 1000 example_flow g]"
proof -
  let ?D = "(example_db n [])\<lparr>tor_nodes := [example_exit, g]\<rparr>"
  have nf: "faults ?D = []" by (simp add: example_db_def)
  have c0: "correlation_results ?D = []" by (simp add: example_db_def)
  show "fst (correlate_flow_to_guards Config 1 ?D) = [correlation_record Config 1 1000 example_flow g]"
    unfolding correlate_no_fault [OF nf] single_guard_results [OF assms]
    by (simp add: Config_simps)
  show "correlation_results (snd (correlate_flow_to_guards Config 1 ?D))
          = [correlation_record Config 1 1000 example_flow g]"
    unfolding correlate_no_fault [OF nf] single_guard_results [OF assms] c0
    by simp
qed

lemma guard_seen_temporal:
  "candidate_temporal 1000 ((example_guard i)\<lparr>last_seen := Some 5536\<rparr>) = 4267160646933545 / 4503599627370496"
  "candidate_temporal 1000 ((example_guard i)\<lparr>last_seen := Some 13312\<rparr>) = 7723673360940401 / 9007199254740992"
  by (simp_all add: candidate_temporal_def column_timestamp_def temporal_double_dd
      double_minus double_values)

lemma guard_seen_bandwidth:
  "candidate_bandwidth example_flow ((example_guard i)\<lparr>last_seen := t\<rparr>) = 1"
  by (simp add: candidate_bandwidth_def example_flow_def example_guard_def
      calculate_bandwidth_score_def Let_def double_values)

lemma guard_seen_confidence:
  "candidate_confidence 1000 example_flow ((example_guard i)\<lparr>last_seen := Some 5536\<rparr>) = 7870040348829941 / 9007199254740992"
  "candidate_confidence 1000 example_flow ((example_guard i)\<lparr>last_seen := Some 13312\<rparr>) = 7464716382366597 / 9007199254740992"
  by (simp_all add: candidate_confidence_def guard_seen_temporal guard_seen_bandwidth
      pattern_empty_history weighted_confidence_double_def double_values)

lemma guard_seen_rounded:
  "float_round (7870040348829941 / 9007199254740992) 4 = 7869589988867205 / 9007199254740992"
  "float_round (7464716382366597 / 9007199254740992) 4 = 1866066505600965 / 2251799813685248"
  by (simp_all add: float_round_def py_round_def Let_def double_values)

theorem confidence_is_weighted_sum_witness:
  "map confidence_score (fst (correlate_flow_to_guards Config 1 (example_db 1 []))) = [double 0.9]
   \<and> map temporal_score (fst (correlate_flow_to_guards Config 1 (example_db 1 []))) = [1]
   \<and> map bandwidth_score (fst (correlate_flow_to_guards Config 1 (example_db 1 []))) = [1]
   \<and> map pattern_score (fst (correlate_flow_to_guards Config 1 (example_db 1 []))) = [0.5]
   \<and> set (fst (correlate_flow_to_guards Config 1 (example_db 1 []))) \<noteq> {}"
proof -
  have run: "fst (correlate_flow_to_guards Config 1 (example_db 1 [])) =
               [correlation_record Config 1 1000 example_flow (example_guard 0)]"
    by (simp add: example_run)
  have t: "candidate_temporal 1000 (example_guard 0) = 1"
    by (simp add: candidate_temporal_def example_guard_def column_timestamp_def temporal_double_dd)
  have b: "candidate_bandwidth example_flow (example_guard 0) = 1"
    by (simp add: candidate_bandwidth_def example_guard_def example_flow_def
        calculate_bandwidth_score_def Let_def double_values)
  have r1: "float_round 1 4 = 1"
    by (simp add: float_round_def py_round_def Let_def)
  have d9: "double 0.9 = 8106479329266893 / 9007199254740992" by (simp add: double_values)
  have c: "confidence_score (correlation_record Config 1 1000 example_flow (example_guard 0))
             = double 0.9"
    unfolding d9 by (rule example_record_confidence)
  have fields:
    "temporal_score (correlation_record Config 1 1000 example_flow (example_guard 0)) = 1"
    "bandwidth_score (correlation_record Config 1 1000 example_flow (example_guard 0)) = 1"
    "pattern_score (correlation_record Config 1 1000 example_flow (example_guard 0)) = 0.5"
    using float_round_half
    by (simp_all add: record_fields t b r1 pattern_empty_history)
  have main: "map confidence_score (fst (correlate_flow_to_guards Config 1 (example_db 1 []))) = [double 0.9]
   \<and> map temporal_score (fst (correlate_flow_to_guards Config 1 (example_db 1 []))) = [1]
   \<and> map bandwidth_score (fst (correlate_flow_to_guards Config 1 (example_db 1 []))) = [1]
   \<and> map pattern_score (fst (correlate_flow_to_guards Config 1 (example_db 1 []))) = [0.5]
   \<and> set (fst (correlate_flow_to_guards Config 1 (example_db 1 []))) \<noteq> {}"
    unfolding run using c fields by simp
  from confidence_is_weighted_sum [of Config 1 "example_db 1 []"] main show ?thesis
    by blast
qed

text \<open>
  Claim C2 as stated fails. For a guard last seen 4536 seconds from the flow, with
  bandwidth score 1 and pattern score 0.5, the weighted sum of the component scores
  rounded to four places is 0.8738, whether the temporal score is the float the code
  computes or the exact quotient; the float sum lies below 0.87375 and the stored
  confidence is the float 0.8737.
\<close>

theorem confidence_is_weighted_sum_counterexample:
  "map confidence_score
     (fst (correlate_flow_to_guards Config 1
             ((example_db 1 [])\<lparr>tor_nodes :=
                [example_exit, (example_guard 0)\<lparr>last_seen := Some 5536\<rparr>]\<rparr>)))
     = [double 0.8737]
   \<and> py_round (0.5 * calculate_temporal_score_double (Datetime 1000) (Datetime 5536)
               + 0.3 * calculate_bandwidth_score (Some 512000) (Some 1000)
               + 0.2 * calculate_pattern_score (Some ''0f'') []) 4 = 0.8738
   \<and> py_round (0.5 * calculate_temporal_score (Datetime 1000) (Datetime 5536)
               + 0.3 * 1 + 0.2 * 0.5) 4 = 0.8738
   \<and> double 0.8737 \<noteq> double 0.8738
   \<and> double 0.8737 \<noteq> 0.8738"
proof -
  let ?g = "(example_guard 0)\<lparr>last_seen := Some 5536\<rparr>"
  have g: "is_guard ?g" "is_running ?g" by (simp_all add: example_guard_def)
  have q: "MIN_CONFIDENCE_THRESHOLD Config \<le> candidate_confidence 1000 example_flow ?g"
    by (simp add: guard_seen_confidence Config_simps)
  have d: "double 0.8737 = 7869589988867205 / 9007199254740992" "double 0.8738 = 7870490708792679 / 9007199254740992"
    by (simp_all add: double_values)
  have stored: "map confidence_score
     (fst (correlate_flow_to_guards Config 1
             ((example_db 1 [])\<lparr>tor_nodes := [example_exit, ?g]\<rparr>))) = [double 0.8737]"
    unfolding single_guard_run(1) [OF g q] d
    by (simp add: record_fields guard_seen_confidence guard_seen_rounded)
  have t: "calculate_temporal_score_double (Datetime 1000) (Datetime 5536) = 4267160646933545 / 4503599627370496"
    by (simp add: temporal_double_dd double_minus double_values)
  have e1: "py_round (0.5 * calculate_temporal_score_double (Datetime 1000) (Datetime 5536)
               + 0.3 * calculate_bandwidth_score (Some 512000) (Some 1000)
               + 0.2 * calculate_pattern_score (Some ''0f'') []) 4 = 0.8738"
    unfolding t bandwidth_mid pattern_empty_history by (simp add: py_round_def Let_def)
  have e2: "py_round (0.5 * calculate_temporal_score (Datetime 1000) (Datetime 5536)
               + 0.3 * 1 + 0.2 * 0.5) 4 = 0.8738"
    by (simp add: temporal_dd py_round_def Let_def)
  have ne: "double 0.8737 \<noteq> double 0.8738" "double 0.8737 \<noteq> 0.8738"
    unfolding d by simp_all
  from stored e1 e2 ne show ?thesis by blast
qed

text \<open>
  Claim C10, as the code has it. \<open>correlate_flow_to_guards\<close> passes the empty history
  to \<open>calculate_pattern_score\<close>, so the pattern score of every record it returns or writes
  is 0.5. The confidence of such a record is \<open>round(c, 4)\<close>, where \<open>c\<close> is
  \<open>temporal * 0.5 + bandwidth * 0.3 + 0.1\<close> evaluated in binary64 from left to right on
  the unrounded scores (\<open>0.5 * 0.2\<close> is the float 0.1); it is the float nearest to a
  multiple of \<open>10 ^ -4\<close> within \<open>10 ^ -4 / 2\<close> of \<open>c\<close>, and it never exceeds the float
  0.9.
\<close>

theorem production_pattern_is_neutral:
  "calculate_pattern_score fp [] = 0.5
   \<and> (\<exists>persisted.
        correlation_results (snd (correlate_flow_to_guards cfg fid db))
          = correlation_results db @ persisted
        \<and> (\<forall>r \<in> set (fst (correlate_flow_to_guards cfg fid db)) \<union> set persisted.
              pattern_score r = 0.5 \<and> confidence_score r \<le> double 0.9
              \<and> (\<exists>flow ts node.
                    flow \<in> set (network_flows db) \<and> flow_id flow = fid
                    \<and> timestamp flow = Some ts \<and> node \<in> set (tor_nodes db)
                    \<and> candidate_node_fingerprint r = fingerprint node
                    \<and> (let confidence =
                               double (double (double (calculate_temporal_score_double (Datetime ts)
                                                         (column_timestamp (last_seen node)) * 0.5)
                                               + double (calculate_bandwidth_score (byte_count flow)
                                                           (bandwidth_kb node) * double 0.3))
                                       + double 0.1)
                         in confidence_score r = float_round confidence 4
                            \<and> (\<exists>k::int. confidence_score r = double (of_int k / 10 ^ 4)
                                   \<and> \<bar>of_int k / 10 ^ 4 - confidence\<bar> \<le> 1 / 20000)))))"
proof -
  have tenth: "double (0.5 * double 0.2) = double 0.1" by (simp add: double_values)
  have elem: "pattern_score r = 0.5 \<and> confidence_score r \<le> double 0.9
              \<and> (\<exists>flow ts node.
                    flow \<in> set (network_flows db) \<and> flow_id flow = fid
                    \<and> timestamp flow = Some ts \<and> node \<in> set (tor_nodes db)
                    \<and> candidate_node_fingerprint r = fingerprint node
                    \<and> (let confidence =
                               double (double (double (calculate_temporal_score_double (Datetime ts)
                                                         (column_timestamp (last_seen node)) * 0.5)
                                               + double (calculate_bandwidth_score (byte_count flow)
                                                           (bandwidth_kb node) * double 0.3))
                                       + double 0.1)
                         in confidence_score r = float_round confidence 4
                            \<and> (\<exists>k::int. confidence_score r = double (of_int k / 10 ^ 4)
                                   \<and> \<bar>of_int k / 10 ^ 4 - confidence\<bar> \<le> 1 / 20000)))"
    if "r \<in> set (flow_results cfg fid db)" for r
  proof -
    from flow_results_elem [OF that] obtain flow ts node where
      h: "flow \<in> set (network_flows db)" "flow_id flow = fid" "timestamp flow = Some ts"
         "node \<in> set (tor_nodes db)" "r = correlation_record cfg fid ts flow node"
      by blast
    have p: "pattern_score r = 0.5"
      unfolding h(5) record_fields pattern_empty_history by (rule float_round_half)
    have c: "confidence_score r \<le> double 0.9"
      unfolding h(5) using record_confidence_le [of cfg fid ts flow node] by simp
    have cc: "candidate_confidence ts flow node =
                double (double (double (calculate_temporal_score_double (Datetime ts)
                                                     (column_timestamp (last_seen node)) * 0.5)
                                           + double (calculate_bandwidth_score (byte_count flow)
                                                       (bandwidth_kb node) * double 0.3))
                                   + double 0.1)"
      unfolding candidate_confidence_def weighted_confidence_double_def pattern_empty_history
        tenth candidate_temporal_def candidate_bandwidth_def ..
    have spec4: "\<exists>k::int. float_round x 4 = double (of_int k / 10 ^ 4)
                          \<and> \<bar>of_int k / 10 ^ 4 - x\<bar> \<le> 1 / 20000" for x
      using float_round_spec [of x 4] by simp
    have "candidate_node_fingerprint r = fingerprint node
          \<and> (let confidence =
                               double (double (double (calculate_temporal_score_double (Datetime ts)
                                                         (column_timestamp (last_seen node)) * 0.5)
                                               + double (calculate_bandwidth_score (byte_count flow)
                                                           (bandwidth_kb node) * double 0.3))
                                       + double 0.1)
                         in confidence_score r = float_round confidence 4
                            \<and> (\<exists>k::int. confidence_score r = double (of_int k / 10 ^ 4)
                                   \<and> \<bar>of_int k / 10 ^ 4 - confidence\<bar> \<le> 1 / 20000))"
      unfolding h(5) record_fields cc Let_def using spec4 by simp
    with h(1-4) p c show ?thesis by blast
  qed
  from correlate_outputs [of cfg fid db] obtain persisted where
    p: "correlation_results (snd (correlate_flow_to_guards cfg fid db))
          = correlation_results db @ persisted"
       "set persisted \<subseteq> set (flow_results cfg fid db)"
       "set (fst (correlate_flow_to_guards cfg fid db)) \<subseteq> set (flow_results cfg fid db)"
    by blast
  from p(2,3) have "\<forall>r \<in> set (fst (correlate_flow_to_guards cfg fid db)) \<union> set persisted.
      r \<in> set (flow_results cfg fid db)" by blast
  with elem p(1) pattern_empty_history [of fp] show ?thesis by blast
qed

theorem production_pattern_is_neutral_witness:
  "map pattern_score (correlation_results (snd (correlate_flow_to_guards Config 1 (example_db 2 []))))
     = [0.5, 0.5]
   \<and> map confidence_score (correlation_results (snd (correlate_flow_to_guards Config 1 (example_db 2 []))))
     = [double 0.9, double 0.9]
   \<and> set (fst (correlate_flow_to_guards Config 1 (example_db 2 []))) \<noteq> {}"
proof -
  have two: "[0..<2] = [0, Suc 0]" by (simp add: upt_rec)
  have p: "pattern_score (correlation_record Config 1 1000 example_flow (example_guard i)) = 0.5" for i
    unfolding record_fields pattern_empty_history by (rule float_round_half)
  have d9: "double 0.9 = 8106479329266893 / 9007199254740992" by (simp add: double_values)
  have main: "map pattern_score (correlation_results (snd (correlate_flow_to_guards Config 1 (example_db 2 []))))
     = [0.5, 0.5]
   \<and> map confidence_score (correlation_results (snd (correlate_flow_to_guards Config 1 (example_db 2 []))))
     = [double 0.9, double 0.9]
   \<and> set (fst (correlate_flow_to_guards Config 1 (example_db 2 []))) \<noteq> {}"
    unfolding d9 by (simp add: example_run two p example_record_confidence)
  from production_pattern_is_neutral [of None Config 1 "example_db 2 []"] main show ?thesis
    by blast
qed

text \<open>
  Claim C10 as stated fails in its equation. For a guard last seen 12312 seconds from the
  flow, with bandwidth score 1, \<open>0.5 * temporal + 0.3 * bandwidth + 0.1\<close> rounded to four
  places is 0.8288, for the float temporal score and for the exact one; the stored
  confidence is the float 0.8287.
\<close>

theorem production_pattern_is_neutral_counterexample:
  "map confidence_score
     (fst (correlate_flow_to_guards Config 1
             ((example_db 1 [])\<lparr>tor_nodes :=
                [example_exit, (example_guard 0)\<lparr>last_seen := Some 13312\<rparr>]\<rparr>)))
     = [double 0.8287]
   \<and> py_round (0.5 * calculate_temporal_score_double (Datetime 1000) (Datetime 13312)
               + 0.3 * calculate_bandwidth_score (Some 512000) (Some 1000) + 0.1) 4 = 0.8288
   \<and> py_round (0.5 * calculate_temporal_score (Datetime 1000) (Datetime 13312)
               + 0.3 * 1 + 0.1) 4 = 0.8288
   \<and> double 0.8287 \<noteq> double 0.8288
   \<and> double 0.8287 \<noteq> 0.8288"
proof -
  let ?g = "(example_guard 0)\<lparr>last_seen := Some 13312\<rparr>"
  have g: "is_guard ?g" "is_running ?g" by (simp_all add: example_guard_def)
  have q: "MIN_CONFIDENCE_THRESHOLD Config \<le> candidate_confidence 1000 example_flow ?g"
    by (simp add: guard_seen_confidence Config_simps)
  have d: "double 0.8287 = 1866066505600965 / 2251799813685248" "double 0.8288 = 3732583371164667 / 4503599627370496"
    by (simp_all add: double_values)
  have stored: "map confidence_score
     (fst (correlate_flow_to_guards Config 1
             ((example_db 1 [])\<lparr>tor_nodes := [example_exit, ?g]\<rparr>))) = [double 0.8287]"
    unfolding single_guard_run(1) [OF g q] d
    by (simp add: record_fields guard_seen_confidence guard_seen_rounded)
  have t: "calculate_temporal_score_double (Datetime 1000) (Datetime 13312) = 7723673360940401 / 9007199254740992"
    by (simp add: temporal_double_dd double_minus double_values)
  have e1: "py_round (0.5 * calculate_temporal_score_double (Datetime 1000) (Datetime 13312)
               + 0.3 * calculate_bandwidth_score (Some 512000) (Some 1000) + 0.1) 4 = 0.8288"
    unfolding t bandwidth_mid by (simp add: py_round_def Let_def)
  have e2: "py_round (0.5 * calculate_temporal_score (Datetime 1000) (Datetime 13312)
               + 0.3 * 1 + 0.1) 4 = 0.8288"
    by (simp add: temporal_dd py_round_def Let_def)
  have ne: "double 0.8287 \<noteq> double 0.8288" "double 0.8287 \<noteq> 0.8288"
    unfolding d by simp_all
  from stored e1 e2 ne show ?thesis by blast
qed


section \<open>Ranking and persistence\<close>

lemma sort_desc_sorted:
  "sorted_wrt (\<lambda>a b. confidence_score b \<le> confidence_score a)
     (sort_key (\<lambda>c. - confidence_score c) xs)"
proof -
  have "sorted (map (\<lambda>c. - confidence_score c) (sort_key (\<lambda>c. - confidence_score c) xs))"
    by (rule sorted_sort_key)
  then show ?thesis by (simp add: sorted_map)
qed

lemma take_desc_sorted:
  "sorted_wrt (\<lambda>a b. confidence_score b \<le> confidence_score a)
     (take n (sort_key (\<lambda>c. - confidence_score c) xs))"
  by (rule sorted_wrt_take [OF sort_desc_sorted])

lemma take_dominates_drop:
  assumes "r \<in> set (take n (sort_key (\<lambda>c. - confidence_score c) xs))"
    and "q \<in> set (drop n (sort_key (\<lambda>c. - confidence_score c) xs))"
  shows "confidence_score q \<le> confidence_score r"
proof -
  let ?s = "sort_key (\<lambda>c. - confidence_score c) xs"
  have "sorted_wrt (\<lambda>a b. confidence_score b \<le> confidence_score a) (take n ?s @ drop n ?s)"
    using sort_desc_sorted [of xs] by simp
  with assms show ?thesis
    unfolding sorted_wrt_append by blast
qed

text \<open>
  Claim C4, as the code has it. For a flow that passes the exit gate (with a timestamp, and
  no datastore failure), \<open>correlate_flow_to_guards\<close> writes exactly the records of the
  candidates whose confidence, the binary64 sum \<open>candidate_confidence\<close>, is at least the
  configured minimum, the float 0.3 (a candidate exactly at the minimum is kept), in
  candidate order; it returns these records sorted by descending confidence and cut to
  \<open>MAX_CANDIDATE_NODES\<close>. So every returned record has been written, and the returned
  ones are those of highest confidence; records beyond the cap are written but not
  returned.
\<close>

theorem filter_rank_persist:
  assumes "faults db = []"
    and "flow \<in> set (network_flows db)" and "flow_id flow = fid"
    and "distinct (map flow_id (network_flows db))"
    and "\<exists>n \<in> set (tor_nodes db). ip_address n = dst_ip flow \<and> is_exit n"
    and "timestamp flow = Some ts"
  shows "\<exists>persisted.
           persisted = map (correlation_record cfg fid ts flow)
                         (filter (\<lambda>n. MIN_CONFIDENCE_THRESHOLD cfg \<le> candidate_confidence ts flow n)
                            (candidate_nodes db))
           \<and> correlation_results (snd (correlate_flow_to_guards cfg fid db))
               = correlation_results db @ persisted
           \<and> fst (correlate_flow_to_guards cfg fid db)
               = take (MAX_CANDIDATE_NODES cfg) (sort_key (\<lambda>c. - confidence_score c) persisted)
           \<and> sorted_wrt (\<lambda>a b. confidence_score b \<le> confidence_score a)
                (fst (correlate_flow_to_guards cfg fid db))
           \<and> length (fst (correlate_flow_to_guards cfg fid db))
               = min (MAX_CANDIDATE_NODES cfg) (length persisted)
           \<and> set (fst (correlate_flow_to_guards cfg fid db)) \<subseteq> set persisted
           \<and> (\<forall>r \<in> set (fst (correlate_flow_to_guards cfg fid db)).
                \<forall>q \<in> set (drop (MAX_CANDIDATE_NODES cfg)
                              (sort_key (\<lambda>c. - confidence_score c) persisted)).
                  confidence_score q \<le> confidence_score r)"
proof -
  let ?P = "map (correlation_record cfg fid ts flow)
              (filter (\<lambda>n. MIN_CONFIDENCE_THRESHOLD cfg \<le> candidate_confidence ts flow n)
                 (candidate_nodes db))"
  from find_by_key [OF assms(4) assms(2)] assms(3)
  have f: "find (\<lambda>f. flow_id f = fid) (network_flows db) = Some flow" by simp
  from assms(5)
  obtain x where e: "find (\<lambda>n. ip_address n = dst_ip flow \<and> is_exit n) (tor_nodes db) = Some x"
    by (cases "find (\<lambda>n. ip_address n = dst_ip flow \<and> is_exit n) (tor_nodes db)")
      (auto simp: find_None_iff)
  have R: "flow_results cfg fid db = ?P"
    by (simp add: flow_results_def f e assms(6) surviving_results_def)
  have out: "fst (correlate_flow_to_guards cfg fid db)
               = take (MAX_CANDIDATE_NODES cfg) (sort_key (\<lambda>c. - confidence_score c) ?P)"
    "correlation_results (snd (correlate_flow_to_guards cfg fid db)) = correlation_results db @ ?P"
    unfolding correlate_no_fault [OF assms(1)] R by simp_all
  have s: "sorted_wrt (\<lambda>a b. confidence_score b \<le> confidence_score a)
             (fst (correlate_flow_to_guards cfg fid db))"
    unfolding out(1) by (rule take_desc_sorted)
  have l: "length (fst (correlate_flow_to_guards cfg fid db))
             = min (MAX_CANDIDATE_NODES cfg) (length ?P)"
    unfolding out(1) by (simp add: min.commute)
  have sub: "set (fst (correlate_flow_to_guards cfg fid db)) \<subseteq> set ?P"
    unfolding out(1) using set_take_subset [of "MAX_CANDIDATE_NODES cfg"
        "sort_key (\<lambda>c. - confidence_score c) ?P"] by simp
  have dom: "\<forall>r \<in> set (fst (correlate_flow_to_guards cfg fid db)).
                \<forall>q \<in> set (drop (MAX_CANDIDATE_NODES cfg)
                              (sort_key (\<lambda>c. - confidence_score c) ?P)).
                  confidence_score q \<le> confidence_score r"
    unfolding out(1) using take_dominates_drop by blast
  from out s l sub dom show ?thesis by blast
qed

lemma upt_11: "[0..<11] = [0, 1, 2, 3, 4, 5, 6, 7, 8, 9, 10 :: nat]"
  by (simp add: upt_rec)

lemma example_fingerprints_distinct:
  "distinct (map (\<lambda>i. fingerprint (example_guard i)) [0..<11])"
  unfolding upt_11 by (simp add: example_guard_def)

lemma example_records_distinct:
  "distinct (map (correlation_record Config 1 1000 example_flow) (map example_guard [0..<11]))"
proof -
  have "distinct (map candidate_node_fingerprint
          (map (correlation_record Config 1 1000 example_flow) (map example_guard [0..<11])))"
    using example_fingerprints_distinct by (simp add: o_def correlation_record_def)
  then show ?thesis by (simp only: distinct_map [of candidate_node_fingerprint])
qed

text \<open>
  Claim C4 as stated fails. With the default configuration and eleven qualifying guard
  nodes, eleven distinct records are written and ten returned: a record is written that is
  not returned.
\<close>

theorem persisted_exceeds_returned_counterexample:
  "length (fst (correlate_flow_to_guards Config 1 (example_db 11 []))) = 10
   \<and> length (correlation_results (snd (correlate_flow_to_guards Config 1 (example_db 11 [])))) = 11
   \<and> distinct (correlation_results (snd (correlate_flow_to_guards Config 1 (example_db 11 []))))
   \<and> \<not> set (correlation_results (snd (correlate_flow_to_guards Config 1 (example_db 11 []))))
         \<subseteq> set (fst (correlate_flow_to_guards Config 1 (example_db 11 [])))"
proof -
  let ?out = "correlate_flow_to_guards Config 1 (example_db 11 [])"
  have l1: "length (fst ?out) = 10" by (simp add: example_run)
  have l2: "length (correlation_results (snd ?out)) = 11" by (simp add: example_run)
  have d: "distinct (correlation_results (snd ?out))"
    using example_records_distinct by (simp add: example_run)
  have "\<not> set (correlation_results (snd ?out)) \<subseteq> set (fst ?out)"
  proof
    assume "set (correlation_results (snd ?out)) \<subseteq> set (fst ?out)"
    then have "card (set (correlation_results (snd ?out))) \<le> card (set (fst ?out))"
      by (intro card_mono) simp_all
    also have "\<dots> \<le> length (fst ?out)" by (rule card_length)
    finally show False using l1 l2 distinct_card [OF d] by simp
  qed
  with l1 l2 d show ?thesis by blast
qed

theorem filter_rank_persist_witness:
  "faults (example_db 3 []) = []
   \<and> example_flow \<in> set (network_flows (example_db 3 []))
   \<and> flow_id example_flow = 1
   \<and> distinct (map flow_id (network_flows (example_db 3 [])))
   \<and> find (\<lambda>n. ip_address n = dst_ip example_flow \<and> is_exit n) (tor_nodes (example_db 3 []))
       = Some example_exit
   \<and> timestamp example_flow = Some 1000
   \<and> length (fst (correlate_flow_to_guards Config 1 (example_db 3 []))) = 3
   \<and> length (correlation_results (snd (correlate_flow_to_guards Config 1 (example_db 3 [])))) = 3
   \<and> set (fst (correlate_flow_to_guards Config 1 (example_db 3 [])))
       \<subseteq> set (correlation_results (snd (correlate_flow_to_guards Config 1 (example_db 3 []))))"
proof -
  have h1: "faults (example_db 3 []) = []" by (simp add: example_db_def)
  have h2: "example_flow \<in> set (network_flows (example_db 3 []))" by (simp add: example_db_def)
  have h3: "flow_id example_flow = 1" by (simp add: example_flow_def)
  have h4: "distinct (map flow_id (network_flows (example_db 3 [])))" by (simp add: example_db_def)
  have h5: "\<exists>n \<in> set (tor_nodes (example_db 3 [])). ip_address n = dst_ip example_flow \<and> is_exit n"
    by (simp add: example_db_def example_exit_def example_flow_def)
  have h6: "timestamp example_flow = Some 1000" by (simp add: example_flow_def)
  have c0: "correlation_results (example_db 3 []) = []" by (simp add: example_db_def)
  have n: "length (filter (\<lambda>n. MIN_CONFIDENCE_THRESHOLD Config \<le> candidate_confidence 1000 example_flow n)
             (candidate_nodes (example_db 3 []))) = 3"
    by (simp add: example_candidates filter_map o_def example_confidence Config_simps)
  from filter_rank_persist [OF h1 h2 h3 h4 h5 h6, of Config]
  obtain persisted where p:
    "persisted = map (correlation_record Config 1 1000 example_flow)
                         (filter (\<lambda>n. MIN_CONFIDENCE_THRESHOLD Config \<le> candidate_confidence 1000 example_flow n)
                            (candidate_nodes (example_db 3 [])))"
    "correlation_results (snd (correlate_flow_to_guards Config 1 (example_db 3 [])))
               = correlation_results (example_db 3 []) @ persisted"
    "length (fst (correlate_flow_to_guards Config 1 (example_db 3 [])))
               = min (MAX_CANDIDATE_NODES Config) (length persisted)"
    "set (fst (correlate_flow_to_guards Config 1 (example_db 3 []))) \<subseteq> set persisted"
    by blast
  from p(1) n have l: "length persisted = 3" by simp
  from p(2) c0 have eq: "correlation_results (snd (correlate_flow_to_guards Config 1 (example_db 3 [])))
      = persisted" by simp
  have h7: "find (\<lambda>n. ip_address n = dst_ip example_flow \<and> is_exit n) (tor_nodes (example_db 3 []))
       = Some example_exit"
    by (simp add: example_db_def example_exit_def example_flow_def)
  from h1 h2 h3 h4 h6 h7 l p(3) p(4) show ?thesis
    unfolding eq by (simp add: Config_simps)
qed

lemma single_guard_dropped:
  assumes "\<not> MIN_CONFIDENCE_THRESHOLD Config \<le> candidate_confidence 1000 example_flow g"
  shows "correlate_flow_to_guards Config 1 ((example_db n [])\<lparr>tor_nodes := [example_exit, g]\<rparr>)
           = ([], (example_db n [])\<lparr>tor_nodes := [example_exit, g]\<rparr>)"
proof -
  let ?D = "(example_db n [])\<lparr>tor_nodes := [example_exit, g]\<rparr>"
  have nf: "faults ?D = []" by (simp add: example_db_def)
  have c0: "correlation_results ?D = []" by (simp add: example_db_def)
  have f: "find (\<lambda>f. flow_id f = 1) (network_flows ?D) = Some example_flow"
    by (simp add: example_db_def example_flow_def)
  have e: "find (\<lambda>n. ip_address n = dst_ip example_flow \<and> is_exit n) (tor_nodes ?D)
             = Some example_exit"
    by (simp add: example_flow_def example_exit_def)
  have t: "timestamp example_flow = Some 1000" by (simp add: example_flow_def)
  have c: "set (candidate_nodes ?D) \<subseteq> {g}"
    by (auto simp: candidate_nodes_def example_exit_def dest: in_set_takeD)
  have "filter (\<lambda>n. MIN_CONFIDENCE_THRESHOLD Config \<le> candidate_confidence 1000 example_flow n)
          (candidate_nodes ?D) = []"
    using c assms by (auto simp: filter_empty_conv)
  then have R: "flow_results Config 1 ?D = []"
    by (simp only: flow_results_def f e t option.case surviving_results_def list.map)
  show ?thesis
    unfolding correlate_no_fault [OF nf] R c0 by (simp add: example_db_def)
qed

text \<open>
  The threshold is compared with the binary64 confidence. For a guard last seen 2405
  seconds from the flow, with utilization \<open>5/792\<close>, the exact weighted sum is 0.3, the
  configured minimum; the float sum is one unit in the last place below the float 0.3,
  and the candidate is dropped.
\<close>

lemma threshold_in_binary64:
  "0.5 * calculate_temporal_score (Datetime 1000) (Datetime 3405)
     + 0.3 * (512000 / (79200 * 1024) / 0.1) + 0.2 * calculate_pattern_score (Some ''0f'') [] = 0.3"
  "candidate_confidence 1000 example_flow
     ((example_guard 0)\<lparr>last_seen := Some 3405, bandwidth_kb := Some 79200\<rparr>)
     = 2702159776422297 / 9007199254740992"
  "candidate_confidence 1000 example_flow
     ((example_guard 0)\<lparr>last_seen := Some 3405, bandwidth_kb := Some 79200\<rparr>)
     < MIN_CONFIDENCE_THRESHOLD Config"
  "correlate_flow_to_guards Config 1
     ((example_db 1 [])\<lparr>tor_nodes :=
        [example_exit, (example_guard 0)\<lparr>last_seen := Some 3405, bandwidth_kb := Some 79200\<rparr>]\<rparr>)
     = ([], (example_db 1 [])\<lparr>tor_nodes :=
        [example_exit, (example_guard 0)\<lparr>last_seen := Some 3405, bandwidth_kb := Some 79200\<rparr>]\<rparr>)"
proof -
  let ?g = "(example_guard 0)\<lparr>last_seen := Some 3405, bandwidth_kb := Some 79200\<rparr>"
  show "0.5 * calculate_temporal_score (Datetime 1000) (Datetime 3405)
     + 0.3 * (512000 / (79200 * 1024) / 0.1) + 0.2 * calculate_pattern_score (Some ''0f'') [] = 0.3"
    by (simp add: temporal_dd pattern_empty_history)
  have t: "candidate_temporal 1000 ?g = 1630848955972043 / 4503599627370496"
    by (simp add: candidate_temporal_def column_timestamp_def temporal_double_dd
        double_minus double_values)
  have b: "candidate_bandwidth example_flow ?g = 2274545266348735 / 36028797018963968"
    by (simp add: candidate_bandwidth_def example_flow_def example_guard_def
        calculate_bandwidth_score_def Let_def double_values)
  show c: "candidate_confidence 1000 example_flow ?g = 2702159776422297 / 9007199254740992"
    by (simp add: candidate_confidence_def t b pattern_empty_history
        weighted_confidence_double_def double_values)
  show lt: "candidate_confidence 1000 example_flow ?g < MIN_CONFIDENCE_THRESHOLD Config"
    unfolding c by (simp add: Config_simps)
  from lt have "\<not> MIN_CONFIDENCE_THRESHOLD Config \<le> candidate_confidence 1000 example_flow ?g"
    by simp
  from single_guard_dropped [OF this]
  show "correlate_flow_to_guards Config 1 ((example_db 1 [])\<lparr>tor_nodes := [example_exit, ?g]\<rparr>)
     = ([], (example_db 1 [])\<lparr>tor_nodes := [example_exit, ?g]\<rparr>)" .
qed


section \<open>Datastore failures\<close>

lemma get_connection_ok:
  "faults db = False # rest \<Longrightarrow>
     get_connection stmt db = (Inr (fst (stmt (db\<lparr>faults := rest\<rparr>))), snd (stmt (db\<lparr>faults := rest\<rparr>)))"
  by (simp add: get_connection_def split: prod.splits)

lemma get_connection_fail:
  "faults db = True # rest \<Longrightarrow> get_connection stmt db = (Inl DatabaseError, db\<lparr>faults := rest\<rparr>)"
  by (simp add: get_connection_def)

lemma batch_error_iff:
  "(fst (correlate_all_flows cfg db) = BatchError) = (\<exists>rest. faults db = True # rest)"
proof (cases "faults db")
  case Nil
  then show ?thesis
    by (simp add: correlate_all_flows_def get_connection_no_fault split: prod.splits)
next
  case (Cons b rest)
  then show ?thesis
    by (cases b)
      (simp_all add: correlate_all_flows_def get_connection_ok get_connection_fail split: prod.splits)
qed

lemma score_candidates_fault:
  assumes "faults db = replicate j False @ True # rest"
    and "j < length (surviving_results cfg fid ts flow nodes)"
  shows "score_candidates cfg fid ts flow nodes acc db =
           (Inl DatabaseError,
            db\<lparr>correlation_results :=
                 correlation_results db @ take j (surviving_results cfg fid ts flow nodes),
               faults := rest\<rparr>)"
  using assms
proof (induction nodes arbitrary: acc db j)
  case Nil
  then show ?case by (simp add: surviving_Nil)
next
  case (Cons node nodes)
  let ?c = "correlation_record cfg fid ts flow node"
  show ?case
  proof (cases "MIN_CONFIDENCE_THRESHOLD cfg \<le> candidate_confidence ts flow node")
    case False
    with Cons.prems(2) have "j < length (surviving_results cfg fid ts flow nodes)"
      by (simp add: surviving_Cons)
    from Cons.IH [OF Cons.prems(1) this] False show ?thesis
      by (simp add: score_candidates_step surviving_Cons)
  next
    case True
    show ?thesis
    proof (cases j)
      case 0
      with Cons.prems(1) have f: "faults db = True # rest" by simp
      have "insert_correlation ?c db = (Inl DatabaseError, db\<lparr>faults := rest\<rparr>)"
        by (simp add: insert_correlation_def get_connection_fail [OF f])
      with True 0 show ?thesis
        by (simp add: score_candidates_step)
    next
      case (Suc j')
      with Cons.prems(1) have f: "faults db = False # replicate j' False @ True # rest" by simp
      let ?db1 = "db\<lparr>faults := replicate j' False @ True # rest,
                     correlation_results := correlation_results db @ [?c]\<rparr>"
      have ins: "insert_correlation ?c db = (Inr (), ?db1)"
        by (simp add: insert_correlation_def get_connection_ok [OF f])
      have f1: "faults ?db1 = replicate j' False @ True # rest" by simp
      from Cons.prems(2) True Suc have l: "j' < length (surviving_results cfg fid ts flow nodes)"
        by (simp add: surviving_Cons)
      from Cons.IH [OF f1 l] True Suc ins show ?thesis
        by (simp add: score_candidates_step surviving_Cons)
    qed
  qed
qed

lemma correlate_try_fault:
  assumes "faults db = replicate (3 + j) False @ True # rest"
    and "j < length (flow_results cfg fid db)"
  shows "correlate_flow_to_guards_try cfg fid db =
           (Inl DatabaseError,
            db\<lparr>correlation_results := correlation_results db @ take j (flow_results cfg fid db),
               faults := rest\<rparr>)"
proof -
  from assms(2) have ne: "flow_results cfg fid db \<noteq> []" by auto
  then obtain flow where f: "find (\<lambda>f. flow_id f = fid) (network_flows db) = Some flow"
    by (cases "find (\<lambda>f. flow_id f = fid) (network_flows db)") (auto simp: flow_results_def)
  from ne f obtain x where
    e: "find (\<lambda>n. ip_address n = dst_ip flow \<and> is_exit n) (tor_nodes db) = Some x"
    by (cases "find (\<lambda>n. ip_address n = dst_ip flow \<and> is_exit n) (tor_nodes db)")
      (auto simp: flow_results_def)
  from ne f e obtain ts where t: "timestamp flow = Some ts"
    by (cases "timestamp flow") (auto simp: flow_results_def)
  have R: "flow_results cfg fid db = surviving_results cfg fid ts flow (candidate_nodes db)"
    by (simp add: flow_results_def f e t)
  have three: "replicate (3 + j) False = False # False # False # replicate j False"
    by (simp add: numeral_3_eq_3)
  let ?db3 = "db\<lparr>faults := replicate j False @ True # rest\<rparr>"
  have f3: "faults ?db3 = replicate j False @ True # rest" by simp
  have l3: "j < length (surviving_results cfg fid ts flow (candidate_nodes db))"
    using assms(2) unfolding R .
  have sc: "score_candidates cfg fid ts flow (candidate_nodes db) [] ?db3 =
           (Inl DatabaseError,
            ?db3\<lparr>correlation_results :=
                 correlation_results ?db3 @ take j (surviving_results cfg fid ts flow (candidate_nodes db)),
               faults := rest\<rparr>)"
    by (rule score_candidates_fault [OF f3 l3])
  have g: "get_guard_nodes (Some 100) (db\<lparr>faults := False # replicate j False @ True # rest\<rparr>)
             = (Inr (candidate_nodes db), ?db3)"
    by (simp add: get_guard_nodes_def get_connection_ok candidate_nodes_def)
  have c1: "get_connection (\<lambda>d. (find (\<lambda>f. flow_id f = fid) (network_flows d), d)) db
              = (Inr (Some flow), db\<lparr>faults := False # False # replicate j False @ True # rest\<rparr>)"
    using assms(1) f by (simp add: three get_connection_ok)
  have c2: "get_connection
              (\<lambda>d. (find (\<lambda>n. ip_address n = dst_ip flow \<and> is_exit n) (tor_nodes d), d))
              (db\<lparr>faults := False # False # replicate j False @ True # rest\<rparr>)
              = (Inr (Some x), db\<lparr>faults := False # replicate j False @ True # rest\<rparr>)"
    using e by (simp add: get_connection_ok)
  show ?thesis
    by (simp add: correlate_flow_to_guards_try_def c1 c2 t g sc R)
qed

lemma flow_results_tables:
  "tor_nodes db' = tor_nodes db \<Longrightarrow> network_flows db' = network_flows db \<Longrightarrow>
     flow_results cfg fid db' = flow_results cfg fid db"
  by (simp add: flow_results_def candidate_nodes_def cong: option.case_cong)

lemma flow_results_flow_id: "r \<in> set (flow_results cfg fid db) \<Longrightarrow> cr_flow_id r = fid"
  using flow_results_elem [of r cfg fid db] by (auto simp: correlation_record_def)

lemma correlate_each_no_fault:
  assumes "faults db = []"
  shows "correlate_each cfg ids total_found db =
           (total_found + sum_list (map (\<lambda>i. length (take (MAX_CANDIDATE_NODES cfg)
                               (sort_key (\<lambda>c. - confidence_score c) (flow_results cfg i db)))) ids),
            db\<lparr>correlation_results :=
                 correlation_results db @ concat (map (\<lambda>i. flow_results cfg i db) ids)\<rparr>)"
  using assms
proof (induction ids arbitrary: total_found db)
  case Nil
  then show ?case by simp
next
  case (Cons i ids)
  let ?db1 = "db\<lparr>correlation_results := correlation_results db @ flow_results cfg i db\<rparr>"
  have nf: "faults ?db1 = []" using Cons.prems by simp
  have fr: "flow_results cfg j ?db1 = flow_results cfg j db" for j
    by (rule flow_results_tables) simp_all
  show ?case
    by (simp add: correlate_no_fault [OF Cons.prems] Cons.IH [OF nf] fr)
qed

lemma batch_after_fault:
  assumes "faults db = False # replicate (3 + j) False @ [True]"
    and "uncorrelated_flow_ids db = fid # ids"
    and "j < length (flow_results cfg fid db)"
  shows "correlate_all_flows cfg db =
           (Batch (Suc (length ids))
              (sum_list (map (\<lambda>i. length (take (MAX_CANDIDATE_NODES cfg)
                                 (sort_key (\<lambda>c. - confidence_score c) (flow_results cfg i db)))) ids)),
            db\<lparr>correlation_results :=
                 correlation_results db @ take j (flow_results cfg fid db)
                 @ concat (map (\<lambda>i. flow_results cfg i db) ids),
               faults := []\<rparr>)"
proof -
  let ?db1 = "db\<lparr>faults := replicate (3 + j) False @ [True]\<rparr>"
  let ?db2 = "db\<lparr>correlation_results := correlation_results db @ take j (flow_results cfg fid db),
               faults := []\<rparr>"
  have sel: "get_connection (\<lambda>d. (uncorrelated_flow_ids d, d)) db = (Inr (fid # ids), ?db1)"
    using assms(2) by (simp add: get_connection_ok [OF assms(1)] uncorrelated_flow_ids_def)
  have fr1: "flow_results cfg i ?db1 = flow_results cfg i db" for i
    by (rule flow_results_tables) simp_all
  have f1: "faults ?db1 = replicate (3 + j) False @ True # []" by simp
  have l1: "j < length (flow_results cfg fid ?db1)" using assms(3) unfolding fr1 .
  have one: "correlate_flow_to_guards cfg fid ?db1 = ([], ?db2)"
    unfolding correlate_flow_to_guards_def correlate_try_fault [OF f1 l1] by (simp add: fr1)
  have nf2: "faults ?db2 = []" by simp
  have fr2: "flow_results cfg i ?db2 = flow_results cfg i db" for i
    by (rule flow_results_tables) simp_all
  have each: "correlate_each cfg (fid # ids) 0 ?db1 = correlate_each cfg ids 0 ?db2"
    by (simp add: one)
  have "correlate_all_flows cfg db =
          (case correlate_each cfg (fid # ids) 0 ?db1 of
             (total_found, db2) \<Rightarrow> (Batch (length (fid # ids)) total_found, db2))"
    unfolding correlate_all_flows_def sel by simp
  then show ?thesis
    unfolding each correlate_each_no_fault [OF nf2] fr2
    by simp
qed

text \<open>
  Claim C9, as the code has it. When the \<open>try\<close> block of
  \<open>correlate_flow_to_guards\<close> raises, the function returns the empty list and the
  datastore is left as the block left it; every insert is committed on its own
  connection, so the correlation table is the table before followed by a prefix of the
  flow's records. When the first failing connection is the insert of record number
  \<open>j + 1\<close>, exactly the first \<open>j\<close> records of the flow stay in the table. The batch
  does not stop at such a flow: it counts the flow as processed with no correlation,
  goes on with the remaining flows, whose records are written in full, and reports
  success. The batch reports an error exactly when its own selection query fails.
\<close>

theorem failure_is_swallowed:
  "(fst (correlate_flow_to_guards_try cfg fid db) = Inl e \<longrightarrow>
      fst (correlate_flow_to_guards cfg fid db) = []
      \<and> snd (correlate_flow_to_guards cfg fid db) = snd (correlate_flow_to_guards_try cfg fid db)
      \<and> (\<exists>k \<le> length (flow_results cfg fid db).
            correlation_results (snd (correlate_flow_to_guards cfg fid db))
              = correlation_results db @ take k (flow_results cfg fid db)))
   \<and> (faults db = replicate (3 + j) False @ True # rest \<and> j < length (flow_results cfg fid db) \<longrightarrow>
        correlate_flow_to_guards_try cfg fid db =
          (Inl DatabaseError,
           db\<lparr>correlation_results := correlation_results db @ take j (flow_results cfg fid db),
              faults := rest\<rparr>)
        \<and> correlate_flow_to_guards cfg fid db =
          ([], db\<lparr>correlation_results := correlation_results db @ take j (flow_results cfg fid db),
                  faults := rest\<rparr>))
   \<and> (faults db = False # replicate (3 + j) False @ [True]
        \<and> uncorrelated_flow_ids db = fid # ids \<and> j < length (flow_results cfg fid db) \<longrightarrow>
        correlate_all_flows cfg db =
          (Batch (Suc (length ids))
             (sum_list (map (\<lambda>i. length (take (MAX_CANDIDATE_NODES cfg)
                                (sort_key (\<lambda>c. - confidence_score c) (flow_results cfg i db)))) ids)),
           db\<lparr>correlation_results :=
                correlation_results db @ take j (flow_results cfg fid db)
                @ concat (map (\<lambda>i. flow_results cfg i db) ids),
              faults := []\<rparr>))
   \<and> ((fst (correlate_all_flows cfg db) = BatchError) = (\<exists>rest. faults db = True # rest))"
proof -
  have p1: "fst (correlate_flow_to_guards cfg fid db) = []
      \<and> snd (correlate_flow_to_guards cfg fid db) = snd (correlate_flow_to_guards_try cfg fid db)
      \<and> (\<exists>k \<le> length (flow_results cfg fid db).
            correlation_results (snd (correlate_flow_to_guards cfg fid db))
              = correlation_results db @ take k (flow_results cfg fid db))"
    if a: "fst (correlate_flow_to_guards_try cfg fid db) = Inl e"
  proof -
    obtain db' where t: "correlate_flow_to_guards_try cfg fid db = (Inl e, db')"
      using a by (cases "correlate_flow_to_guards_try cfg fid db") simp
    then have c: "correlate_flow_to_guards cfg fid db = ([], db')"
      by (simp add: correlate_flow_to_guards_def)
    from correlate_try_char [OF t] obtain k where
      "k \<le> length (flow_results cfg fid db)"
      "correlation_results db' = correlation_results db @ take k (flow_results cfg fid db)"
      by blast
    with t c show ?thesis by auto
  qed
  have p2: "correlate_flow_to_guards_try cfg fid db =
          (Inl DatabaseError,
           db\<lparr>correlation_results := correlation_results db @ take j (flow_results cfg fid db),
              faults := rest\<rparr>)
        \<and> correlate_flow_to_guards cfg fid db =
          ([], db\<lparr>correlation_results := correlation_results db @ take j (flow_results cfg fid db),
                  faults := rest\<rparr>)"
    if "faults db = replicate (3 + j) False @ True # rest \<and> j < length (flow_results cfg fid db)"
  proof -
    from that have h: "faults db = replicate (3 + j) False @ True # rest"
      "j < length (flow_results cfg fid db)" by simp_all
    show ?thesis
      unfolding correlate_flow_to_guards_def correlate_try_fault [OF h] by simp
  qed
  have p3: "correlate_all_flows cfg db =
          (Batch (Suc (length ids))
             (sum_list (map (\<lambda>i. length (take (MAX_CANDIDATE_NODES cfg)
                                (sort_key (\<lambda>c. - confidence_score c) (flow_results cfg i db)))) ids)),
           db\<lparr>correlation_results :=
                correlation_results db @ take j (flow_results cfg fid db)
                @ concat (map (\<lambda>i. flow_results cfg i db) ids),
              faults := []\<rparr>)"
    if "faults db = False # replicate (3 + j) False @ [True]
        \<and> uncorrelated_flow_ids db = fid # ids \<and> j < length (flow_results cfg fid db)"
    using that batch_after_fault [of db j fid ids cfg] by blast
  from p1 p2 p3 batch_error_iff [of cfg db] show ?thesis by blast
qed

lemma example_failing_run:
  "correlate_flow_to_guards_try Config 1 (example_db 2 [False, False, False, False, True]) =
     (Inl DatabaseError,
      (example_db 2 [])\<lparr>correlation_results :=
         [correlation_record Config 1 1000 example_flow (example_guard 0)]\<rparr>)"
proof -
  have two: "[0..<2] = [0, Suc 0]" by (simp add: upt_rec)
  have m: "MIN_CONFIDENCE_THRESHOLD Config \<le> 8106479329266893 / 9007199254740992"
    by (simp add: Config_simps)
  have le: "(2::nat) \<le> 100" by simp
  have R: "flow_results Config 1 (example_db 2 [False, False, False, False, True])
             = map (correlation_record Config 1 1000 example_flow) (map example_guard [0..<2])"
    by (rule example_results [OF le m])
  have f: "faults (example_db 2 [False, False, False, False, True])
             = replicate (3 + 1) False @ True # []"
    by (simp add: example_db_def numeral_3_eq_3)
  have l: "1 < length (flow_results Config 1 (example_db 2 [False, False, False, False, True]))"
    unfolding R by simp
  show ?thesis
    unfolding correlate_try_fault [OF f l] R
    by (simp add: example_db_def two)
qed

lemma two_flow_results:
  assumes "n \<le> 100" and "MIN_CONFIDENCE_THRESHOLD cfg \<le> 8106479329266893 / 9007199254740992"
  shows "flow_results cfg 1
           ((example_db n schedule)\<lparr>network_flows := [example_flow, example_flow\<lparr>flow_id := 2\<rparr>]\<rparr>)
         = map (correlation_record cfg 1 1000 example_flow) (map example_guard [0..<n])"
    and "flow_results cfg 2
           ((example_db n schedule)\<lparr>network_flows := [example_flow, example_flow\<lparr>flow_id := 2\<rparr>]\<rparr>)
         = map (correlation_record cfg 2 1000 (example_flow\<lparr>flow_id := 2\<rparr>)) (map example_guard [0..<n])"
proof -
  let ?D = "(example_db n schedule)\<lparr>network_flows := [example_flow, example_flow\<lparr>flow_id := 2\<rparr>]\<rparr>"
  have f1: "find (\<lambda>f. flow_id f = 1) (network_flows ?D) = Some example_flow"
    by (simp add: example_flow_def)
  have f2: "find (\<lambda>f. flow_id f = 2) (network_flows ?D) = Some (example_flow\<lparr>flow_id := 2\<rparr>)"
    by (simp add: example_flow_def)
  have e: "find (\<lambda>n. ip_address n = dst_ip example_flow \<and> is_exit n) (tor_nodes ?D)
             = Some example_exit"
    by (simp add: example_db_def example_flow_def example_exit_def)
  have e2: "find (\<lambda>n. ip_address n = dst_ip (example_flow\<lparr>flow_id := 2\<rparr>) \<and> is_exit n) (tor_nodes ?D)
             = Some example_exit"
    by (simp add: example_db_def example_flow_def example_exit_def)
  have t: "timestamp example_flow = Some 1000" "timestamp (example_flow\<lparr>flow_id := 2\<rparr>) = Some 1000"
    by (simp_all add: example_flow_def)
  have c: "candidate_nodes ?D = map example_guard [0..<n]"
    using example_candidates [OF assms(1), of schedule] by (simp add: candidate_nodes_def)
  have cc: "candidate_confidence 1000 (example_flow\<lparr>flow_id := 2\<rparr>) g
              = candidate_confidence 1000 example_flow g" for g
    by (simp add: candidate_confidence_def candidate_bandwidth_def)
  have s: "filter (\<lambda>n. MIN_CONFIDENCE_THRESHOLD cfg \<le> candidate_confidence 1000 example_flow n)
             (map example_guard [0..<n]) = map example_guard [0..<n]"
    using assms(2) by (simp add: filter_map o_def example_confidence)
  show "flow_results cfg 1 ?D
         = map (correlation_record cfg 1 1000 example_flow) (map example_guard [0..<n])"
    by (simp only: flow_results_def f1 e t c surviving_results_def s option.case)
  show "flow_results cfg 2 ?D
         = map (correlation_record cfg 2 1000 (example_flow\<lparr>flow_id := 2\<rparr>)) (map example_guard [0..<n])"
    by (simp only: flow_results_def f2 e2 t c surviving_results_def cc s option.case)
qed

text \<open>
  Claim C9 as stated fails. With two qualifying guard nodes and a failure of the second
  insert, the call returns the empty list like a flow without candidates, and the first
  record stays in the table; the batch over the same flow reports success with no
  correlation found, and the record is still there afterwards.
\<close>

theorem partial_results_stay_counterexample:
  "fst (correlate_flow_to_guards_try Config 1 (example_db 2 [False, False, False, False, True]))
     = Inl DatabaseError
   \<and> fst (correlate_flow_to_guards Config 1 (example_db 2 [False, False, False, False, True])) = []
   \<and> correlation_results (example_db 2 [False, False, False, False, True]) = []
   \<and> correlation_results
       (snd (correlate_flow_to_guards Config 1 (example_db 2 [False, False, False, False, True])))
     = [correlation_record Config 1 1000 example_flow (example_guard 0)]
   \<and> length (flow_results Config 1 (example_db 2 [False, False, False, False, True])) = 2
   \<and> fst (correlate_all_flows Config (example_db 2 [False, False, False, False, False, True]))
     = Batch 1 0
   \<and> correlation_results
       (snd (correlate_all_flows Config (example_db 2 [False, False, False, False, False, True])))
     = [correlation_record Config 1 1000 example_flow (example_guard 0)]"
proof -
  have b: "correlate_flow_to_guards_try Config 1 (example_db 2 [False, False, False, False, True] \<lparr>faults := [False, False, False, False, True]\<rparr>) =
     (Inl DatabaseError,
      (example_db 2 [])\<lparr>correlation_results :=
         [correlation_record Config 1 1000 example_flow (example_guard 0)]\<rparr>)"
    using example_failing_run by (simp add: example_db_def)
  have "correlate_all_flows Config (example_db 2 [False, False, False, False, False, True])
     = (Batch 1 0, (example_db 2 [])\<lparr>correlation_results :=
         [correlation_record Config 1 1000 example_flow (example_guard 0)]\<rparr>)"
    using b
    by (simp add: correlate_all_flows_def get_connection_ok example_db_def
        uncorrelated_flow_ids_def example_flow_def correlate_flow_to_guards_def
        split: prod.splits)
  then show ?thesis
    by (simp add: example_failing_run correlate_flow_to_guards_def example_results Config_simps)
      (simp add: example_db_def)
qed

theorem failure_is_swallowed_witness:
  "fst (correlate_flow_to_guards_try Config 1 (example_db 2 [False, False, False, False, True]))
     = Inl DatabaseError
   \<and> faults (example_db 2 [False, False, False, False, True]) = replicate (3 + 1) False @ True # []
   \<and> 1 < length (flow_results Config 1 (example_db 2 [False, False, False, False, True]))
   \<and> correlate_flow_to_guards Config 1 (example_db 2 [False, False, False, False, True])
       = ([], (example_db 2 [False, False, False, False, True])
                \<lparr>correlation_results := [correlation_record Config 1 1000 example_flow (example_guard 0)],
                 faults := []\<rparr>)
   \<and> faults ((example_db 2 [False, False, False, False, False, True])
               \<lparr>network_flows := [example_flow, example_flow\<lparr>flow_id := 2\<rparr>]\<rparr>)
       = False # replicate (3 + 1) False @ [True]
   \<and> uncorrelated_flow_ids ((example_db 2 [False, False, False, False, False, True])
               \<lparr>network_flows := [example_flow, example_flow\<lparr>flow_id := 2\<rparr>]\<rparr>) = [1, 2]
   \<and> 1 < length (flow_results Config 1 ((example_db 2 [False, False, False, False, False, True])
               \<lparr>network_flows := [example_flow, example_flow\<lparr>flow_id := 2\<rparr>]\<rparr>))
   \<and> correlate_all_flows Config ((example_db 2 [False, False, False, False, False, True])
               \<lparr>network_flows := [example_flow, example_flow\<lparr>flow_id := 2\<rparr>]\<rparr>)
       = (Batch 2 2,
          (example_db 2 [False, False, False, False, False, True])
             \<lparr>network_flows := [example_flow, example_flow\<lparr>flow_id := 2\<rparr>],
              correlation_results :=
                [correlation_record Config 1 1000 example_flow (example_guard 0),
                 correlation_record Config 2 1000 (example_flow\<lparr>flow_id := 2\<rparr>) (example_guard 0),
                 correlation_record Config 2 1000 (example_flow\<lparr>flow_id := 2\<rparr>) (example_guard 1)],
              faults := []\<rparr>)
   \<and> faults (example_db 2 [True]) = [True]
   \<and> fst (correlate_all_flows Config (example_db 2 [True])) = BatchError"
proof -
  let ?A = "example_db 2 [False, False, False, False, True]"
  let ?B = "(example_db 2 [False, False, False, False, False, True])
               \<lparr>network_flows := [example_flow, example_flow\<lparr>flow_id := 2\<rparr>]\<rparr>"
  have two: "[0..<2] = [0, Suc 0]" by (simp add: upt_rec)
  have m: "MIN_CONFIDENCE_THRESHOLD Config \<le> 8106479329266893 / 9007199254740992"
    by (simp add: Config_simps)
  have le: "(2::nat) \<le> 100" by simp
  have RA: "flow_results Config 1 ?A
             = [correlation_record Config 1 1000 example_flow (example_guard 0),
                correlation_record Config 1 1000 example_flow (example_guard 1)]"
    unfolding example_results [OF le m] by (simp add: two)
  have RB: "flow_results Config 1 ?B
             = [correlation_record Config 1 1000 example_flow (example_guard 0),
                correlation_record Config 1 1000 example_flow (example_guard 1)]"
    "flow_results Config 2 ?B
             = [correlation_record Config 2 1000 (example_flow\<lparr>flow_id := 2\<rparr>) (example_guard 0),
                correlation_record Config 2 1000 (example_flow\<lparr>flow_id := 2\<rparr>) (example_guard 1)]"
    unfolding two_flow_results [OF le m] by (simp_all add: two)
  have a1: "fst (correlate_flow_to_guards_try Config 1 ?A) = Inl DatabaseError"
    by (simp add: example_failing_run)
  have a2: "faults ?A = replicate (3 + 1) False @ True # []"
    by (simp add: example_db_def numeral_3_eq_3)
  have a3: "1 < length (flow_results Config 1 ?A)" unfolding RA by simp
  have b1: "faults ?B = False # replicate (3 + 1) False @ [True]"
    by (simp add: example_db_def numeral_3_eq_3)
  have b2: "uncorrelated_flow_ids ?B = [1, 2]"
    by (simp add: uncorrelated_flow_ids_def example_db_def example_flow_def)
  have b3: "1 < length (flow_results Config 1 ?B)" unfolding RB by simp
  have c1: "faults (example_db 2 [True]) = [True]" by (simp add: example_db_def)
  have c0: "correlation_results ?A = []" "correlation_results ?B = []"
    by (simp_all add: example_db_def)
  note thA = failure_is_swallowed [of Config 1 ?A DatabaseError 1 "[]" "[]"]
  note thB = failure_is_swallowed [of Config 1 ?B DatabaseError 1 "[]" "[2]"]
  note thC = failure_is_swallowed [of Config 1 "example_db 2 [True]" DatabaseError 0 "[]" "[]"]
  from thA a2 a3 have rA: "correlate_flow_to_guards Config 1 ?A
       = ([], ?A\<lparr>correlation_results := correlation_results ?A @ take 1 (flow_results Config 1 ?A),
                 faults := []\<rparr>)"
    by blast
  from thB b1 b2 b3 have rB: "correlate_all_flows Config ?B =
          (Batch (Suc (length [2::int]))
             (sum_list (map (\<lambda>i. length (take (MAX_CANDIDATE_NODES Config)
                                (sort_key (\<lambda>c. - confidence_score c) (flow_results Config i ?B)))) [2])),
           ?B\<lparr>correlation_results :=
                correlation_results ?B @ take 1 (flow_results Config 1 ?B)
                @ concat (map (\<lambda>i. flow_results Config i ?B) [2]),
              faults := []\<rparr>)"
    by blast
  from thC c1 have rC: "fst (correlate_all_flows Config (example_db 2 [True])) = BatchError"
    by blast
  have eA: "correlate_flow_to_guards Config 1 ?A
       = ([], ?A\<lparr>correlation_results := [correlation_record Config 1 1000 example_flow (example_guard 0)],
                 faults := []\<rparr>)"
    unfolding rA RA c0 by simp
  have eB: "correlate_all_flows Config ?B
       = (Batch 2 2,
          (example_db 2 [False, False, False, False, False, True])
             \<lparr>network_flows := [example_flow, example_flow\<lparr>flow_id := 2\<rparr>],
              correlation_results :=
                [correlation_record Config 1 1000 example_flow (example_guard 0),
                 correlation_record Config 2 1000 (example_flow\<lparr>flow_id := 2\<rparr>) (example_guard 0),
                 correlation_record Config 2 1000 (example_flow\<lparr>flow_id := 2\<rparr>) (example_guard 1)],
              faults := []\<rparr>)"
    unfolding rB c0 by (simp add: RB Config_simps)
  from a1 a2 a3 eA b1 b2 b3 eB c1 rC show ?thesis by blast
qed


section \<open>The batch is idempotent\<close>

lemma correlate_all_no_fault:
  assumes "faults db = []"
  shows "correlate_all_flows cfg db =
           (Batch (length (uncorrelated_flow_ids db))
              (sum_list (map (\<lambda>i. length (take (MAX_CANDIDATE_NODES cfg)
                               (sort_key (\<lambda>c. - confidence_score c) (flow_results cfg i db))))
                 (uncorrelated_flow_ids db))),
            db\<lparr>correlation_results :=
                 correlation_results db
                 @ concat (map (\<lambda>i. flow_results cfg i db) (uncorrelated_flow_ids db))\<rparr>)"
  by (simp add: correlate_all_flows_def get_connection_no_fault [OF assms]
      correlate_each_no_fault [OF assms])

lemma uncorrelated_set:
  "set (uncorrelated_flow_ids db) =
     {flow_id f | f. f \<in> set (network_flows db)
        \<and> (\<forall>c \<in> set (correlation_results db). cr_flow_id c \<noteq> flow_id f)}"
  unfolding uncorrelated_flow_ids_def by (force simp: image_iff)

lemma second_pass_empty:
  assumes "db1 = db\<lparr>correlation_results :=
                 correlation_results db
                 @ concat (map (\<lambda>i. flow_results cfg i db) (uncorrelated_flow_ids db))\<rparr>"
    and "i \<in> set (uncorrelated_flow_ids db1)"
  shows "flow_results cfg i db1 = []"
proof (rule ccontr)
  assume ne: "flow_results cfg i db1 \<noteq> []"
  have fr: "flow_results cfg i db1 = flow_results cfg i db"
    unfolding assms(1) by (rule flow_results_tables) simp_all
  from ne obtain r where r: "r \<in> set (flow_results cfg i db)"
    unfolding fr by (cases "flow_results cfg i db") auto
  then have id: "cr_flow_id r = i" by (rule flow_results_flow_id)
  from assms(2) have unc: "\<forall>c \<in> set (correlation_results db1). cr_flow_id c \<noteq> i"
    and inflows: "\<exists>f \<in> set (network_flows db). flow_id f = i"
    unfolding uncorrelated_set assms(1) by auto
  from unc have old: "\<forall>c \<in> set (correlation_results db). cr_flow_id c \<noteq> i"
    unfolding assms(1) by simp
  with inflows have "i \<in> set (uncorrelated_flow_ids db)"
    unfolding uncorrelated_set by auto
  with r have "r \<in> set (correlation_results db1)"
    unfolding assms(1) by auto
  with unc id show False by blast
qed

text \<open>
  Claim C8. Without datastore failures, \<open>correlate_all_flows\<close> selects exactly the
  flows that have no correlation record and processes that many; the records it writes
  belong to none of the flows that already had one; and a second run on the resulting
  datastore writes nothing and finds no correlation.
\<close>

theorem batch_idempotent:
  assumes "faults db = []"
  shows "set (uncorrelated_flow_ids db) =
           {flow_id f | f. f \<in> set (network_flows db)
              \<and> (\<forall>c \<in> set (correlation_results db). cr_flow_id c \<noteq> flow_id f)}
         \<and> (\<exists>found. fst (correlate_all_flows cfg db)
                       = Batch (length (uncorrelated_flow_ids db)) found)
         \<and> (\<exists>new. correlation_results (snd (correlate_all_flows cfg db))
                     = correlation_results db @ new
                   \<and> (\<forall>r \<in> set new. \<forall>c \<in> set (correlation_results db).
                         cr_flow_id r \<noteq> cr_flow_id c))
         \<and> correlation_results (snd (correlate_all_flows cfg (snd (correlate_all_flows cfg db))))
             = correlation_results (snd (correlate_all_flows cfg db))
         \<and> (\<exists>n. fst (correlate_all_flows cfg (snd (correlate_all_flows cfg db))) = Batch n 0)"
proof -
  let ?new = "concat (map (\<lambda>i. flow_results cfg i db) (uncorrelated_flow_ids db))"
  let ?db1 = "db\<lparr>correlation_results := correlation_results db @ ?new\<rparr>"
  have run1: "snd (correlate_all_flows cfg db) = ?db1"
    by (simp add: correlate_all_no_fault [OF assms])
  have nf1: "faults ?db1 = []" using assms by simp
  have fresh: "\<forall>r \<in> set ?new. \<forall>c \<in> set (correlation_results db). cr_flow_id r \<noteq> cr_flow_id c"
  proof (intro ballI)
    fix r c
    assume "r \<in> set ?new" and c: "c \<in> set (correlation_results db)"
    then obtain i where i: "i \<in> set (uncorrelated_flow_ids db)" "r \<in> set (flow_results cfg i db)"
      by auto
    from i(2) have "cr_flow_id r = i" by (rule flow_results_flow_id)
    with i(1) c show "cr_flow_id r \<noteq> cr_flow_id c"
      unfolding uncorrelated_set by force
  qed
  have empty: "flow_results cfg i ?db1 = []" if "i \<in> set (uncorrelated_flow_ids ?db1)" for i
    using second_pass_empty [OF refl that] .
  have c2: "concat (map (\<lambda>i. flow_results cfg i ?db1) (uncorrelated_flow_ids ?db1)) = []"
  proof -
    have "map (\<lambda>i. flow_results cfg i ?db1) (uncorrelated_flow_ids ?db1)
            = map (\<lambda>i. []) (uncorrelated_flow_ids ?db1)"
      by (rule map_cong [OF refl]) (simp add: empty)
    then show ?thesis by (simp only: concat_map_singleton concat_eq_Nil_conv set_map) auto
  qed
  have s2: "sum_list (map (\<lambda>i. length (take (MAX_CANDIDATE_NODES cfg)
                               (sort_key (\<lambda>c. - confidence_score c) (flow_results cfg i ?db1))))
                 (uncorrelated_flow_ids ?db1)) = 0"
  proof -
    have "map (\<lambda>i. length (take (MAX_CANDIDATE_NODES cfg)
                               (sort_key (\<lambda>c. - confidence_score c) (flow_results cfg i ?db1))))
                 (uncorrelated_flow_ids ?db1) = map (\<lambda>i. 0) (uncorrelated_flow_ids ?db1)"
      by (rule map_cong [OF refl]) (simp add: empty)
    then show ?thesis by (simp only: sum_list_0)
  qed
  have p1: "\<exists>found. fst (correlate_all_flows cfg db)
                       = Batch (length (uncorrelated_flow_ids db)) found"
    by (simp add: correlate_all_no_fault [OF assms])
  have p2: "\<exists>new. correlation_results (snd (correlate_all_flows cfg db))
                     = correlation_results db @ new
                   \<and> (\<forall>r \<in> set new. \<forall>c \<in> set (correlation_results db).
                         cr_flow_id r \<noteq> cr_flow_id c)"
    unfolding run1 using fresh by (intro exI[of _ ?new]) simp
  have p3: "correlation_results (snd (correlate_all_flows cfg (snd (correlate_all_flows cfg db))))
             = correlation_results (snd (correlate_all_flows cfg db))"
    unfolding run1 by (simp add: correlate_all_no_fault [OF nf1] c2)
  have p4: "\<exists>n. fst (correlate_all_flows cfg (snd (correlate_all_flows cfg db))) = Batch n 0"
    unfolding run1 by (simp only: correlate_all_no_fault [OF nf1] s2 fst_conv) blast
  from uncorrelated_set p1 p2 p3 p4 show ?thesis by blast
qed

theorem batch_idempotent_witness:
  "faults (example_db 2 []) = []
   \<and> fst (correlate_all_flows Config (example_db 2 [])) = Batch 1 2
   \<and> length (correlation_results (snd (correlate_all_flows Config (example_db 2 [])))) = 2
   \<and> correlation_results
        (snd (correlate_all_flows Config (snd (correlate_all_flows Config (example_db 2 [])))))
      = correlation_results (snd (correlate_all_flows Config (example_db 2 [])))
   \<and> (\<exists>n. fst (correlate_all_flows Config (snd (correlate_all_flows Config (example_db 2 []))))
             = Batch n 0)"
proof -
  have nf: "faults (example_db 2 []) = []" by (simp add: example_db_def)
  have ids: "uncorrelated_flow_ids (example_db 2 []) = [1]"
    by (simp add: uncorrelated_flow_ids_def example_db_def example_flow_def)
  have m: "MIN_CONFIDENCE_THRESHOLD Config \<le> 8106479329266893 / 9007199254740992"
    by (simp add: Config_simps)
  have two: "(2::nat) \<le> 100" by simp
  have c0: "correlation_results (example_db 2 []) = []" by (simp add: example_db_def)
  have first: "fst (correlate_all_flows Config (example_db 2 [])) = Batch 1 2"
    "length (correlation_results (snd (correlate_all_flows Config (example_db 2 [])))) = 2"
    unfolding correlate_all_no_fault [OF nf] ids
    by (simp_all add: example_results [OF two m] Config_simps c0)
  from batch_idempotent [OF nf, of Config] nf first show ?thesis by blast
qed


section \<open>The flow fingerprint\<close>

lemma py_int_truncates: "py_int x = truncate_toward_zero x"
  by (simp add: py_int_def truncate_toward_zero_def ceiling_def abs_if)

lemma inter_arrival_double_length: "length (inter_arrival_ms_double ps) = length ps - 1"
  by (induction ps rule: inter_arrival_ms_double.induct) simp_all

lemma inter_arrival_double_nth:
  "i < length ps - 1 \<Longrightarrow>
     inter_arrival_ms_double ps ! i =
       truncate_toward_zero (double (double (pkt_time (ps ! (i + 1)) - pkt_time (ps ! i)) * 1000))"
proof (induction ps arbitrary: i rule: inter_arrival_ms_double.induct)
  case (1 p q ps)
  then show ?case by (cases i) simp_all
qed simp_all

lemma code_times_eq:
  "(if length packets > 1
    then map (\<lambda>i. py_int (double (double (pkt_time (packets ! i) - pkt_time (packets ! (i - 1))) * 1000)))
           [1..<min (length packets) 20]
    else []) = inter_arrival_ms_double (take 20 packets)"
proof (cases "length packets > 1")
  case False
  then have "length (inter_arrival_ms_double (take 20 packets)) = 0"
    by (simp add: inter_arrival_double_length)
  with False show ?thesis by simp
next
  case True
  have "map (\<lambda>i. py_int (double (double (pkt_time (packets ! i) - pkt_time (packets ! (i - 1))) * 1000)))
           [1..<min (length packets) 20] = inter_arrival_ms_double (take 20 packets)"
  proof (rule nth_equalityI)
    show "length (map (\<lambda>i. py_int (double (double (pkt_time (packets ! i) - pkt_time (packets ! (i - 1))) * 1000)))
           [1..<min (length packets) 20]) = length (inter_arrival_ms_double (take 20 packets))"
      by (simp add: inter_arrival_double_length)
  next
    fix i
    assume "i < length (map (\<lambda>i. py_int (double (double (pkt_time (packets ! i) - pkt_time (packets ! (i - 1))) * 1000)))
           [1..<min (length packets) 20])"
    then have i: "i < min (length packets) 20 - 1" by simp
    then have "i < length (take 20 packets) - 1" by simp
    moreover from i have "Suc 0 + i < min (length packets) 20" by linarith
    then have "[Suc 0..<min (length packets) 20] ! i = Suc i" by (simp only: nth_upt)
    ultimately
    show "map (\<lambda>i. py_int (double (double (pkt_time (packets ! i) - pkt_time (packets ! (i - 1))) * 1000)))
           [1..<min (length packets) 20] ! i = inter_arrival_ms_double (take 20 packets) ! i"
      using i by (simp add: py_int_truncates inter_arrival_double_nth)
  qed
  with True show ?thesis by simp
qed

lemma fingerprint_unfold:
  "packets \<noteq> [] \<Longrightarrow>
     calculate_flow_fingerprint sha packets =
       take 32 (sha (''sizes:'' @ join '','' (map str_int (map (\<lambda>p. int (pkt_len p)) (take 20 packets)))
                     @ '';times:'' @ join '','' (map str_int (inter_arrival_ms_double (take 20 packets)))))"
  unfolding calculate_flow_fingerprint_def Let_def code_times_eq by simp

lemma str_int_values:
  "str_int 60 = ''60''" "str_int 1500 = ''1500''" "str_int 40 = ''40''"
  "str_int 12 = ''12''" "str_int (- 3) = ''-3''" "str_int 1000 = ''1000''" "str_int 1001 = ''1001''"
  by (simp_all add: str_int_def)

text \<open>
  Claim C1, as the code has it. An empty packet group has the empty fingerprint. Otherwise
  the fingerprint is the first 32 characters of the digest of
  \<open>sizes:s1,s2,...;times:t1,t2,...\<close>, where the sizes are the wire lengths of the first 20
  packets and the times are, over the same window, the successive differences of the
  capture times converted to binary64, multiplied by 1000 in binary64 and truncated toward
  zero: there are \<open>min 20 count - 1\<close> of them. Two groups with the same sizes and the same
  such times have the same fingerprint.
\<close>

theorem fingerprint_of_sizes_and_times:
  "calculate_flow_fingerprint sha [] = []
   \<and> (packets \<noteq> [] \<longrightarrow>
        calculate_flow_fingerprint sha packets =
          take 32 (sha (''sizes:''
                        @ join '','' (map str_int (map (\<lambda>p. int (pkt_len p)) (take 20 packets)))
                        @ '';times:''
                        @ join '','' (map str_int (inter_arrival_ms_double (take 20 packets))))))
   \<and> length (inter_arrival_ms_double (take 20 packets)) = min 20 (length packets) - 1
   \<and> (\<forall>i < min 20 (length packets) - 1.
         inter_arrival_ms_double (take 20 packets) ! i =
           truncate_toward_zero
             (double (double (pkt_time (packets ! (i + 1)) - pkt_time (packets ! i)) * 1000)))
   \<and> (map pkt_len (take 20 packets) = map pkt_len (take 20 packets')
        \<and> inter_arrival_ms_double (take 20 packets) = inter_arrival_ms_double (take 20 packets')
        \<longrightarrow> calculate_flow_fingerprint sha packets = calculate_flow_fingerprint sha packets')"
proof -
  have p1: "calculate_flow_fingerprint sha [] = []"
    by (simp add: calculate_flow_fingerprint_def)
  have p3: "length (inter_arrival_ms_double (take 20 packets)) = min 20 (length packets) - 1"
    by (simp add: inter_arrival_double_length min.commute)
  have p4: "\<forall>i < min 20 (length packets) - 1.
         inter_arrival_ms_double (take 20 packets) ! i =
           truncate_toward_zero
             (double (double (pkt_time (packets ! (i + 1)) - pkt_time (packets ! i)) * 1000))"
  proof (intro allI impI)
    fix i assume i: "i < min 20 (length packets) - 1"
    then have "i < length (take 20 packets) - 1" by (simp add: min.commute)
    from inter_arrival_double_nth [OF this] i show "inter_arrival_ms_double (take 20 packets) ! i =
           truncate_toward_zero
             (double (double (pkt_time (packets ! (i + 1)) - pkt_time (packets ! i)) * 1000))"
      by simp
  qed
  have p5: "calculate_flow_fingerprint sha packets = calculate_flow_fingerprint sha packets'"
    if s: "map pkt_len (take 20 packets) = map pkt_len (take 20 packets')"
      and t: "inter_arrival_ms_double (take 20 packets) = inter_arrival_ms_double (take 20 packets')"
  proof (cases "packets = []")
    case True
    with s have "packets' = []" by (cases packets') simp_all
    with True show ?thesis by simp
  next
    case False
    with s have ne: "packets' \<noteq> []" by (cases packets) auto
    have "map (\<lambda>p. int (pkt_len p)) (take 20 packets) = map (\<lambda>p. int (pkt_len p)) (take 20 packets')"
      using arg_cong [OF s, of "map int"] by (simp add: o_def)
    with t show ?thesis
      by (simp only: fingerprint_unfold [OF False] fingerprint_unfold [OF ne])
  qed
  from p1 fingerprint_unfold [of packets sha] p3 p4 p5 show ?thesis by blast
qed

theorem fingerprint_of_sizes_and_times_witness:
  "[\<lparr>pkt_len = 60, pkt_time = 0\<rparr>, \<lparr>pkt_len = 1500, pkt_time = 0.0125\<rparr>,
    \<lparr>pkt_len = 40, pkt_time = 0.0095\<rparr>] \<noteq> []
   \<and> calculate_flow_fingerprint id
        [\<lparr>pkt_len = 60, pkt_time = 0\<rparr>, \<lparr>pkt_len = 1500, pkt_time = 0.0125\<rparr>,
         \<lparr>pkt_len = 40, pkt_time = 0.0095\<rparr>]
      = take 32 ''sizes:60,1500,40;times:12,-3''"
proof -
  let ?pkts = "[\<lparr>pkt_len = 60, pkt_time = 0\<rparr>, \<lparr>pkt_len = 1500, pkt_time = 0.0125\<rparr>,
         \<lparr>pkt_len = 40, pkt_time = 0.0095\<rparr>]"
  have t: "truncate_toward_zero (25 / 2) = 12" "truncate_toward_zero (- 3) = - 3"
    by (simp_all add: truncate_toward_zero_def)
  have ne: "?pkts \<noteq> []" by simp
  have ia: "inter_arrival_ms_double (take 20 ?pkts) = [12, - 3]"
    by (simp add: double_minus double_values t)
  have main: "calculate_flow_fingerprint id ?pkts = take 32 ''sizes:60,1500,40;times:12,-3''"
    unfolding fingerprint_unfold [OF ne] ia by (simp add: str_int_values)
  from fingerprint_of_sizes_and_times [of id ?pkts "[]"] ne main show ?thesis
    by blast
qed

text \<open>
  Claim C1 as stated fails. For two packets 1.001 seconds apart the inter-arrival time in
  milliseconds truncated toward zero is 1001, but the float product is below 1001 and the
  code puts 1000 into the hashed string. Packets 1.0015 seconds apart have the same
  truncated inter-arrival time, 1001, and the same sizes, and get another hashed string.
\<close>

theorem float_product_counterexample:
  "inter_arrival_ms [\<lparr>pkt_len = 60, pkt_time = 0\<rparr>, \<lparr>pkt_len = 60, pkt_time = 1.001\<rparr>] = [1001]
   \<and> inter_arrival_ms [\<lparr>pkt_len = 60, pkt_time = 0\<rparr>, \<lparr>pkt_len = 60, pkt_time = 1.0015\<rparr>] = [1001]
   \<and> calculate_flow_fingerprint id
        [\<lparr>pkt_len = 60, pkt_time = 0\<rparr>, \<lparr>pkt_len = 60, pkt_time = 1.001\<rparr>]
      = ''sizes:60,60;times:1000''
   \<and> calculate_flow_fingerprint id
        [\<lparr>pkt_len = 60, pkt_time = 0\<rparr>, \<lparr>pkt_len = 60, pkt_time = 1.0015\<rparr>]
      = ''sizes:60,60;times:1001''
   \<and> calculate_flow_fingerprint id
        [\<lparr>pkt_len = 60, pkt_time = 0\<rparr>, \<lparr>pkt_len = 60, pkt_time = 1.001\<rparr>]
      \<noteq> calculate_flow_fingerprint id
        [\<lparr>pkt_len = 60, pkt_time = 0\<rparr>, \<lparr>pkt_len = 60, pkt_time = 1.0015\<rparr>]"
proof -
  let ?a = "[\<lparr>pkt_len = 60, pkt_time = 0\<rparr>, \<lparr>pkt_len = 60, pkt_time = 1.001\<rparr>]"
  let ?b = "[\<lparr>pkt_len = 60, pkt_time = 0\<rparr>, \<lparr>pkt_len = 60, pkt_time = 1.0015\<rparr>]"
  have e: "inter_arrival_ms ?a = [1001]" "inter_arrival_ms ?b = [1001]"
    by (simp_all add: truncate_toward_zero_def)
  have t: "truncate_toward_zero (8804889115230207 / 8796093022208) = 1000"
    "truncate_toward_zero (2003 / 2) = 1001"
    by (simp_all add: truncate_toward_zero_def)
  have ia: "inter_arrival_ms_double (take 20 ?a) = [1000]"
    "inter_arrival_ms_double (take 20 ?b) = [1001]"
    by (simp_all add: double_values t)
  have ne: "?a \<noteq> []" "?b \<noteq> []" by simp_all
  have fa: "calculate_flow_fingerprint id ?a = ''sizes:60,60;times:1000''"
    unfolding fingerprint_unfold [OF ne(1)] ia by (simp add: str_int_values)
  have fb: "calculate_flow_fingerprint id ?b = ''sizes:60,60;times:1001''"
    unfolding fingerprint_unfold [OF ne(2)] ia by (simp add: str_int_values)
  have "calculate_flow_fingerprint id ?a \<noteq> calculate_flow_fingerprint id ?b"
    unfolding fa fb by simp
  with e fa fb show ?thesis by blast
qed

end
